theory Spec2Isabelle
  imports Complex_Main
begin

section \<open>types.ts: the shared data model\<close>

text \<open>
  JavaScript numbers are modelled by the numbers they denote: \<open>real\<close> for the losses and
  scores, \<open>nat\<close> for counters that the program only ever increments from zero, \<open>int\<close>
  for the step index (which the program also decrements). The value of \<open>currentLoss\<close>
  of a tick is computed in exact arithmetic (\<open>Math.exp\<close> is not correctly rounded in
  any engine, so its double result has no exact description); what the program derives
  from that value is modelled as the program computes it: the two roundings to three
  decimals, the subtraction \<open>1 - currentLoss\<close> in double precision, and the quality
  score with its subtraction and product in double precision. A decimal string read
  back by \<open>parseFloat\<close> is identified with the decimal number it denotes.
\<close>

datatype ModelType = fnn | rnn | lstm

record TrainingMetric =
  epoch :: nat
  loss :: real
  accuracy :: real

record TrainingParams =
  epochs :: nat
  learningRate :: real

datatype View = folded | unfolded

text \<open>
  \<open>StepInfo\<close>: the display texts (\<open>title\<close>, \<open>desc\<close>, \<open>formula\<close>, \<open>formulaDesc\<close>) are
  static prose that no operation reads; the model keeps the three fields that select
  diagram elements.
\<close>

record StepInfo =
  highlightIds :: "string list"
  view :: "View option"
  fadeIds :: "string list option"

text \<open>
  Values that \<open>JSON.parse\<close> can return; an object is the list of its members, each key
  once. \<open>CoupletResult\<close> declares \<open>lower\<close> and \<open>explanation\<close> as strings, but the
  service fills them from parsed JSON without a check, so at run time they hold whatever
  JSON value arrived; the model keeps that.
\<close>

datatype json =
  JNull | JBool bool | JNum real | JStr string | JArr "json list" | JObj "(string \<times> json) list"

record CoupletResult =
  upper :: string
  lower :: json
  explanation :: json
  qualityScore :: "int option"

section \<open>Double precision\<close>

text \<open>
  The result of an arithmetic operation on doubles is the exact result rounded to the
  nearest double, a tie going to the double with an even significand. A double has a
  significand of 53 bits; below \<open>2 ^ -1022\<close> the spacing stays that of the smallest
  normal binade. Overflow to infinity is left out: every number of this program is far
  below \<open>2 ^ 1024\<close>.
\<close>

definition roundEven :: "real \<Rightarrow> int" where
  "roundEven z =
     (let f = \<lfloor>z\<rfloor> in
      if z - of_int f < 1/2 then f
      else if 1/2 < z - of_int f then f + 1
      else if even f then f else f + 1)"

text \<open>The binade of \<open>x\<close> and the spacing of the doubles in it.\<close>

definition binade :: "real \<Rightarrow> int" where
  "binade x = max \<lfloor>log 2 \<bar>x\<bar>\<rfloor> (- 1022)"

definition ulp :: "real \<Rightarrow> real" where
  "ulp x = 2 powr (of_int (binade x) - 52)"

definition toDouble :: "real \<Rightarrow> real" where
  "toDouble x = (if x = 0 then 0 else of_int (roundEven (x / ulp x)) * ulp x)"

section \<open>Number formatting\<close>

text \<open>
  \<open>parseFloat(x.toFixed(3))\<close>: the multiple of \<open>1/1000\<close> nearest to \<open>x\<close>; of two
  equally near ones \<open>toFixed\<close> takes the larger for \<open>x \<ge> 0\<close>, and treats a negative
  \<open>x\<close> through its absolute value.
\<close>

definition toFixed3 :: "real \<Rightarrow> real" where
  "toFixed3 x =
     (if x < 0 then - (real_of_int (round (- x * 1000)) / 1000)
      else real_of_int (round (x * 1000)) / 1000)"

definition digitChar :: "nat \<Rightarrow> char" where
  "digitChar d = char_of (of_char (CHR ''0'') + d)"

function showNat :: "nat \<Rightarrow> string" where
  "showNat n = (if n < 10 then [digitChar n] else showNat (n div 10) @ [digitChar (n mod 10)])"
  by pat_completeness auto
termination
  by (relation "measure id") auto

declare showNat.simps [simp del]

section \<open>services/geminiService.ts\<close>

subsection \<open>Quality score\<close>

text \<open>
  \<open>Math.round(x)\<close> is \<open>floor (x + 1/2)\<close>, which is HOL's \<open>round\<close>. The score
  expression of the success path is
  \<open>Math.max(0, Math.min(100, Math.round((1 - loss) * 100)))\<close>: the difference and the
  product are each rounded to a double; \<open>Math.round\<close>, \<open>Math.min\<close> and \<open>Math.max\<close>
  are exact.
\<close>

definition qualityScoreOf :: "real \<Rightarrow> int" where
  "qualityScoreOf l = max 0 (min 100 (round (toDouble (toDouble (1 - l) * 100))))"

subsection \<open>JavaScript values and errors\<close>

datatype jsError = Error string | TypeError string | SyntaxError string

fun message :: "jsError \<Rightarrow> string" where
  "message (Error m) = m"
| "message (TypeError m) = m"
| "message (SyntaxError m) = m"

text \<open>A JavaScript value that may be \<open>undefined\<close>: \<open>None\<close> is \<open>undefined\<close>.\<close>

type_synonym jsval = "json option"

text \<open>
  \<open>v.key\<close> on a value that is not \<open>undefined\<close>. Reading a property of \<open>null\<close> throws a
  TypeError (the wording is V8's). The keys read by the service (\<open>candidates\<close>,
  \<open>content\<close>, \<open>parts\<close>, \<open>text\<close>, \<open>lower\<close>, \<open>explanation\<close>) are properties of no array,
  string, number or boolean, so those give \<open>undefined\<close>.
\<close>

definition nullRead :: "string \<Rightarrow> jsError" where
  "nullRead key =
     TypeError (''Cannot read properties of null (reading '' @ [CHR 0x27] @ key @ [CHR 0x27] @ '')'')"

fun getMember :: "json \<Rightarrow> string \<Rightarrow> jsError + jsval" where
  "getMember JNull key = Inl (nullRead key)"
| "getMember (JObj kvs) key = Inr (map_of kvs key)"
| "getMember _ key = Inr None"

text \<open>\<open>v?.key\<close>: \<open>undefined\<close> when \<open>v\<close> is \<open>undefined\<close> or \<open>null\<close>; it never throws.\<close>

fun optMember :: "jsval \<Rightarrow> string \<Rightarrow> jsval" where
  "optMember None key = None"
| "optMember (Some JNull) key = None"
| "optMember (Some (JObj kvs)) key = map_of kvs key"
| "optMember (Some _) key = None"

text \<open>\<open>v?.[0]\<close>: the first element of an array, the first character of a string.\<close>

fun optFirst :: "jsval \<Rightarrow> jsval" where
  "optFirst None = None"
| "optFirst (Some JNull) = None"
| "optFirst (Some (JArr xs)) = (case xs of [] \<Rightarrow> None | x # _ \<Rightarrow> Some x)"
| "optFirst (Some (JStr s)) = (case s of [] \<Rightarrow> None | c # _ \<Rightarrow> Some (JStr [c]))"
| "optFirst (Some (JObj kvs)) = map_of kvs ''0''"
| "optFirst (Some _) = None"

text \<open>\<open>!v\<close>: the falsy values among those JSON can carry.\<close>

fun falsy :: "jsval \<Rightarrow> bool" where
  "falsy None = True"
| "falsy (Some JNull) = True"
| "falsy (Some (JBool b)) = (\<not> b)"
| "falsy (Some (JNum n)) = (n = 0)"
| "falsy (Some (JStr s)) = (s = [])"
| "falsy (Some _) = False"

subsection \<open>The environment of the call\<close>

datatype FitLabel = Underfitted | Converged | Partial

text \<open>
  The system prompt is a text assembled from fixed templates. The model records which
  template each choice point selects and the values spliced in, not the prose.
\<close>

record SystemPrompt =
  promptUpper :: string
  promptLength :: nat
  promptArch :: ModelType
  promptStatus :: FitLabel
  promptLoss :: real
  promptQualityBlock :: FitLabel
  promptArchBlock :: ModelType

record Request =
  requestKey :: string
  systemInstruction :: SystemPrompt
  userUpper :: string

record Response =
  ok :: bool
  statusCode :: nat
  body :: string

text \<open>
  Everything outside the function: the configured key (\<open>process.env.API_KEY\<close>), the
  network (\<open>fetch\<close> rejects with an error or resolves with a response, whose body is
  then read without error), the JSON parser (\<open>response.json()\<close> is the parser applied
  to the body), and JavaScript's conversion of a non-string value to a string (applied
  by \<open>JSON.parse\<close> to its argument).
\<close>

record Env =
  apiKey :: "string option"
  fetch :: "Request \<Rightarrow> jsError + Response"
  JSON_parse :: "string \<Rightarrow> jsError + json"
  String_of :: "json \<Rightarrow> string"

record TrainingContext =
  ctxLoss :: real
  ctxEpochs :: nat

subsection \<open>generateCouplet\<close>

text \<open>\<open>trainingContext?.loss ?? 0.1\<close>\<close>

definition contextLoss :: "TrainingContext option \<Rightarrow> real" where
  "contextLoss ctx = (case ctx of None \<Rightarrow> 0.1 | Some c \<Rightarrow> ctxLoss c)"

definition fitStatus :: "real \<Rightarrow> FitLabel" where
  "fitStatus l =
     (let isConverged = l < 0.2; isUnderfitted = l > 0.4
      in if isUnderfitted then Underfitted else if isConverged then Converged else Partial)"

text \<open>
  \<open>upper.length\<close> counts UTF-16 code units. In the UTF-8 bytes of a text every
  character has one byte that is not a continuation byte (\<open>80\<close> to \<open>BF\<close>); it takes
  one code unit, and two if its first byte is \<open>F0\<close> or above (four bytes in UTF-8).
\<close>

definition utf16Length :: "string \<Rightarrow> nat" where
  "utf16Length bs =
     length (filter (\<lambda>c. \<not> ((0x80::nat) \<le> of_char c \<and> of_char c < (0xC0::nat))) bs)
     + length (filter (\<lambda>c. (0xF0::nat) \<le> of_char c) bs)"

definition buildPrompt :: "string \<Rightarrow> ModelType \<Rightarrow> TrainingContext option \<Rightarrow> SystemPrompt" where
  "buildPrompt up mt ctx =
     (let l = contextLoss ctx in
      \<lparr> promptUpper = up, promptLength = utf16Length up, promptArch = mt,
        promptStatus = fitStatus l, promptLoss = toFixed3 l,
        promptQualityBlock = fitStatus l, promptArchBlock = mt \<rparr>)"

text \<open>\<open>data.candidates?.[0]?.content?.parts?.[0]?.text\<close>\<close>

definition extractText :: "json \<Rightarrow> jsError + jsval" where
  "extractText data =
     (case getMember data ''candidates'' of
        Inl e \<Rightarrow> Inl e
      | Inr candidates \<Rightarrow>
          Inr (optMember (optFirst (optMember (optMember (optFirst candidates) ''content'') ''parts'')) ''text''))"

text \<open>\<open>x || d\<close>\<close>

definition orElse :: "jsval \<Rightarrow> json \<Rightarrow> json" where
  "orElse v d = (if falsy v then d else (case v of Some x \<Rightarrow> x | None \<Rightarrow> d))"

text \<open>
  The three fixed texts of the result, as UTF-8 bytes: the failure marker of the
  \<open>catch\<close> branch ("call failed"), the defaults of the success branch for a missing
  \<open>lower\<close> ("generation failed") and a missing \<open>explanation\<close> ("cannot explain"), and
  the prefix of the failure explanation ("make sure a Google Gemini API Key is
  configured. Error details: ").
\<close>

definition callFailed :: string where
  "callFailed = [CHR 0xE8, CHR 0xB0, CHR 0x83, CHR 0xE7, CHR 0x94, CHR 0xA8,
                 CHR 0xE5, CHR 0xA4, CHR 0xB1, CHR 0xE8, CHR 0xB4, CHR 0xA5]"

definition generationFailed :: string where
  "generationFailed = [CHR 0xE7, CHR 0x94, CHR 0x9F, CHR 0xE6, CHR 0x88, CHR 0x90,
                       CHR 0xE5, CHR 0xA4, CHR 0xB1, CHR 0xE8, CHR 0xB4, CHR 0xA5]"

definition cannotExplain :: string where
  "cannotExplain = [CHR 0xE6, CHR 0x97, CHR 0xA0, CHR 0xE6, CHR 0xB3, CHR 0x95,
                    CHR 0xE8, CHR 0xA7, CHR 0xA3, CHR 0xE9, CHR 0x87, CHR 0x8A]"

definition failurePrefix :: string where
  "failurePrefix =
     [CHR 0xE8, CHR 0xAF, CHR 0xB7, CHR 0xE7, CHR 0xA1, CHR 0xAE, CHR 0xE4, CHR 0xBF, CHR 0x9D,
      CHR 0xE5, CHR 0xB7, CHR 0xB2, CHR 0xE9, CHR 0x85, CHR 0x8D, CHR 0xE7, CHR 0xBD, CHR 0xAE]
     @ '' Google Gemini API Key''
     @ [CHR 0xE3, CHR 0x80, CHR 0x82, CHR 0xE9, CHR 0x94, CHR 0x99, CHR 0xE8, CHR 0xAF, CHR 0xAF,
        CHR 0xE8, CHR 0xAF, CHR 0xA6, CHR 0xE6, CHR 0x83, CHR 0x85]
     @ '': ''"

text \<open>The request handed to \<open>fetch\<close>: the key in the URL, the system prompt, the user text.\<close>

definition requestOf :: "string \<Rightarrow> string \<Rightarrow> ModelType \<Rightarrow> TrainingContext option \<Rightarrow> Request" where
  "requestOf k up mt ctx =
     \<lparr> requestKey = k, systemInstruction = buildPrompt up mt ctx, userUpper = up \<rparr>"

text \<open>
  \<open>JSON.parse(text)\<close> converts its argument to a string first: a string is taken as it
  is, any other value goes through the environment's conversion.
\<close>

definition parseArgument :: "Env \<Rightarrow> jsval \<Rightarrow> string" where
  "parseArgument env txt =
     (case txt of Some (JStr s) \<Rightarrow> s | Some v \<Rightarrow> String_of env v | None \<Rightarrow> [])"

text \<open>The body of the \<open>try\<close> block: \<open>Inl\<close> is a thrown error, \<open>Inr\<close> the value returned.\<close>

definition tryBody ::
  "Env \<Rightarrow> string \<Rightarrow> ModelType \<Rightarrow> TrainingContext option \<Rightarrow> jsError + CoupletResult" where
  "tryBody env up mt ctx =
     (let l = contextLoss ctx in
      case apiKey env of
        None \<Rightarrow> Inl (Error ''API Key is missing'')
      | Some k \<Rightarrow>
          if k = [] then Inl (Error ''API Key is missing'')
          else
            (case fetch env (requestOf k up mt ctx) of
               Inl e \<Rightarrow> Inl e
             | Inr response \<Rightarrow>
                 if \<not> ok response
                 then Inl (Error (''Gemini API Error: '' @ showNat (statusCode response)
                                   @ '' - '' @ body response))
                 else
                   (case JSON_parse env (body response) of
                      Inl e \<Rightarrow> Inl e
                    | Inr data \<Rightarrow>
                        (case extractText data of
                           Inl e \<Rightarrow> Inl e
                         | Inr txt \<Rightarrow>
                             if falsy txt then Inl (Error ''No response from Gemini API'')
                             else
                               (case JSON_parse env (parseArgument env txt) of
                                  Inl e \<Rightarrow> Inl e
                                | Inr result \<Rightarrow>
                                    (case getMember result ''lower'' of
                                       Inl e \<Rightarrow> Inl e
                                     | Inr lo \<Rightarrow>
                                         (case getMember result ''explanation'' of
                                            Inl e \<Rightarrow> Inl e
                                          | Inr ex \<Rightarrow>
                                              Inr \<lparr> upper = up,
                                                    lower = orElse lo (JStr generationFailed),
                                                    explanation = orElse ex (JStr cannotExplain),
                                                    qualityScore = Some (qualityScoreOf l) \<rparr>)))))))"

text \<open>The object returned by the \<open>catch\<close> block for the caught error.\<close>

definition failureResult :: "string \<Rightarrow> jsError \<Rightarrow> CoupletResult" where
  "failureResult up e =
     \<lparr> upper = up, lower = JStr callFailed,
       explanation = JStr (failurePrefix @ message e), qualityScore = Some 0 \<rparr>"

text \<open>
  The promise returned by \<open>generateCouplet\<close>: \<open>Inl\<close> would be a rejection, \<open>Inr\<close> is
  the value it resolves to.
\<close>

definition generateCouplet ::
  "Env \<Rightarrow> string \<Rightarrow> ModelType \<Rightarrow> TrainingContext option \<Rightarrow> jsError + CoupletResult" where
  "generateCouplet env up mt ctx =
     (case tryBody env up mt ctx of
        Inl e \<Rightarrow> Inr (failureResult up e)
      | Inr r \<Rightarrow> Inr r)"

section \<open>App.tsx: the step catalogue and the stepper\<close>

fun STEPS_DATA :: "ModelType \<Rightarrow> StepInfo list" where
  "STEPS_DATA fnn =
     [ \<lparr> highlightIds = [], view = None, fadeIds = None \<rparr>,
       \<lparr> highlightIds = [''fnn-node-l0''], view = None, fadeIds = None \<rparr>,
       \<lparr> highlightIds = [''fnn-node-l1'', ''fnn-node-l2'', ''fnn-link-l0'', ''fnn-link-l1''],
         view = None, fadeIds = None \<rparr>,
       \<lparr> highlightIds = [''fnn-node-l3'', ''fnn-link-l2''], view = None, fadeIds = None \<rparr> ]"
| "STEPS_DATA rnn =
     [ \<lparr> highlightIds = [''path-rf-loop'', ''rnn-f-cell''], view = Some folded, fadeIds = None \<rparr>,
       \<lparr> highlightIds = [], view = Some unfolded, fadeIds = None \<rparr>,
       \<lparr> highlightIds = [''rnn-mem-arrow''], view = Some unfolded, fadeIds = None \<rparr>,
       \<lparr> highlightIds = [''rnn-step-4''], view = Some unfolded,
         fadeIds = Some [''rnn-step-0'', ''rnn-step-1'', ''rnn-step-2''] \<rparr> ]"
| "STEPS_DATA lstm =
     [ \<lparr> highlightIds = [''lstm-path-c''], view = None, fadeIds = None \<rparr>,
       \<lparr> highlightIds = [''lstm-forget-gate'', ''lstm-forget-path''], view = None, fadeIds = None \<rparr>,
       \<lparr> highlightIds = [''lstm-input-gate'', ''lstm-input-path''], view = None, fadeIds = None \<rparr>,
       \<lparr> highlightIds = [''lstm-output-gate'', ''lstm-output-path'', ''lstm-path-out''],
         view = None, fadeIds = None \<rparr> ]"

record AppState =
  activeTab :: ModelType
  stepIndex :: int

definition initialApp :: AppState where
  "initialApp = \<lparr> activeTab = fnn, stepIndex = 0 \<rparr>"

definition handleTabChange :: "ModelType \<Rightarrow> AppState \<Rightarrow> AppState" where
  "handleTabChange type s = s\<lparr> activeTab := type, stepIndex := 0 \<rparr>"

definition setStepIndex :: "int \<Rightarrow> AppState \<Rightarrow> AppState" where
  "setStepIndex idx s = s\<lparr> stepIndex := idx \<rparr>"

text \<open>The \<open>steps\<close> prop handed to the visualizer: \<open>STEPS_DATA[activeTab]\<close>.\<close>

definition steps :: "AppState \<Rightarrow> StepInfo list" where
  "steps s = STEPS_DATA (activeTab s)"

section \<open>components/NetworkVisualizer.tsx: the two navigation buttons\<close>

text \<open>
  Each button carries its guard as the \<open>disabled\<close> attribute; a disabled button does
  not run its \<open>onClick\<close>. A click is therefore the guard followed by the handler.
\<close>

definition previousDisabled :: "AppState \<Rightarrow> bool" where
  "previousDisabled s = (stepIndex s = 0)"

definition nextDisabled :: "AppState \<Rightarrow> bool" where
  "nextDisabled s = (stepIndex s = int (length (steps s)) - 1)"

definition clickPrevious :: "AppState \<Rightarrow> AppState" where
  "clickPrevious s = (if previousDisabled s then s else setStepIndex (stepIndex s - 1) s)"

definition clickNext :: "AppState \<Rightarrow> AppState" where
  "clickNext s = (if nextDisabled s then s else setStepIndex (stepIndex s + 1) s)"

text \<open>\<open>steps[stepIndex]\<close>, which is \<open>undefined\<close> outside the array.\<close>

definition currentStep :: "AppState \<Rightarrow> StepInfo option" where
  "currentStep s =
     (if 0 \<le> stepIndex s \<and> stepIndex s < int (length (steps s))
      then Some (steps s ! nat (stepIndex s)) else None)"

datatype StepperOp = SelectArchitecture ModelType | Next | Previous

fun applyOp :: "StepperOp \<Rightarrow> AppState \<Rightarrow> AppState" where
  "applyOp (SelectArchitecture a) s = handleTabChange a s"
| "applyOp Next s = clickNext s"
| "applyOp Previous s = clickPrevious s"

definition runOps :: "StepperOp list \<Rightarrow> AppState" where
  "runOps ops = foldl (\<lambda>s op. applyOp op s) initialApp ops"

section \<open>components/TrainingLab.tsx\<close>

subsection \<open>State\<close>

datatype Status = idle | training | completed

text \<open>
  The variables that \<open>trainStep\<close> closes over: the counter \<open>currentEpoch\<close> and the
  constants computed by \<open>startTraining\<close>, together with the \<open>params\<close> and the
  \<open>modelType\<close> of the render in which \<open>startTraining\<close> was created.
\<close>

record TrainRun =
  currentEpoch :: nat
  totalEpochs :: nat
  lrFactor :: real
  targetLoss :: real
  capturedParams :: TrainingParams
  capturedModel :: ModelType

text \<open>
  The component's state hooks, its \<open>modelType\<close> prop and its \<open>trainingRef\<close>, followed by
  the part of the browser the component talks to: the table of pending timeouts (the
  callback of each is \<open>trainStep\<close> with its closure), the next timer identifier, and
  the number of \<open>Math.random()\<close> calls made so far, and the promise of a
  \<open>generateCouplet\<close> call on which \<open>handleGenerate\<close> is waiting, with the value it
  will settle to (\<open>Inl\<close> a rejection, \<open>Inr\<close> the result). Texts are UTF-8 byte
  strings.
\<close>

record LabState =
  modelType :: ModelType
  params :: TrainingParams
  status :: Status
  metrics :: "TrainingMetric list"
  progress :: real
  finalLoss :: real
  testInput :: string
  isGenerating :: bool
  testResult :: "CoupletResult option"
  trainingRef :: "nat option"
  timers :: "nat \<Rightarrow> TrainRun option"
  nextTimerId :: nat
  rngPos :: nat
  inflight :: "(jsError + CoupletResult) option"

text \<open>The initial text of the input field, five Chinese characters.\<close>

definition initialInput :: string where
  "initialInput = [CHR 0xE5, CHR 0xAE, CHR 0x8B, CHR 0xE5, CHR 0x9F, CHR 0x8E, CHR 0xE5, CHR 0x8D, CHR 0x83,
                   CHR 0xE5, CHR 0x8F, CHR 0xA4, CHR 0xE6, CHR 0x83, CHR 0x85]"

text \<open>
  The state after mounting. \<open>setTimeout\<close> returns integers greater than zero, so the
  first identifier is 1.
\<close>

definition initialLab :: "ModelType \<Rightarrow> LabState" where
  "initialLab mt =
     \<lparr> modelType = mt, params = \<lparr> epochs = 50, learningRate = 0.01 \<rparr>, status = idle,
       metrics = [], progress = 0, finalLoss = 1.0, testInput = initialInput,
       isGenerating = False, testResult = None,
       trainingRef = None, timers = (\<lambda>i. None), nextTimerId = 1, rngPos = 0,
       inflight = None \<rparr>"

subsection \<open>Handlers\<close>

text \<open>\<open>handleParamChange\<close>; the two arguments are the optional fields of the partial record.\<close>

definition handleParamChange :: "nat option \<Rightarrow> real option \<Rightarrow> LabState \<Rightarrow> LabState" where
  "handleParamChange newEpochs newRate s =
     (let s1 = s\<lparr> params :=
                  \<lparr> epochs = (case newEpochs of Some e \<Rightarrow> e | None \<Rightarrow> epochs (params s)),
                    learningRate = (case newRate of Some r \<Rightarrow> r | None \<Rightarrow> learningRate (params s)) \<rparr> \<rparr>
      in if status s = completed then s1\<lparr> status := idle, testResult := None \<rparr> else s1)"

text \<open>
  \<open>clearTimeout(id)\<close> removes the pending timeout \<open>id\<close>, if there is one. The guard
  \<open>if (trainingRef.current)\<close> is false for \<open>undefined\<close> and for 0.
\<close>

definition clearTimeout :: "nat \<Rightarrow> LabState \<Rightarrow> LabState" where
  "clearTimeout i s = s\<lparr> timers := (timers s)(i := None) \<rparr>"

definition resetLab :: "LabState \<Rightarrow> LabState" where
  "resetLab s =
     (let s1 = s\<lparr> status := idle, metrics := [], progress := 0, testResult := None,
                  finalLoss := 1.0 \<rparr>
      in case trainingRef s1 of
           Some i \<Rightarrow> if i \<noteq> 0 then clearTimeout i s1 else s1
         | None \<Rightarrow> s1)"

text \<open>
  \<open>trainStep\<close> for the closure \<open>r\<close>, with the random source \<open>rnd\<close> (\<open>rnd n\<close> is the
  value of the \<open>n\<close>-th call of \<open>Math.random()\<close>). It returns the sample it appends and
  the new state. The delay passed to \<open>setTimeout\<close> only sets the pace and is left out.
  For \<open>totalEpochs = 0\<close> JavaScript divides by zero to \<open>Infinity\<close>; the properties
  below are about runs with at least one epoch.
\<close>

definition trainStep :: "(nat \<Rightarrow> real) \<Rightarrow> TrainRun \<Rightarrow> LabState \<Rightarrow> TrainingMetric \<times> LabState" where
  "trainStep rnd r s =
     (let currentEpoch' = currentEpoch r + 1;
          progressRatio = real currentEpoch' / real (totalEpochs r);
          decay = exp (- progressRatio * 5 * lrFactor r);
          noiseMagnitude = learningRate (capturedParams r) * 2;
          noise = (rnd (rngPos s) - 0.5) * noiseMagnitude;
          loss0 = targetLoss r + (decay * (1 - targetLoss r)) + noise;
          loss1 = max 0 (min 1 loss0);
          quirk = (capturedModel r = rnn \<and> progressRatio > 0.5);
          currentLoss = (if quirk then loss1 + rnd (rngPos s + 1) * 0.05 else loss1);
          pos = (if quirk then rngPos s + 2 else rngPos s + 1);
          m = \<lparr> epoch = currentEpoch', loss = toFixed3 currentLoss,
                accuracy = toFixed3 (toDouble (1 - currentLoss)) \<rparr>;
          newMetrics = metrics s @ [m];
          s1 = s\<lparr> metrics := (if length newMetrics > 50
                                then drop (length newMetrics - 50) newMetrics else newMetrics),
                  progress := real currentEpoch' / real (totalEpochs r) * 100,
                  rngPos := pos \<rparr>
      in if currentEpoch' < totalEpochs r
         then (m, s1\<lparr> timers := (timers s1)(nextTimerId s1 \<mapsto> r\<lparr> currentEpoch := currentEpoch' \<rparr>),
                      trainingRef := Some (nextTimerId s1),
                      nextTimerId := nextTimerId s1 + 1 \<rparr>)
         else (m, s1\<lparr> status := completed, finalLoss := currentLoss \<rparr>))"

definition startTraining :: "(nat \<Rightarrow> real) \<Rightarrow> LabState \<Rightarrow> TrainingMetric \<times> LabState" where
  "startTraining rnd s =
     (let s1 = s\<lparr> status := training, metrics := [], testResult := None, progress := 0 \<rparr>;
          lr = learningRate (params s);
          r = \<lparr> currentEpoch = 0,
                totalEpochs = epochs (params s),
                lrFactor = (if lr = 0.01 then 1.0 else if lr > 0.05 then 0.5 else 0.8),
                targetLoss = 0.05 + (rnd (rngPos s) * 0.1) + (if lr > 0.05 then 0.2 else 0),
                capturedParams = params s,
                capturedModel = modelType s \<rparr>
      in trainStep rnd r (s1\<lparr> rngPos := rngPos s + 1 \<rparr>))"

text \<open>
  \<open>!testInput.trim()\<close>: the text is empty once the white space and line terminators
  of JavaScript are trimmed, that is, it consists of them only. In UTF-8 these are the
  bytes 09 to 0D and 20, the pair C2 A0, and the triples E1 9A 80, E2 80 80 to
  E2 80 8A, E2 80 A8, E2 80 A9, E2 80 AF, E2 81 9F, E3 80 80 and EF BB BF.
\<close>

definition isAsciiSpace :: "char \<Rightarrow> bool" where
  "isAsciiSpace a =
     (a = CHR 0x09 \<or> a = CHR 0x0A \<or> a = CHR 0x0B \<or> a = CHR 0x0C \<or> a = CHR 0x0D \<or> a = CHR 0x20)"

definition isWideSpace :: "char \<Rightarrow> char \<Rightarrow> char \<Rightarrow> bool" where
  "isWideSpace a b c =
     ((a = CHR 0xE1 \<and> b = CHR 0x9A \<and> c = CHR 0x80)
      \<or> (a = CHR 0xE2 \<and> b = CHR 0x80
          \<and> ((0x80::nat) \<le> of_char c \<and> of_char c \<le> (0x8A::nat)
              \<or> c = CHR 0xA8 \<or> c = CHR 0xA9 \<or> c = CHR 0xAF))
      \<or> (a = CHR 0xE2 \<and> b = CHR 0x81 \<and> c = CHR 0x9F)
      \<or> (a = CHR 0xE3 \<and> b = CHR 0x80 \<and> c = CHR 0x80)
      \<or> (a = CHR 0xEF \<and> b = CHR 0xBB \<and> c = CHR 0xBF))"

fun isBlank :: "string \<Rightarrow> bool" where
  "isBlank [] = True"
| "isBlank [a] = isAsciiSpace a"
| "isBlank [a, b] = (if isAsciiSpace a then isBlank [b] else a = CHR 0xC2 \<and> b = CHR 0xA0)"
| "isBlank (a # b # c # r) =
     (if isAsciiSpace a then isBlank (b # c # r)
      else if a = CHR 0xC2 \<and> b = CHR 0xA0 then isBlank (c # r)
      else if isWideSpace a b c then isBlank r
      else False)"

text \<open>
  \<open>handleGenerate\<close> up to its \<open>await\<close>, in the environment \<open>env\<close> of the call: the
  promise of \<open>generateCouplet\<close> is left pending with the value it will settle to.
\<close>

definition handleGenerate :: "Env \<Rightarrow> LabState \<Rightarrow> LabState" where
  "handleGenerate env s =
     (if isBlank (testInput s) then s
      else s\<lparr> isGenerating := True, testResult := None,
              inflight := Some (generateCouplet env (testInput s) (modelType s)
                                 (Some \<lparr> ctxLoss = finalLoss s, ctxEpochs = epochs (params s) \<rparr>)) \<rparr>)"

text \<open>
  The promise settles and \<open>handleGenerate\<close> resumes after its \<open>await\<close>: with a result
  it stores it and clears \<open>isGenerating\<close>; a rejection would end the handler there.
\<close>

definition generationSettles :: "LabState \<Rightarrow> LabState" where
  "generationSettles s =
     (case inflight s of
        None \<Rightarrow> s
      | Some (Inl e) \<Rightarrow> s\<lparr> inflight := None \<rparr>
      | Some (Inr result) \<Rightarrow> s\<lparr> testResult := Some result, isGenerating := False, inflight := None \<rparr>)"

text \<open>The browser runs the pending timeout \<open>i\<close>: it leaves the table and its callback runs.\<close>

definition fireTimer :: "(nat \<Rightarrow> real) \<Rightarrow> nat \<Rightarrow> LabState \<Rightarrow> TrainingMetric list \<times> LabState" where
  "fireTimer rnd i s =
     (case timers s i of
        None \<Rightarrow> ([], s)
      | Some r \<Rightarrow> (let (m, s1) = trainStep rnd r (clearTimeout i s) in ([m], s1)))"

text \<open>The \<open>disabled\<close> attributes of the controls.\<close>

definition startDisabled :: "LabState \<Rightarrow> bool" where
  "startDisabled s = (status s = training)"

definition paramsDisabled :: "LabState \<Rightarrow> bool" where
  "paramsDisabled s = (status s = training)"

definition generateDisabled :: "LabState \<Rightarrow> bool" where
  "generateDisabled s = (isGenerating s \<or> status s \<noteq> completed)"

subsection \<open>What can happen to the component\<close>

text \<open>
  The user clicks the start button or changes a parameter (both do nothing while the
  control is disabled), a pending timeout comes due, or the parent passes another
  \<open>modelType\<close>, on which the effect hook runs \<open>resetLab\<close>. The user edits the input
  field or picks a preset (\<open>setTestInput\<close>), clicks the generate button (which does
  nothing while it is disabled) with the outside world in some state \<open>env\<close>, or the
  pending promise of \<open>generateCouplet\<close> settles. Each event yields the samples it
  appends and the new state.
\<close>

datatype LabEvent =
  ClickStart | ChangeEpochs nat | ChangeLearningRate real | TimerFires nat
  | ModelTypeChanges ModelType
  | TypeInput string | ClickGenerate Env | GenerationSettles

fun labStep :: "(nat \<Rightarrow> real) \<Rightarrow> LabEvent \<Rightarrow> LabState \<Rightarrow> TrainingMetric list \<times> LabState" where
  "labStep rnd ClickStart s =
     (if startDisabled s then ([], s)
      else (let (m, s1) = startTraining rnd s in ([m], s1)))"
| "labStep rnd (ChangeEpochs n) s =
     (if paramsDisabled s then ([], s) else ([], handleParamChange (Some n) None s))"
| "labStep rnd (ChangeLearningRate x) s =
     (if paramsDisabled s then ([], s) else ([], handleParamChange None (Some x) s))"
| "labStep rnd (TimerFires i) s = fireTimer rnd i s"
| "labStep rnd (ModelTypeChanges mt) s =
     (if mt = modelType s then ([], s) else ([], resetLab (s\<lparr> modelType := mt \<rparr>)))"
| "labStep rnd (TypeInput tx) s = ([], s\<lparr> testInput := tx \<rparr>)"
| "labStep rnd (ClickGenerate env) s =
     (if generateDisabled s then ([], s) else ([], handleGenerate env s))"
| "labStep rnd GenerationSettles s = ([], generationSettles s)"

fun runEvents :: "(nat \<Rightarrow> real) \<Rightarrow> LabEvent list \<Rightarrow> LabState \<Rightarrow> TrainingMetric list \<times> LabState" where
  "runEvents rnd [] s = ([], s)"
| "runEvents rnd (ev # evs) s =
     (let (ms1, s1) = labStep rnd ev s; (ms2, s2) = runEvents rnd evs s1 in (ms1 @ ms2, s2))"

text \<open>
  A run left alone: after \<open>startTraining\<close>, the timeout that \<open>trainingRef\<close> names comes
  due \<open>n\<close> times (fewer if none is pending any more).
\<close>

definition fireDue :: "(nat \<Rightarrow> real) \<Rightarrow> LabState \<Rightarrow> TrainingMetric list \<times> LabState" where
  "fireDue rnd s = (case trainingRef s of None \<Rightarrow> ([], s) | Some i \<Rightarrow> fireTimer rnd i s)"

fun runTicks :: "(nat \<Rightarrow> real) \<Rightarrow> nat \<Rightarrow> LabState \<Rightarrow> TrainingMetric list \<times> LabState" where
  "runTicks rnd 0 s = ([], s)"
| "runTicks rnd (Suc n) s =
     (let (ms1, s1) = fireDue rnd s; (ms2, s2) = runTicks rnd n s1 in (ms1 @ ms2, s2))"

definition runTraining :: "(nat \<Rightarrow> real) \<Rightarrow> nat \<Rightarrow> LabState \<Rightarrow> TrainingMetric list \<times> LabState" where
  "runTraining rnd n s =
     (let (m, s1) = startTraining rnd s; (ms, s2) = runTicks rnd n s1 in (m # ms, s2))"

subsection \<open>Notions used in the statements\<close>

text \<open>The parameter values the controls offer.\<close>

definition validParams :: "TrainingParams \<Rightarrow> bool" where
  "validParams p =
     (10 \<le> epochs p \<and> epochs p \<le> 100
      \<and> (learningRate p = 0.1 \<or> learningRate p = 0.01 \<or> learningRate p = 0.001))"

text \<open>\<open>Math.random()\<close> returns a number in \<open>[0, 1)\<close>.\<close>

definition rndOK :: "(nat \<Rightarrow> real) \<Rightarrow> bool" where
  "rndOK rnd = (\<forall>n. 0 \<le> rnd n \<and> rnd n < 1)"

text \<open>The callback that will run next, if any.\<close>

definition pending :: "LabState \<Rightarrow> TrainRun option" where
  "pending s = (case trainingRef s of None \<Rightarrow> None | Some i \<Rightarrow> timers s i)"

text \<open>
  A closure as \<open>startTraining\<close> builds it from the parameters \<open>p\<close>: the constants are
  those computed from \<open>p\<close>, with the target loss anywhere in the interval that the
  random draw can reach.
\<close>

definition closureOf :: "TrainingParams \<Rightarrow> ModelType \<Rightarrow> TrainRun \<Rightarrow> bool" where
  "closureOf p mt r =
     (totalEpochs r = epochs p \<and> capturedParams r = p \<and> capturedModel r = mt
      \<and> lrFactor r = (if learningRate p = 0.01 then 1.0 else if learningRate p > 0.05 then 0.5 else 0.8)
      \<and> 0.05 + (if learningRate p > 0.05 then 0.2 else 0) \<le> targetLoss r
      \<and> targetLoss r < 0.15 + (if learningRate p > 0.05 then 0.2 else 0))"

text \<open>
  The value of \<open>currentLoss\<close> when \<open>trainStep\<close> builds its sample, for the closure \<open>r\<close>
  and with \<open>pos\<close> calls of \<open>Math.random()\<close> made before.
\<close>

definition tickLoss :: "(nat \<Rightarrow> real) \<Rightarrow> TrainRun \<Rightarrow> nat \<Rightarrow> real" where
  "tickLoss rnd r pos =
     (let progressRatio = real (currentEpoch r + 1) / real (totalEpochs r);
          decay = exp (- progressRatio * 5 * lrFactor r);
          noise = (rnd pos - 0.5) * (learningRate (capturedParams r) * 2);
          loss1 = max 0 (min 1 (targetLoss r + (decay * (1 - targetLoss r)) + noise))
      in if capturedModel r = rnn \<and> progressRatio > 0.5 then loss1 + rnd (pos + 1) * 0.05 else loss1)"

text \<open>The last 50 elements of a list: what the history keeps of it.\<close>

definition cap50 :: "'a list \<Rightarrow> 'a list" where
  "cap50 xs = drop (length xs - 50) xs"

text \<open>The closure that \<open>startTraining\<close> builds, and the state in which it first calls \<open>trainStep\<close>.\<close>

definition startClosure :: "(nat \<Rightarrow> real) \<Rightarrow> LabState \<Rightarrow> TrainRun" where
  "startClosure rnd s =
     \<lparr> currentEpoch = 0, totalEpochs = epochs (params s),
       lrFactor = (if learningRate (params s) = 0.01 then 1.0
                   else if learningRate (params s) > 0.05 then 0.5 else 0.8),
       targetLoss = 0.05 + (rnd (rngPos s) * 0.1) + (if learningRate (params s) > 0.05 then 0.2 else 0),
       capturedParams = params s, capturedModel = modelType s \<rparr>"

definition startState :: "LabState \<Rightarrow> LabState" where
  "startState s =
     s\<lparr> status := training, metrics := [], testResult := None, progress := 0,
        rngPos := rngPos s + 1 \<rparr>"



text \<open>
  What every state the component can reach satisfies: timer identifiers are positive,
  and a timeout is pending only while the status is \<open>training\<close>, and then it is the
  one \<open>trainingRef\<close> names.
\<close>

definition labInv :: "LabState \<Rightarrow> bool" where
  "labInv s =
     (1 \<le> nextTimerId s
      \<and> (\<forall>i. timers s i \<noteq> None \<longrightarrow> trainingRef s = Some i \<and> i \<noteq> 0 \<and> status s = training))"

subsection \<open>Concrete inputs\<close>

text \<open>A random source that always returns \<open>1/2\<close>.\<close>

definition halfRnd :: "nat \<Rightarrow> real" where
  "halfRnd n = 1/2"





text \<open>The initial component with 100 epochs selected.\<close>

definition longLab :: LabState where
  "longLab = handleParamChange (Some 100) None (initialLab lstm)"

text \<open>
  Environments of \<open>generateCouplet\<close>: no key configured; a key but no network; a server
  error; a body that is not JSON; a JSON body without candidates; a well-formed reply
  whose text is cut short; and a well-formed reply.
\<close>

definition envNoKey :: Env where
  "envNoKey =
     \<lparr> apiKey = None, fetch = (\<lambda>q. Inl (TypeError ''Failed to fetch'')),
       JSON_parse = (\<lambda>t. Inl (SyntaxError ''Unexpected end of JSON input'')),
       String_of = (\<lambda>v. []) \<rparr>"

definition envOffline :: Env where
  "envOffline = envNoKey\<lparr> apiKey := Some ''key'' \<rparr>"

definition envStatus503 :: Env where
  "envStatus503 =
     envOffline\<lparr> fetch := (\<lambda>q. Inr \<lparr> ok = False, statusCode = 503, body = ''unavailable'' \<rparr>) \<rparr>"

definition envGarbled :: Env where
  "envGarbled =
     envOffline\<lparr> fetch := (\<lambda>q. Inr \<lparr> ok = True, statusCode = 200, body = ''<html>'' \<rparr>),
                 JSON_parse := (\<lambda>t. Inl (SyntaxError ''Unexpected token'')) \<rparr>"

definition envEmpty :: Env where
  "envEmpty =
     envOffline\<lparr> fetch := (\<lambda>q. Inr \<lparr> ok = True, statusCode = 200, body = ''{}'' \<rparr>),
                 JSON_parse := (\<lambda>t. Inr (JObj [])) \<rparr>"

definition replyJson :: json where
  "replyJson =
     JObj [(''candidates'',
            JArr [JObj [(''content'', JObj [(''parts'', JArr [JObj [(''text'', JStr ''couplet'')]])])]])]"

definition envTruncated :: Env where
  "envTruncated =
     envOffline\<lparr> fetch := (\<lambda>q. Inr \<lparr> ok = True, statusCode = 200, body = ''reply'' \<rparr>),
                 JSON_parse := (\<lambda>t. if t = ''reply'' then Inr replyJson
                                      else Inl (SyntaxError ''Unexpected end of JSON input'')) \<rparr>"

definition envGood :: Env where
  "envGood =
     envTruncated\<lparr> JSON_parse := (\<lambda>t. if t = ''reply'' then Inr replyJson
                     else Inr (JObj [(''lower'', JStr ''line''), (''explanation'', JStr ''why'')])) \<rparr>"

text \<open>The initial component after one complete run of its 50 epochs.\<close>

definition doneLab :: LabState where
  "doneLab = snd (runTraining halfRnd 49 (initialLab fnn))"

text \<open>
  That component after a click on the generate button with the service answering
  well, while the promise is pending (\<open>busyLab\<close>) and after it has settled
  (\<open>shownLab\<close>, which shows a result).
\<close>

definition busyLab :: LabState where
  "busyLab = snd (labStep halfRnd (ClickGenerate envGood) doneLab)"

definition shownLab :: LabState where
  "shownLab = snd (labStep halfRnd GenerationSettles busyLab)"

section \<open>Properties\<close>

subsection \<open>Rounding to a double\<close>

lemma roundEven_bounds:
  "of_int (roundEven z) \<le> z + 1/2" "z - 1/2 \<le> of_int (roundEven z)"
  unfolding roundEven_def Let_def by (auto; linarith)+

lemma roundEven_of_int: "roundEven (of_int k) = k"
  by (simp add: roundEven_def)

lemma roundEven_floor: "\<lfloor>z\<rfloor> \<le> roundEven z" "roundEven z \<le> \<lfloor>z\<rfloor> + 1"
  by (simp_all add: roundEven_def Let_def)

lemma roundEven_mono:
  assumes "z \<le> w"
  shows "roundEven z \<le> roundEven w"
proof (cases "\<lfloor>z\<rfloor> = \<lfloor>w\<rfloor>")
  case True
  with assms show ?thesis by (auto simp: roundEven_def Let_def)
next
  case False
  with assms have "\<lfloor>z\<rfloor> < \<lfloor>w\<rfloor>" using floor_mono [OF assms] by linarith
  with roundEven_floor(2) [of z] roundEven_floor(1) [of w] show ?thesis by linarith
qed

lemma roundEven_minus: "roundEven (- z) = - roundEven z"
proof (cases "z = of_int \<lfloor>z\<rfloor>")
  case True
  then obtain k where "z = of_int k" ..
  then show ?thesis by (simp add: roundEven_of_int flip: of_int_minus)
next
  case False
  then have f: "\<lfloor>- z\<rfloor> = - \<lfloor>z\<rfloor> - 1" by (simp add: floor_minus ceiling_altdef)
  have d: "0 < z - of_int \<lfloor>z\<rfloor>" "z - of_int \<lfloor>z\<rfloor> < 1" using False by linarith+
  show ?thesis unfolding roundEven_def Let_def f using d by (auto simp: algebra_simps)
qed

lemma ulp_pos: "0 < ulp x"
  by (simp add: ulp_def)

lemma ulp_minus: "ulp (- x) = ulp x"
  by (simp add: ulp_def binade_def)

lemma toDouble_minus: "toDouble (- x) = - toDouble x"
  by (simp add: toDouble_def ulp_minus roundEven_minus)

lemma toDouble_nonneg: "0 \<le> x \<Longrightarrow> 0 \<le> toDouble x"
proof -
  assume "0 \<le> x"
  then have "0 \<le> x / ulp x" using ulp_pos [of x] by simp
  then have "roundEven 0 \<le> roundEven (x / ulp x)" by (rule roundEven_mono)
  then have "0 \<le> roundEven (x / ulp x)" using roundEven_of_int [of 0] by simp
  then show ?thesis using ulp_pos [of x] by (simp add: toDouble_def)
qed

lemma toDouble_nonpos: "x \<le> 0 \<Longrightarrow> toDouble x \<le> 0"
  using toDouble_nonneg [of "- x"] by (simp add: toDouble_minus)

lemma binade_lower:
  assumes "0 < x" "- 1022 < binade x"
  shows "2 powr of_int (binade x) \<le> x"
proof -
  have "binade x = \<lfloor>log 2 x\<rfloor>" using assms by (simp add: binade_def max_def split: if_splits)
  then show ?thesis using floor_log_eq_powr_iff [of x 2 "binade x"] assms(1) by simp
qed

lemma binade_upper:
  assumes "0 < x"
  shows "x < 2 powr (of_int (binade x) + 1)"
proof -
  have "x < 2 powr (of_int \<lfloor>log 2 x\<rfloor> + 1)"
    using floor_log_eq_powr_iff [of x 2 "\<lfloor>log 2 x\<rfloor>"] assms by simp
  also have "\<dots> \<le> 2 powr (of_int (binade x) + 1)"
    using assms by (simp add: binade_def)
  finally show ?thesis .
qed

lemma binade_mono:
  assumes "0 < x" "x \<le> y"
  shows "binade x \<le> binade y"
proof -
  have "log 2 x \<le> log 2 y" using assms by simp
  then have "\<lfloor>log 2 x\<rfloor> \<le> \<lfloor>log 2 y\<rfloor>" by (rule floor_mono)
  then show ?thesis using assms by (simp add: binade_def)
qed

lemma pow2_powr: "(2::real) ^ n * 2 powr a = 2 powr (a + real n)"
  by (simp add: powr_add powr_realpow)

lemma pow53_ulp: "2 ^ 53 * ulp x = 2 powr (of_int (binade x) + 1)"
proof -
  have "2 ^ 53 * ulp x = 2 powr (of_int (binade x) - 52 + real 53)"
    unfolding ulp_def by (rule pow2_powr)
  also have "of_int (binade x) - 52 + real 53 = (of_int (binade x) + 1 :: real)" by simp
  finally show ?thesis .
qed

lemma pow52_ulp: "2 ^ 52 * ulp x = 2 powr of_int (binade x)"
proof -
  have "2 ^ 52 * ulp x = 2 powr (of_int (binade x) - 52 + real 52)"
    unfolding ulp_def by (rule pow2_powr)
  also have "of_int (binade x) - 52 + real 52 = (of_int (binade x) :: real)" by simp
  finally show ?thesis .
qed

lemma toDouble_upper:
  assumes "0 < x"
  shows "toDouble x \<le> 2 powr (of_int (binade x) + 1)"
proof -
  have "x / ulp x \<le> 2 powr (of_int (binade x) + 1) / ulp x"
    using binade_upper [OF assms] ulp_pos [of x] by (simp add: divide_right_mono)
  also have "\<dots> = 2 powr 53" by (simp add: ulp_def flip: powr_diff)
  also have "\<dots> = of_int (2 ^ 53)" by simp
  finally have "roundEven (x / ulp x) \<le> roundEven (of_int (2 ^ 53))" by (rule roundEven_mono)
  then have "roundEven (x / ulp x) \<le> 2 ^ 53" by (simp only: roundEven_of_int)
  then have "(of_int (roundEven (x / ulp x)) :: real) \<le> of_int (2 ^ 53)"
    by (simp only: of_int_le_iff)
  then have "of_int (roundEven (x / ulp x)) \<le> (2 ^ 53 :: real)" by simp
  then have "of_int (roundEven (x / ulp x)) * ulp x \<le> 2 ^ 53 * ulp x"
    using ulp_pos [of x] by (simp add: mult_right_mono)
  also have "2 ^ 53 * ulp x = 2 powr (of_int (binade x) + 1)" by (rule pow53_ulp)
  finally show ?thesis using assms by (simp add: toDouble_def)
qed

lemma toDouble_lower:
  assumes "0 < x" "- 1022 < binade x"
  shows "2 powr of_int (binade x) \<le> toDouble x"
proof -
  have "2 powr of_int (binade x) / ulp x \<le> x / ulp x"
    using binade_lower [OF assms] ulp_pos [of x] by (simp add: divide_right_mono)
  moreover have "2 powr of_int (binade x) / ulp x = 2 powr 52" by (simp add: ulp_def flip: powr_diff)
  moreover have "(2 powr 52 :: real) = of_int (2 ^ 52)" by simp
  ultimately have "of_int (2 ^ 52) \<le> x / ulp x" by simp
  then have "roundEven (of_int (2 ^ 52)) \<le> roundEven (x / ulp x)" by (rule roundEven_mono)
  then have "2 ^ 52 \<le> roundEven (x / ulp x)" by (simp only: roundEven_of_int)
  then have "(of_int (2 ^ 52) :: real) \<le> of_int (roundEven (x / ulp x))"
    by (simp only: of_int_le_iff)
  then have "(2 ^ 52 :: real) \<le> of_int (roundEven (x / ulp x))" by simp
  then have "2 ^ 52 * ulp x \<le> of_int (roundEven (x / ulp x)) * ulp x"
    using ulp_pos [of x] by (simp add: mult_right_mono)
  moreover have "2 ^ 52 * ulp x = 2 powr of_int (binade x)" by (rule pow52_ulp)
  ultimately show ?thesis using assms by (simp add: toDouble_def)
qed

lemma toDouble_mono_pos:
  assumes "0 < x" "x \<le> y"
  shows "toDouble x \<le> toDouble y"
proof (cases "binade x = binade y")
  case True
  then have u: "ulp x = ulp y" by (simp add: ulp_def)
  have "x / ulp y \<le> y / ulp y" using assms ulp_pos [of y] by (simp add: divide_right_mono)
  then have "roundEven (x / ulp y) \<le> roundEven (y / ulp y)" by (rule roundEven_mono)
  then have "of_int (roundEven (x / ulp y)) * ulp y \<le> of_int (roundEven (y / ulp y)) * ulp y"
    using ulp_pos [of y] by (simp add: mult_right_mono)
  then show ?thesis using assms by (simp add: toDouble_def u)
next
  case False
  with binade_mono [OF assms] have lt: "binade x < binade y" by simp
  have hb: "- 1022 < binade y"
  proof -
    have "- 1022 \<le> binade x" by (simp add: binade_def)
    with lt show ?thesis by simp
  qed
  have y: "0 < y" using assms by simp
  have "toDouble x \<le> 2 powr (of_int (binade x) + 1)" using assms(1) by (rule toDouble_upper)
  also have "\<dots> \<le> 2 powr of_int (binade y)"
  proof -
    have "of_int (binade x) + 1 \<le> (of_int (binade y) :: real)" using lt by linarith
    then show ?thesis by simp
  qed
  also have "\<dots> \<le> toDouble y" using y hb by (rule toDouble_lower)
  finally show ?thesis .
qed

lemma toDouble_mono:
  assumes "x \<le> y"
  shows "toDouble x \<le> toDouble y"
proof -
  consider "0 < x" | "x \<le> 0 \<and> 0 \<le> y" | "y < 0" using assms by linarith
  then show ?thesis
  proof cases
    case 1
    then show ?thesis using assms by (rule toDouble_mono_pos)
  next
    case 2
    then have "toDouble x \<le> 0" "0 \<le> toDouble y"
      by (simp_all add: toDouble_nonpos toDouble_nonneg)
    then show ?thesis by simp
  next
    case 3
    then have "0 < - y" "- y \<le> - x" using assms by simp_all
    then have "toDouble (- y) \<le> toDouble (- x)" by (rule toDouble_mono_pos)
    then show ?thesis by (simp add: toDouble_minus)
  qed
qed

lemma toDouble_error:
  "\<bar>toDouble x - x\<bar> \<le> ulp x / 2"
proof (cases "x = 0")
  case True
  then show ?thesis using ulp_pos [of x] by (simp add: toDouble_def)
next
  case False
  define z where "z = x / ulp x"
  have x: "x = z * ulp x" using ulp_pos [of x] by (simp add: z_def)
  have "\<bar>of_int (roundEven z) - z\<bar> \<le> 1/2" using roundEven_bounds [of z] by linarith
  then have "\<bar>of_int (roundEven z) - z\<bar> * ulp x \<le> 1/2 * ulp x"
    using ulp_pos [of x] by (intro mult_right_mono) simp_all
  moreover have "toDouble x - x = (of_int (roundEven z) - z) * ulp x"
    using False x by (simp add: toDouble_def z_def algebra_simps)
  ultimately show ?thesis using ulp_pos [of x] by (simp add: abs_mult)
qed

lemma toDouble_one: "toDouble 1 = 1"
proof -
  have "binade 1 = 0" by (simp add: binade_def)
  then have u: "ulp 1 = 2 powr (- 52)" by (simp add: ulp_def)
  have "1 / ulp 1 = (of_int (2 ^ 52) :: real)" unfolding u by (simp add: powr_minus)
  then have "roundEven (1 / ulp 1) = 2 ^ 52" by (simp only: roundEven_of_int)
  then show ?thesis unfolding toDouble_def u by (simp add: powr_minus)
qed

lemma toDouble_unit:
  assumes "0 \<le> y" "y \<le> 1"
  shows "0 \<le> toDouble y" and "toDouble y \<le> 1"
  using toDouble_nonneg [OF assms(1)] toDouble_mono [OF assms(2)] by (simp_all add: toDouble_one)

lemma ulp_unit:
  assumes "0 < y" "y < 1"
  shows "ulp y \<le> 2 powr (- 53)"
proof -
  have "log 2 y < 0" using assms by simp
  then have "\<lfloor>log 2 y\<rfloor> \<le> - 1" by linarith
  then have "binade y \<le> - 1" using assms by (simp add: binade_def)
  then have "of_int (binade y) - 52 \<le> (- 53 :: real)" by linarith
  then show ?thesis unfolding ulp_def by simp
qed

lemma toDouble_error_unit:
  assumes "0 \<le> y" "y \<le> 1"
  shows "\<bar>toDouble y - y\<bar> \<le> 2 powr (- 54)"
proof -
  consider "y = 0" | "y = 1" | "0 < y \<and> y < 1" using assms by linarith
  then show ?thesis
  proof cases
    case 1
    then show ?thesis by (simp add: toDouble_def)
  next
    case 2
    then show ?thesis by (simp add: toDouble_one)
  next
    case 3
    then have "ulp y / 2 \<le> 2 powr (- 53) / 2" using ulp_unit [of y] by simp
    also have "\<dots> = 2 powr (- 54)" by (simp add: powr_minus)
    finally show ?thesis using toDouble_error [of y] by linarith
  qed
qed

lemma binade_eq:
  assumes "0 < x" "2 powr of_int e \<le> x" "x < 2 powr (of_int e + 1)" "- 1022 \<le> e"
  shows "binade x = e"
proof -
  have "\<lfloor>log 2 x\<rfloor> = e" using floor_log_eq_powr_iff [of x 2 e] assms by simp
  then show ?thesis using assms by (simp add: binade_def)
qed

lemma toDouble_eval:
  assumes "0 < x" "2 powr of_int e \<le> x" "x < 2 powr (of_int e + 1)" "- 1022 \<le> e"
    and "roundEven (x / 2 powr (of_int e - 52)) = k"
  shows "toDouble x = of_int k * 2 powr (of_int e - 52)"
  using assms binade_eq [OF assms(1-4)] by (simp add: toDouble_def ulp_def)

lemma roundEven_eval:
  assumes "of_int f \<le> z" "z < of_int f + 1"
  shows "z - of_int f < 1/2 \<Longrightarrow> roundEven z = f"
    and "1/2 < z - of_int f \<Longrightarrow> roundEven z = f + 1"
proof -
  have f: "\<lfloor>z\<rfloor> = f" using assms by linarith
  show "z - of_int f < 1/2 \<Longrightarrow> roundEven z = f" by (simp add: roundEven_def f)
  show "1/2 < z - of_int f \<Longrightarrow> roundEven z = f + 1" by (simp add: roundEven_def f)
qed

lemma toDouble_nine_tenths: "toDouble (1 - 0.1) = 8106479329266893 / 2 ^ 53"
proof -
  have r: "roundEven ((1 - 0.1) / 2 powr (of_int (- 1) - 52)) = 8106479329266892 + 1"
    by (rule roundEven_eval(2)) (simp_all add: powr_minus)
  have "toDouble (1 - 0.1) = of_int (8106479329266892 + 1) * 2 powr (of_int (- 1) - 52)"
    by (rule toDouble_eval [OF _ _ _ _ r]) (simp_all add: powr_minus)
  then show ?thesis by (simp add: powr_minus)
qed

lemma toDouble_ninety: "toDouble (8106479329266893 / 2 ^ 53 * 100) = 90"
proof -
  have r: "roundEven (8106479329266893 / 2 ^ 53 * 100 / 2 powr (of_int 6 - 52)) = 6333186975989760"
    by (rule roundEven_eval(1)) (simp_all add: powr_minus)
  have "toDouble (8106479329266893 / 2 ^ 53 * 100) = of_int 6333186975989760 * 2 powr (of_int 6 - 52)"
    by (rule toDouble_eval [OF _ _ _ _ r]) (simp_all add: powr_minus)
  then show ?thesis by (simp add: powr_minus)
qed

subsection \<open>Quality score\<close>

lemma round_clamp_commute:
  "max 0 (min 100 (round (x::real))) = round (max 0 (min 100 x))"
proof -
  consider "x < 0" | "0 \<le> x \<and> x \<le> 100" | "100 < x" by linarith
  then show ?thesis
  proof cases
    case 1
    with round_mono [of x 0] show ?thesis by (simp add: max_def min_def)
  next
    case 2
    with round_mono [of 0 x] round_mono [of x 100] show ?thesis
      by (auto simp add: max_def min_def)
  next
    case 3
    with round_mono [of 100 x] show ?thesis by (simp add: max_def min_def)
  qed
qed

lemma qualityScoreOf_mono: "l1 \<le> l2 \<Longrightarrow> qualityScoreOf l2 \<le> qualityScoreOf l1"
proof -
  assume "l1 \<le> l2"
  then have "toDouble (1 - l2) \<le> toDouble (1 - l1)" by (intro toDouble_mono) simp
  then have "toDouble (toDouble (1 - l2) * 100) \<le> toDouble (toDouble (1 - l1) * 100)"
    by (intro toDouble_mono) simp
  then have "round (toDouble (toDouble (1 - l2) * 100)) \<le> round (toDouble (toDouble (1 - l1) * 100))"
    by (rule round_mono)
  then show ?thesis
    unfolding qualityScoreOf_def by (simp add: max_def min_def)
qed

text \<open>At the default loss the double product is exactly 90.\<close>

lemma qualityScoreOf_tenth: "qualityScoreOf 0.1 = 90"
  unfolding qualityScoreOf_def toDouble_nine_tenths toDouble_ninety by simp

text \<open>
  At the double \<open>0.10500000000000001\<close> the exact product is just below \<open>89.5\<close>, the
  double product is \<open>89.5\<close>, and the score is 90.
\<close>

lemma qualityScoreOf_boundary:
  "qualityScoreOf (3783023686991217 / 36028797018963968) = 90
   \<and> round ((1 - 3783023686991217 / 36028797018963968) * (100::real)) = 89"
proof -
  let ?l = "3783023686991217 / 36028797018963968 :: real"
  have r1: "roundEven ((1 - ?l) / 2 powr (of_int (- 1) - 52)) = 8061443332993187 + 1"
    by (rule roundEven_eval(2)) (simp_all add: powr_minus)
  have "toDouble (1 - ?l) = of_int (8061443332993187 + 1) * 2 powr (of_int (- 1) - 52)"
    by (rule toDouble_eval [OF _ _ _ _ r1]) (simp_all add: powr_minus)
  then have d1: "toDouble (1 - ?l) = 2015360833248297 / 2251799813685248"
    by (simp add: powr_minus)
  have r2: "roundEven (2015360833248297 / 2251799813685248 * 100 / 2 powr (of_int 6 - 52))
              = 6298002603900928"
    by (rule roundEven_eval(1)) (simp_all add: powr_minus)
  have "toDouble (2015360833248297 / 2251799813685248 * 100)
          = of_int 6298002603900928 * 2 powr (of_int 6 - 52)"
    by (rule toDouble_eval [OF _ _ _ _ r2]) (simp_all add: powr_minus)
  then have d2: "toDouble (2015360833248297 / 2251799813685248 * 100) = 179 / 2"
    by (simp add: powr_minus)
  have "qualityScoreOf ?l = 90"
    unfolding qualityScoreOf_def d1 d2 by (simp add: round_def)
  moreover have "round ((1 - ?l) * (100::real)) = 89" by (simp add: round_def)
  ultimately show ?thesis by simp
qed

lemma ulp_below_128:
  assumes "0 < y" "y < 128"
  shows "ulp y \<le> 2 powr (- 46)"
proof -
  have "log 2 y < log 2 128" using assms by simp
  moreover have "log 2 128 = (7::real)"
  proof -
    have "(128::real) = 2 powr 7" by simp
    then show ?thesis by (simp only: log_powr_cancel) 
  qed
  ultimately have "log 2 y < 7" by simp
  then have "\<lfloor>log 2 y\<rfloor> \<le> 6" by linarith
  then have "binade y \<le> 6" using assms by (simp add: binade_def)
  then have "of_int (binade y) - 52 \<le> (- 46 :: real)" by linarith
  then show ?thesis unfolding ulp_def by simp
qed

lemma product_error:
  assumes "0 \<le> l" "l \<le> 1"
  shows "\<bar>toDouble (toDouble (1 - l) * 100) - (1 - l) * 100\<bar> \<le> 2 powr (- 46)"
proof -
  define y where "y = toDouble (1 - l)"
  have b: "0 \<le> 1 - l" "1 - l \<le> 1" using assms by simp_all
  have ey: "\<bar>y - (1 - l)\<bar> \<le> 2 powr (- 54)" unfolding y_def using b by (rule toDouble_error_unit)
  have yb: "0 \<le> y" "y \<le> 1" unfolding y_def using b by (rule toDouble_unit)+
  have ez: "\<bar>toDouble (y * 100) - y * 100\<bar> \<le> 2 powr (- 47)"
  proof (cases "y = 0")
    case True
    then show ?thesis by (simp add: toDouble_def)
  next
    case False
    then have "0 < y * 100" "y * 100 < 128" using yb by simp_all
    then have "ulp (y * 100) / 2 \<le> 2 powr (- 46) / 2" using ulp_below_128 by simp
    also have "\<dots> = 2 powr (- 47)" by (simp add: powr_minus)
    finally show ?thesis using toDouble_error [of "y * 100"] by linarith
  qed
  have n: "100 * 2 powr (- 54) + 2 powr (- 47) \<le> (2 powr (- 46) :: real)" by (simp add: powr_minus)
  have "y * 100 - (1 - l) * 100 = (y - (1 - l)) * 100" by (simp add: algebra_simps)
  then have "\<bar>y * 100 - (1 - l) * 100\<bar> = \<bar>y - (1 - l)\<bar> * 100" by (simp only: abs_mult)
  then have "\<bar>y * 100 - (1 - l) * 100\<bar> \<le> 100 * 2 powr (- 54)" using ey by simp
  then show ?thesis using ez n unfolding y_def by linarith
qed

lemma score_off_boundary:
  assumes "0 \<le> l" "l \<le> 1" "2 powr (- 46) < \<bar>frac ((1 - l) * 100) - 1/2\<bar>"
  shows "qualityScoreOf l = round ((1 - l) * 100)"
proof -
  define a where "a = (1 - l) * 100"
  define p where "p = toDouble (toDouble (1 - l) * 100)"
  define f where "f = \<lfloor>a\<rfloor>"
  have e: "\<bar>p - a\<bar> \<le> 2 powr (- 46)" unfolding p_def a_def using assms(1,2) by (rule product_error)
  have s: "(2 powr (- 46) :: real) < 1/2" by (simp add: powr_minus)
  have f: "of_int f \<le> a" "a < of_int f + 1" unfolding f_def by linarith+
  have far: "2 powr (- 46) < \<bar>a - of_int f - 1/2\<bar>" using assms(3) by (simp add: frac_def a_def f_def)
  have ab: "0 \<le> a" "a \<le> 100" using assms(1,2) by (simp_all add: a_def)
  have "\<lfloor>p + 1/2\<rfloor> = \<lfloor>a + 1/2\<rfloor>"
  proof (cases "a - of_int f < 1/2")
    case True
    then have "of_int f \<le> p + 1/2" "p + 1/2 < of_int f + 1" "of_int f \<le> a + 1/2" "a + 1/2 < of_int f + 1"
      using e s f far by linarith+
    then have "\<lfloor>p + 1/2\<rfloor> = f" "\<lfloor>a + 1/2\<rfloor> = f" by linarith+
    then show ?thesis by simp
  next
    case False
    then have "of_int f + 1 \<le> p + 1/2" "p + 1/2 < of_int f + 1 + 1"
      "of_int f + 1 \<le> a + 1/2" "a + 1/2 < of_int f + 1 + 1"
      using e s f far by linarith+
    then have "\<lfloor>p + 1/2\<rfloor> = f + 1" "\<lfloor>a + 1/2\<rfloor> = f + 1" by linarith+
    then show ?thesis by simp
  qed
  then have r: "round p = round a" by (simp add: round_def)
  have "0 \<le> round a" "round a \<le> 100"
    using round_mono [of 0 a] round_mono [of a 100] ab by simp_all
  then show ?thesis unfolding qualityScoreOf_def p_def [symmetric] a_def [symmetric] r by simp
qed


text \<open>
  Claim C7. The score computed from the final loss equals
  \<open>round (clamp (p, 0, 100))\<close> for the product \<open>p = (1 - finalLoss) * 100\<close> as the
  program computes it, in double precision (the source rounds first and clamps
  afterwards; for every number the two orders give the same integer). For a final
  loss in \<open>[0, 1]\<close> that product is within \<open>2 powr (- 46)\<close> of the exact one, and the
  score is that of the exact product unless the exact product is that close to the
  middle between two integers. The score is monotonically non-increasing in the final
  loss.
\<close>

theorem C7_qualityScore_formula_and_monotone:
  "qualityScoreOf l = round (max 0 (min 100 (toDouble (toDouble (1 - l) * 100))))
   \<and> max 0 (min 100 (round (x::real))) = round (max 0 (min 100 x))
   \<and> (0 \<le> l \<and> l \<le> 1 \<longrightarrow>
        \<bar>toDouble (toDouble (1 - l) * 100) - (1 - l) * 100\<bar> \<le> 2 powr (- 46))
   \<and> (0 \<le> l \<and> l \<le> 1 \<and> 2 powr (- 46) < \<bar>frac ((1 - l) * 100) - 1/2\<bar> \<longrightarrow>
        qualityScoreOf l = round (max 0 (min 100 ((1 - l) * 100))))
   \<and> (l1 < l2 \<longrightarrow> qualityScoreOf l2 \<le> qualityScoreOf l1)"
proof (intro conjI impI)
  show "qualityScoreOf l = round (max 0 (min 100 (toDouble (toDouble (1 - l) * 100))))"
    using round_clamp_commute [of "toDouble (toDouble (1 - l) * 100)"] by (simp add: qualityScoreOf_def)
  show "max 0 (min 100 (round x)) = round (max 0 (min 100 x))" by (rule round_clamp_commute)
next
  assume "0 \<le> l \<and> l \<le> 1"
  then show "\<bar>toDouble (toDouble (1 - l) * 100) - (1 - l) * 100\<bar> \<le> 2 powr (- 46)"
    using product_error by blast
next
  assume a: "0 \<le> l \<and> l \<le> 1 \<and> 2 powr (- 46) < \<bar>frac ((1 - l) * 100) - 1/2\<bar>"
  then have "qualityScoreOf l = round ((1 - l) * 100)" using score_off_boundary by blast
  moreover have "max 0 (min 100 ((1 - l) * 100)) = (1 - l) * 100" using a by simp
  ultimately show "qualityScoreOf l = round (max 0 (min 100 ((1 - l) * 100)))" by simp
next
  assume "l1 < l2"
  then show "qualityScoreOf l2 \<le> qualityScoreOf l1" using qualityScoreOf_mono [of l1 l2] by simp
qed

theorem C7_qualityScore_witness:
  "qualityScoreOf (1/10) = round (max 0 (min 100 (toDouble (toDouble (1 - 1/10) * 100))))
   \<and> (0::real) \<le> 1/10 \<and> (1/10::real) \<le> 1
   \<and> 2 powr (- 46) < \<bar>frac ((1 - 1/10) * 100 :: real) - 1/2\<bar>
   \<and> \<bar>toDouble (toDouble (1 - 1/10) * 100) - (1 - 1/10) * 100\<bar> \<le> 2 powr (- 46)
   \<and> qualityScoreOf (1/10) = round (max 0 (min 100 ((1 - 1/10) * 100 :: real)))
   \<and> qualityScoreOf (1/10) = 90
   \<and> (1/10::real) < 1/2 \<and> qualityScoreOf (1/2) \<le> qualityScoreOf (1/10)"
proof -
  note t = C7_qualityScore_formula_and_monotone [of "1/10" 0 "1/10" "1/2"]
  have h: "(0::real) \<le> 1/10" "(1/10::real) \<le> 1" "(1/10::real) < 1/2"
    "2 powr (- 46) < \<bar>frac ((1 - 1/10) * 100 :: real) - 1/2\<bar>"
    by (simp_all add: frac_def powr_minus)
  from t h have c:
    "qualityScoreOf (1/10) = round (max 0 (min 100 (toDouble (toDouble (1 - 1/10) * 100))))"
    "\<bar>toDouble (toDouble (1 - 1/10) * 100) - (1 - 1/10) * 100\<bar> \<le> 2 powr (- 46)"
    "qualityScoreOf (1/10) = round (max 0 (min 100 ((1 - 1/10) * 100 :: real)))"
    "qualityScoreOf (1/2) \<le> qualityScoreOf (1/10)"
    by blast+
  have "round (max 0 (min 100 ((1 - 1/10) * 100 :: real))) = 90" by simp
  with c(3) have n: "qualityScoreOf (1/10) = 90" by (simp only:)
  from h c n show ?thesis by blast
qed

subsection \<open>The stepper\<close>

lemma length_STEPS_DATA: "length (STEPS_DATA a) = 4"
  by (cases a) simp_all

lemma applyOp_inv:
  "0 \<le> stepIndex s \<and> stepIndex s < int (length (steps s)) \<Longrightarrow>
   0 \<le> stepIndex (applyOp op s) \<and> stepIndex (applyOp op s) < int (length (steps (applyOp op s)))"
  by (cases op)
     (auto simp: steps_def length_STEPS_DATA handleTabChange_def clickNext_def clickPrevious_def
        nextDisabled_def previousDisabled_def setStepIndex_def)

lemma runOps_snoc: "runOps (ops @ [op]) = applyOp op (runOps ops)"
  by (simp add: runOps_def)

lemma runOps_inv:
  "0 \<le> stepIndex (runOps ops) \<and> stepIndex (runOps ops) < int (length (steps (runOps ops)))"
proof (induction ops rule: rev_induct)
  case Nil
  show ?case by (simp add: runOps_def initialApp_def steps_def)
next
  case (snoc op ops)
  then show ?case unfolding runOps_snoc by (rule applyOp_inv)
qed

text \<open>
  Claim C3. After any finite sequence of \<open>selectArchitecture\<close>, \<open>next\<close> and \<open>previous\<close>
  operations from the initial state, the step index is within the step sequence of the
  active architecture (so the current step exists); \<open>next\<close> at the last index and
  \<open>previous\<close> at index 0 leave the state as it is; selecting an architecture sets the
  index to 0.
\<close>

theorem C3_stepIndex_in_bounds:
  "0 \<le> stepIndex (runOps ops)
   \<and> stepIndex (runOps ops) < int (length (STEPS_DATA (activeTab (runOps ops))))
   \<and> currentStep (runOps ops) \<noteq> None
   \<and> (stepIndex (runOps ops) = int (length (STEPS_DATA (activeTab (runOps ops)))) - 1
        \<longrightarrow> applyOp Next (runOps ops) = runOps ops)
   \<and> (stepIndex (runOps ops) = 0 \<longrightarrow> applyOp Previous (runOps ops) = runOps ops)
   \<and> stepIndex (applyOp (SelectArchitecture a) (runOps ops)) = 0
   \<and> activeTab (applyOp (SelectArchitecture a) (runOps ops)) = a"
  using runOps_inv [of ops]
  by (simp add: steps_def currentStep_def clickNext_def clickPrevious_def nextDisabled_def
        previousDisabled_def handleTabChange_def)

lemma runOps_three_next: "stepIndex (runOps [Next, Next, Next]) = 3 \<and> activeTab (runOps [Next, Next, Next]) = fnn"
  by (simp add: runOps_def initialApp_def clickNext_def nextDisabled_def steps_def setStepIndex_def)

theorem C3_stepIndex_witness:
  "stepIndex (runOps [Next, Next, Next]) = int (length (STEPS_DATA (activeTab (runOps [Next, Next, Next])))) - 1
   \<and> applyOp Next (runOps [Next, Next, Next]) = runOps [Next, Next, Next]
   \<and> stepIndex (runOps []) = 0
   \<and> applyOp Previous (runOps []) = runOps []"
  using C3_stepIndex_in_bounds [of "[Next, Next, Next]"] C3_stepIndex_in_bounds [of "[]"]
    runOps_three_next
  by (simp add: runOps_def initialApp_def)

subsection \<open>One training step\<close>

lemma trainStep_sample:
  "fst (trainStep rnd r s) =
     \<lparr> epoch = currentEpoch r + 1, loss = toFixed3 (tickLoss rnd r (rngPos s)),
       accuracy = toFixed3 (toDouble (1 - tickLoss rnd r (rngPos s))) \<rparr>"
  by (simp add: trainStep_def tickLoss_def Let_def)

lemma trainStep_metrics:
  "metrics (snd (trainStep rnd r s)) = cap50 (metrics s @ [fst (trainStep rnd r s)])"
  by (simp add: trainStep_def Let_def cap50_def)

lemma trainStep_continue:
  assumes "currentEpoch r + 1 < totalEpochs r"
  shows "status (snd (trainStep rnd r s)) = status s"
    and "pending (snd (trainStep rnd r s)) = Some (r\<lparr> currentEpoch := currentEpoch r + 1 \<rparr>)"
    and "finalLoss (snd (trainStep rnd r s)) = finalLoss s"
  using assms by (simp_all add: trainStep_def Let_def pending_def)

lemma trainStep_finish:
  assumes "\<not> currentEpoch r + 1 < totalEpochs r"
  shows "status (snd (trainStep rnd r s)) = completed"
    and "finalLoss (snd (trainStep rnd r s)) = tickLoss rnd r (rngPos s)"
    and "timers (snd (trainStep rnd r s)) = timers s"
    and "trainingRef (snd (trainStep rnd r s)) = trainingRef s"
  using assms by (simp_all add: trainStep_def tickLoss_def Let_def)

lemma exp_back_half: "5/4 < x \<Longrightarrow> exp (- x) < (4/9::real)"
proof -
  assume x: "5/4 < x"
  have "1 + 5/4 \<le> exp (5/4::real)" by (rule exp_ge_add_one_self)
  also have "\<dots> < exp x" using x by simp
  finally have "9/4 < exp x" by simp
  then have "inverse (exp x) < inverse (9/4)"
    by (intro less_imp_inverse_less) simp_all
  then show ?thesis by (simp add: exp_minus)
qed

lemma toFixed3_unit: "0 \<le> x \<Longrightarrow> x \<le> 1 \<Longrightarrow> 0 \<le> toFixed3 x \<and> toFixed3 x \<le> 1"
proof -
  assume a: "0 \<le> x" "x \<le> 1"
  have "round (0::real) \<le> round (x * 1000)" using a by (intro round_mono) simp
  moreover have "round (x * 1000) \<le> round (1000::real)" using a by (intro round_mono) simp
  ultimately have "0 \<le> round (x * 1000)" "round (x * 1000) \<le> 1000" by simp_all
  then show ?thesis using a by (simp add: toFixed3_def)
qed

lemma noise_bounds:
  assumes "0 \<le> u" "u < 1" "0 < lr"
  shows "- lr \<le> (u - 0.5) * (lr * 2)" and "(u - 0.5) * (lr * 2) < (lr::real)"
proof -
  have e: "(u - 0.5) * (lr * 2) = (2 * u - 1) * lr" by (simp add: algebra_simps)
  have lo: "- lr \<le> (2 * u - 1) * lr"
    using mult_right_mono [of "-1" "2 * u - 1" lr] assms by simp
  have hi: "(2 * u - 1) * lr < lr"
    using mult_strict_right_mono [of "2 * u - 1" 1 lr] assms by simp
  show "- lr \<le> (u - 0.5) * (lr * 2)" unfolding e by (rule lo)
  show "(u - 0.5) * (lr * 2) < lr" unfolding e by (rule hi)
qed

lemma closure_facts:
  assumes "validParams p" "closureOf p mt r"
  shows "0 < learningRate p" and "learningRate p \<le> 1/10"
    and "1/2 \<le> lrFactor r"
    and "learningRate p + 1/100 < targetLoss r" and "targetLoss r < 7/20"
    and "learningRate (capturedParams r) = learningRate p"
    and "10 \<le> totalEpochs r"
  using assms by (auto simp: validParams_def closureOf_def split: if_splits)

lemma back_half_exponent:
  assumes "1/2 < pr" "1/2 \<le> (f::real)"
  shows "5/4 < pr * 5 * f"
proof -
  have "1/2 * (5 * (1/2)) < pr * (5 * f)"
    using assms by (intro mult_less_le_imp_less) simp_all
  then show ?thesis by simp
qed

lemma back_half_raw:
  fixes pos :: nat
  assumes vp: "validParams p" and cl: "closureOf p mt r" and ok: "rndOK rnd"
    and half: "real (currentEpoch r + 1) / real (totalEpochs r) > 1/2"
  defines "raw \<equiv> targetLoss r + exp (- (real (currentEpoch r + 1) / real (totalEpochs r)) * 5 * lrFactor r) * (1 - targetLoss r)
                   + (rnd pos - 0.5) * (learningRate (capturedParams r) * 2)"
  shows "0 < raw" and "raw < 9/10"
proof -
  define pr where "pr = real (currentEpoch r + 1) / real (totalEpochs r)"
  define d where "d = exp (- pr * 5 * lrFactor r)"
  define t where "t = targetLoss r"
  define n where "n = (rnd pos - 0.5) * (learningRate (capturedParams r) * 2)"
  have raw: "raw = t + d * (1 - t) + n" by (simp add: raw_def pr_def d_def t_def n_def)
  note f = closure_facts [OF vp cl]
  have u: "0 \<le> rnd pos" "rnd pos < 1" using ok by (simp_all add: rndOK_def)
  have n: "- learningRate p \<le> n" "n < learningRate p"
    using noise_bounds [OF u f(1)] f(6) by (simp_all add: n_def)
  have "1/2 < pr" using half by (simp add: pr_def)
  then have "5/4 < pr * 5 * lrFactor r" using f(3) by (rule back_half_exponent)
  then have "exp (- (pr * 5 * lrFactor r)) < 4/9" by (rule exp_back_half)
  then have d: "d < 4/9" by (simp add: d_def)
  have d0: "0 < d" by (simp add: d_def)
  have t1: "0 < 1 - t" "1 - t \<le> 1" using f(4,5) f(1) by (simp_all add: t_def)
  have "d * (1 - t) \<le> d * 1" using t1 d0 by (intro mult_left_mono) simp_all
  then have dt: "d * (1 - t) < 4/9" using d by simp
  have dt0: "0 < d * (1 - t)" using d0 t1 by simp
  have t2: "learningRate p + 1/100 < t" "t < 7/20" using f(4,5) by (simp_all add: t_def)
  show "0 < raw" using n t2 dt0 unfolding raw by linarith
  show "raw < 9/10" using n f(2) t2 dt unfolding raw by linarith
qed

lemma tickLoss_bounds:
  assumes vp: "validParams p" and cl: "closureOf p mt r" and ok: "rndOK rnd"
  shows "0 \<le> tickLoss rnd r pos \<and> tickLoss rnd r pos \<le> 1"
proof (cases "capturedModel r = rnn \<and> real (currentEpoch r + 1) / real (totalEpochs r) > 1/2")
  case False
  then show ?thesis by (auto simp: tickLoss_def Let_def)
next
  case True
  note raw = back_half_raw [OF vp cl ok, of pos] 
  have u: "0 \<le> rnd (pos + 1)" "rnd (pos + 1) < 1" using ok by (simp_all add: rndOK_def)
  from True raw u show ?thesis
    by (simp add: tickLoss_def Let_def max_def min_def)
qed

lemma tickLoss_back_half:
  assumes vp: "validParams p" and cl: "closureOf p mt r" and ok: "rndOK rnd"
    and half: "real (currentEpoch r + 1) / real (totalEpochs r) > 1/2"
  shows "tickLoss rnd r pos < 1"
proof -
  note raw = back_half_raw [OF vp cl ok half, of pos]
  have u: "0 \<le> rnd (pos + 1)" "rnd (pos + 1) < 1" using ok by (simp_all add: rndOK_def)
  from half raw u show ?thesis
    by (simp add: tickLoss_def Let_def max_def min_def)
qed

lemma tickLoss_add_before_clamp:
  assumes vp: "validParams p" and cl: "closureOf p rnn r" and ok: "rndOK rnd"
    and half: "real (currentEpoch r + 1) / real (totalEpochs r) > 1/2"
  shows "tickLoss rnd r pos =
     max 0 (min 1 (targetLoss r
        + exp (- (real (currentEpoch r + 1) / real (totalEpochs r)) * 5 * lrFactor r) * (1 - targetLoss r)
        + (rnd pos - 0.5) * (learningRate (capturedParams r) * 2)
        + rnd (pos + 1) * 0.05))"
proof -
  note raw = back_half_raw [OF vp cl ok half, of pos]
  have u: "0 \<le> rnd (pos + 1)" "rnd (pos + 1) < 1" using ok by (simp_all add: rndOK_def)
  have m: "capturedModel r = rnn" using cl by (simp add: closureOf_def)
  from half raw u m show ?thesis
    by (simp add: tickLoss_def Let_def max_def min_def)
qed

subsection \<open>A run left alone\<close>

lemma cap50_cap50: "cap50 (cap50 xs @ ys) = cap50 (xs @ ys)"
proof (cases "length xs \<le> 50")
  case True
  then show ?thesis by (simp add: cap50_def)
next
  case False
  define a where "a = length xs - 50"
  have a: "length xs = a + 50" using False by (simp add: a_def)
  have "cap50 xs @ ys = drop a (xs @ ys)" by (simp add: cap50_def a)
  moreover have "length (drop a (xs @ ys)) - 50 = length ys" by (simp add: a)
  moreover have "length (xs @ ys) - 50 = length ys + a" by (simp add: a)
  ultimately show ?thesis by (simp add: cap50_def)
qed

lemma cap50_length: "length (cap50 xs) \<le> 50"
  by (simp add: cap50_def)

lemma cap50_Nil: "cap50 [] = []"
  by (simp add: cap50_def)

lemma clearTimeout_fields:
  "metrics (clearTimeout i s) = metrics s" "status (clearTimeout i s) = status s"
  "rngPos (clearTimeout i s) = rngPos s" "finalLoss (clearTimeout i s) = finalLoss s"
  "trainingRef (clearTimeout i s) = trainingRef s"
  "timers (clearTimeout i s) = (timers s)(i := None)"
  by (simp_all add: clearTimeout_def)

lemma fireDue_idle: "pending s = None \<Longrightarrow> fireDue rnd s = ([], s)"
  by (auto simp: pending_def fireDue_def fireTimer_def split: option.splits)

lemma fireDue_pending:
  assumes "pending s = Some r"
  obtains i where "trainingRef s = Some i"
    and "fireDue rnd s = ([fst (trainStep rnd r (clearTimeout i s))], snd (trainStep rnd r (clearTimeout i s)))"
  using assms
  by (auto simp: pending_def fireDue_def fireTimer_def split: option.splits prod.splits)

lemma runTicks_idle: "pending s = None \<Longrightarrow> runTicks rnd n s = ([], s)"
  by (induction n) (simp_all add: fireDue_idle)

lemma runTicks_Suc:
  assumes "pending s = Some r"
  obtains i where "trainingRef s = Some i"
    and "runTicks rnd (Suc n) s =
           (fst (trainStep rnd r (clearTimeout i s)) # fst (runTicks rnd n (snd (trainStep rnd r (clearTimeout i s)))),
            snd (runTicks rnd n (snd (trainStep rnd r (clearTimeout i s)))))"
proof -
  from assms obtain i where i: "trainingRef s = Some i"
    and f: "fireDue rnd s = ([fst (trainStep rnd r (clearTimeout i s))], snd (trainStep rnd r (clearTimeout i s)))"
    by (rule fireDue_pending)
  show thesis
    by (rule that [OF i]) (simp add: f split: prod.splits)
qed

lemma trainStep_finish_pending:
  assumes "\<not> currentEpoch r + 1 < totalEpochs r" "trainingRef s = Some i"
  shows "pending (snd (trainStep rnd r (clearTimeout i s))) = None"
  using assms trainStep_finish(3,4) [OF assms(1), of rnd "clearTimeout i s"]
  by (simp add: pending_def clearTimeout_fields)

lemma fireDue_metrics:
  "metrics (snd (fireDue rnd s)) = cap50 (metrics s @ fst (fireDue rnd s)) \<or>
   (fst (fireDue rnd s) = [] \<and> snd (fireDue rnd s) = s)"
proof (cases "pending s")
  case None
  then show ?thesis by (simp add: fireDue_idle)
next
  case (Some r)
  then obtain i where "trainingRef s = Some i"
    and "fireDue rnd s = ([fst (trainStep rnd r (clearTimeout i s))], snd (trainStep rnd r (clearTimeout i s)))"
    by (rule fireDue_pending)
  then show ?thesis by (simp add: trainStep_metrics clearTimeout_fields)
qed

lemma runTicks_metrics:
  "length (metrics s) \<le> 50 \<Longrightarrow>
   metrics (snd (runTicks rnd n s)) = cap50 (metrics s @ fst (runTicks rnd n s))"
proof (induction n arbitrary: s)
  case 0
  then show ?case by (simp add: cap50_def)
next
  case (Suc n)
  obtain ms1 s1 where f: "fireDue rnd s = (ms1, s1)" by (cases "fireDue rnd s")
  obtain ms2 s2 where g: "runTicks rnd n s1 = (ms2, s2)" by (cases "runTicks rnd n s1")
  from fireDue_metrics [of rnd s] f
  have m1: "metrics s1 = cap50 (metrics s @ ms1)"
    using Suc.prems by (auto simp: cap50_def)
  then have "length (metrics s1) \<le> 50" by (simp add: cap50_length)
  from Suc.IH [OF this] g have "metrics s2 = cap50 (metrics s1 @ ms2)" by simp
  then show ?case by (simp add: f g m1 cap50_cap50)
qed

lemma upt_head: "[a ..< a + 1 + k] = a # [a + 1 ..< a + 1 + k]"
  using upt_conv_Cons [of a "a + 1 + k"] by simp

lemma runTicks_epochs:
  assumes "pending s = Some r" "currentEpoch r < totalEpochs r"
  shows "map epoch (fst (runTicks rnd n s)) =
           [currentEpoch r + 1 ..< currentEpoch r + 1 + min n (totalEpochs r - currentEpoch r)]"
  using assms
proof (induction n arbitrary: s r)
  case 0
  then show ?case by simp
next
  case (Suc n)
  from Suc.prems(1) obtain i where i: "trainingRef s = Some i"
    and u: "runTicks rnd (Suc n) s =
           (fst (trainStep rnd r (clearTimeout i s)) # fst (runTicks rnd n (snd (trainStep rnd r (clearTimeout i s)))),
            snd (runTicks rnd n (snd (trainStep rnd r (clearTimeout i s)))))"
    by (rule runTicks_Suc)
  let ?s1 = "snd (trainStep rnd r (clearTimeout i s))"
  show ?case
  proof (cases "currentEpoch r + 1 < totalEpochs r")
    case True
    let ?r1 = "r\<lparr> currentEpoch := currentEpoch r + 1 \<rparr>"
    have p: "pending ?s1 = Some ?r1" using True by (rule trainStep_continue(2))
    have "map epoch (fst (runTicks rnd n ?s1)) =
            [currentEpoch ?r1 + 1 ..< currentEpoch ?r1 + 1 + min n (totalEpochs ?r1 - currentEpoch ?r1)]"
      using p by (rule Suc.IH) (use True in simp)
    then have rest: "map epoch (fst (runTicks rnd n ?s1)) =
            [currentEpoch r + 1 + 1 ..< currentEpoch r + 1 + 1 + min n (totalEpochs r - (currentEpoch r + 1))]"
      by simp
    have k: "min (Suc n) (totalEpochs r - currentEpoch r) = 1 + min n (totalEpochs r - (currentEpoch r + 1))"
      using True by (auto simp: min_def)
    have "[currentEpoch r + 1 ..< currentEpoch r + 1 + 1 + min n (totalEpochs r - (currentEpoch r + 1))]
          = (currentEpoch r + 1) # map epoch (fst (runTicks rnd n ?s1))"
      unfolding rest by (rule upt_head)
    then have "[currentEpoch r + 1 ..< currentEpoch r + 1 + min (Suc n) (totalEpochs r - currentEpoch r)]
          = (currentEpoch r + 1) # map epoch (fst (runTicks rnd n ?s1))"
      unfolding k by (simp only: add.assoc)
    then show ?thesis unfolding u by (simp add: trainStep_sample)
  next
    case False
    have "pending ?s1 = None" using False i by (rule trainStep_finish_pending)
    then have "runTicks rnd n ?s1 = ([], ?s1)" by (rule runTicks_idle)
    moreover have "totalEpochs r - currentEpoch r = 1" using False Suc.prems(2) by simp
    ultimately show ?thesis unfolding u by (simp add: trainStep_sample)
  qed
qed

lemma runTicks_samples:
  assumes "pending s = Some r" "currentEpoch r < totalEpochs r"
    and P: "\<And>e pos. currentEpoch r \<le> e \<Longrightarrow> e < totalEpochs r \<Longrightarrow>
          P \<lparr> epoch = e + 1, loss = toFixed3 (tickLoss rnd (r\<lparr> currentEpoch := e \<rparr>) pos),
              accuracy = toFixed3 (toDouble (1 - tickLoss rnd (r\<lparr> currentEpoch := e \<rparr>) pos)) \<rparr>"
  shows "\<forall>m \<in> set (fst (runTicks rnd n s)). P m"
  using assms
proof (induction n arbitrary: s r)
  case 0
  then show ?case by simp
next
  case (Suc n)
  from Suc.prems(1) obtain i where i: "trainingRef s = Some i"
    and u: "runTicks rnd (Suc n) s =
           (fst (trainStep rnd r (clearTimeout i s)) # fst (runTicks rnd n (snd (trainStep rnd r (clearTimeout i s)))),
            snd (runTicks rnd n (snd (trainStep rnd r (clearTimeout i s)))))"
    by (rule runTicks_Suc)
  let ?s1 = "snd (trainStep rnd r (clearTimeout i s))"
  have first: "P (fst (trainStep rnd r (clearTimeout i s)))"
    using Suc.prems(3) [of "currentEpoch r" "rngPos (clearTimeout i s)"] Suc.prems(2)
    by (simp add: trainStep_sample)
  show ?case
  proof (cases "currentEpoch r + 1 < totalEpochs r")
    case True
    let ?r1 = "r\<lparr> currentEpoch := currentEpoch r + 1 \<rparr>"
    have p: "pending ?s1 = Some ?r1" using True by (rule trainStep_continue(2))
    have "\<forall>m \<in> set (fst (runTicks rnd n ?s1)). P m"
    proof (rule Suc.IH [OF p])
      show "currentEpoch ?r1 < totalEpochs ?r1" using True by simp
    next
      fix e pos assume "currentEpoch ?r1 \<le> e" "e < totalEpochs ?r1"
      then show "P \<lparr> epoch = e + 1, loss = toFixed3 (tickLoss rnd (?r1\<lparr> currentEpoch := e \<rparr>) pos),
              accuracy = toFixed3 (toDouble (1 - tickLoss rnd (?r1\<lparr> currentEpoch := e \<rparr>) pos)) \<rparr>"
        using Suc.prems(3) [of e pos] by simp
    qed
    then show ?thesis using first unfolding u by simp
  next
    case False
    have "pending ?s1 = None" using False i by (rule trainStep_finish_pending)
    then have "runTicks rnd n ?s1 = ([], ?s1)" by (rule runTicks_idle)
    then show ?thesis using first unfolding u by simp
  qed
qed

lemma runTicks_running:
  assumes "pending s = Some r" "n < totalEpochs r - currentEpoch r"
  shows "status (snd (runTicks rnd n s)) = status s
         \<and> pending (snd (runTicks rnd n s)) = Some (r\<lparr> currentEpoch := currentEpoch r + n \<rparr>)"
  using assms
proof (induction n arbitrary: s r)
  case 0
  then show ?case by simp
next
  case (Suc n)
  from Suc.prems(1) obtain i where i: "trainingRef s = Some i"
    and u: "runTicks rnd (Suc n) s =
           (fst (trainStep rnd r (clearTimeout i s)) # fst (runTicks rnd n (snd (trainStep rnd r (clearTimeout i s)))),
            snd (runTicks rnd n (snd (trainStep rnd r (clearTimeout i s)))))"
    by (rule runTicks_Suc)
  let ?s1 = "snd (trainStep rnd r (clearTimeout i s))"
  let ?r1 = "r\<lparr> currentEpoch := currentEpoch r + 1 \<rparr>"
  have c: "currentEpoch r + 1 < totalEpochs r" using Suc.prems(2) by simp
  have p: "pending ?s1 = Some ?r1" using c by (rule trainStep_continue(2))
  have st: "status ?s1 = status s" using trainStep_continue(1) [OF c] by (simp add: clearTimeout_fields)
  have "status (snd (runTicks rnd n ?s1)) = status ?s1
         \<and> pending (snd (runTicks rnd n ?s1)) = Some (?r1\<lparr> currentEpoch := currentEpoch ?r1 + n \<rparr>)"
    using p by (rule Suc.IH) (use Suc.prems(2) in simp)
  then show ?case unfolding u by (simp add: st)
qed

lemma runTicks_done:
  assumes "pending s = Some r" "currentEpoch r < totalEpochs r" "totalEpochs r - currentEpoch r \<le> n"
  shows "status (snd (runTicks rnd n s)) = completed
         \<and> pending (snd (runTicks rnd n s)) = None
         \<and> fst (runTicks rnd n s) \<noteq> []
         \<and> last (fst (runTicks rnd n s)) =
              \<lparr> epoch = totalEpochs r, loss = toFixed3 (finalLoss (snd (runTicks rnd n s))),
                accuracy = toFixed3 (toDouble (1 - finalLoss (snd (runTicks rnd n s)))) \<rparr>
         \<and> (\<exists>pos. finalLoss (snd (runTicks rnd n s)) =
                tickLoss rnd (r\<lparr> currentEpoch := totalEpochs r - 1 \<rparr>) pos)"
  using assms
proof (induction n arbitrary: s r)
  case 0
  then show ?case by simp
next
  case (Suc n)
  from Suc.prems(1) obtain i where i: "trainingRef s = Some i"
    and u: "runTicks rnd (Suc n) s =
           (fst (trainStep rnd r (clearTimeout i s)) # fst (runTicks rnd n (snd (trainStep rnd r (clearTimeout i s)))),
            snd (runTicks rnd n (snd (trainStep rnd r (clearTimeout i s)))))"
    by (rule runTicks_Suc)
  let ?s1 = "snd (trainStep rnd r (clearTimeout i s))"
  show ?case
  proof (cases "currentEpoch r + 1 < totalEpochs r")
    case True
    let ?r1 = "r\<lparr> currentEpoch := currentEpoch r + 1 \<rparr>"
    have p: "pending ?s1 = Some ?r1" using True by (rule trainStep_continue(2))
    have "status (snd (runTicks rnd n ?s1)) = completed
         \<and> pending (snd (runTicks rnd n ?s1)) = None
         \<and> fst (runTicks rnd n ?s1) \<noteq> []
         \<and> last (fst (runTicks rnd n ?s1)) =
              \<lparr> epoch = totalEpochs ?r1, loss = toFixed3 (finalLoss (snd (runTicks rnd n ?s1))),
                accuracy = toFixed3 (toDouble (1 - finalLoss (snd (runTicks rnd n ?s1)))) \<rparr>
         \<and> (\<exists>pos. finalLoss (snd (runTicks rnd n ?s1)) =
                tickLoss rnd (?r1\<lparr> currentEpoch := totalEpochs ?r1 - 1 \<rparr>) pos)"
      using p by (rule Suc.IH) (use True Suc.prems(3) in simp_all)
    then show ?thesis unfolding u by simp
  next
    case False
    have "pending ?s1 = None" using False i by (rule trainStep_finish_pending)
    then have idle: "runTicks rnd n ?s1 = ([], ?s1)" by (rule runTicks_idle)
    have c: "r\<lparr> currentEpoch := totalEpochs r - 1 \<rparr> = r"
      using False Suc.prems(2) by simp
    have N: "currentEpoch r + 1 = totalEpochs r" using False Suc.prems(2) by simp
    have fl: "finalLoss ?s1 = tickLoss rnd r (rngPos (clearTimeout i s))"
      using False by (rule trainStep_finish(2))
    have "\<exists>pos. finalLoss ?s1 = tickLoss rnd r pos" using fl by blast
    then show ?thesis unfolding u idle c
      using trainStep_finish(1) [OF False, of rnd "clearTimeout i s"] \<open>pending ?s1 = None\<close> fl N
      by (simp add: trainStep_sample)
  qed
qed

lemma startTraining_eq: "startTraining rnd s = trainStep rnd (startClosure rnd s) (startState s)"
  by (simp add: startTraining_def startClosure_def startState_def Let_def)

lemma startClosure_fields:
  "currentEpoch (startClosure rnd s) = 0" "totalEpochs (startClosure rnd s) = epochs (params s)"
  by (simp_all add: startClosure_def)

lemma startState_fields:
  "status (startState s) = training" "metrics (startState s) = []"
  "rngPos (startState s) = rngPos s + 1"
  by (simp_all add: startState_def)

lemma startClosure_closureOf:
  assumes "rndOK rnd"
  shows "closureOf (params s) (modelType s) (startClosure rnd s)"
proof -
  have "0 \<le> rnd (rngPos s)" "rnd (rngPos s) < 1" using assms by (simp_all add: rndOK_def)
  then show ?thesis by (simp add: closureOf_def startClosure_def)
qed

lemma closureOf_epoch: "closureOf p mt r \<Longrightarrow> closureOf p mt (r\<lparr> currentEpoch := e \<rparr>)"
  by (simp add: closureOf_def)

lemma runTraining_unfold:
  "runTraining rnd n s =
     (fst (startTraining rnd s) # fst (runTicks rnd n (snd (startTraining rnd s))),
      snd (runTicks rnd n (snd (startTraining rnd s))))"
  by (simp add: runTraining_def split: prod.splits)

lemma run_started:
  assumes "2 \<le> epochs (params s)"
  shows "pending (snd (startTraining rnd s)) = Some ((startClosure rnd s)\<lparr> currentEpoch := 1 \<rparr>)"
    and "status (snd (startTraining rnd s)) = training"
    and "metrics (snd (startTraining rnd s)) = [fst (startTraining rnd s)]"
proof -
  have lt: "currentEpoch (startClosure rnd s) + 1 < totalEpochs (startClosure rnd s)"
    using assms by (simp add: startClosure_fields)
  show "pending (snd (startTraining rnd s)) = Some ((startClosure rnd s)\<lparr> currentEpoch := 1 \<rparr>)"
    using trainStep_continue(2) [OF lt, of rnd "startState s"]
    by (simp add: startTraining_eq startClosure_fields)
  show "status (snd (startTraining rnd s)) = training"
    using trainStep_continue(1) [OF lt, of rnd "startState s"]
    by (simp add: startTraining_eq startState_fields)
  show "metrics (snd (startTraining rnd s)) = [fst (startTraining rnd s)]"
    using trainStep_metrics [of rnd "startClosure rnd s" "startState s"]
    by (simp add: startTraining_eq startState_fields cap50_def)
qed

lemma runTraining_samples:
  assumes N: "2 \<le> epochs (params s)" and ok: "rndOK rnd"
    and P: "\<And>r pos. closureOf (params s) (modelType s) r \<Longrightarrow> currentEpoch r < totalEpochs r \<Longrightarrow>
          P \<lparr> epoch = currentEpoch r + 1, loss = toFixed3 (tickLoss rnd r pos),
              accuracy = toFixed3 (toDouble (1 - tickLoss rnd r pos)) \<rparr>"
  shows "\<forall>m \<in> set (fst (runTraining rnd n s)). P m"
proof -
  let ?init = "startClosure rnd s"
  let ?nxt = "?init\<lparr> currentEpoch := 1 \<rparr>"
  have cl0: "closureOf (params s) (modelType s) ?init" using ok by (rule startClosure_closureOf)
  have "P (fst (startTraining rnd s))"
    using P [OF cl0, of "rngPos (startState s)"] N
    by (simp add: startTraining_eq trainStep_sample startClosure_fields)
  moreover have "\<forall>m \<in> set (fst (runTicks rnd n (snd (startTraining rnd s)))). P m"
  proof (rule runTicks_samples [OF run_started(1) [OF N]])
    show "currentEpoch ?nxt < totalEpochs ?nxt" using N by (simp add: startClosure_fields)
  next
    fix e pos assume e: "currentEpoch ?nxt \<le> e" "e < totalEpochs ?nxt"
    have "closureOf (params s) (modelType s) (?nxt\<lparr> currentEpoch := e \<rparr>)"
      using cl0 by (simp add: closureOf_def)
    from P [OF this, of pos] e
    show "P \<lparr> epoch = e + 1, loss = toFixed3 (tickLoss rnd (?nxt\<lparr> currentEpoch := e \<rparr>) pos),
              accuracy = toFixed3 (toDouble (1 - tickLoss rnd (?nxt\<lparr> currentEpoch := e \<rparr>) pos)) \<rparr>" by simp
  qed
  ultimately show ?thesis by (simp add: runTraining_unfold)
qed

lemma valid_two: "validParams p \<Longrightarrow> 2 \<le> epochs p"
  by (simp add: validParams_def)

text \<open>
  Claim C1. For valid parameters, random draws in \<open>[0, 1)\<close> and every architecture,
  every sample a run emits has loss and accuracy in \<open>[0, 1]\<close>. For the recurrent
  architecture in the back half of a run the source clamps first and adds the
  instability term afterwards; on every such tick of a valid run the result is the same
  as adding the term before clamping, which is the second part of the statement.
\<close>

theorem C1_samples_in_unit_interval:
  assumes "validParams (params s)" and "rndOK rnd"
  shows "(\<forall>m \<in> set (fst (runTraining rnd n s)).
            0 \<le> loss m \<and> loss m \<le> 1 \<and> 0 \<le> accuracy m \<and> accuracy m \<le> 1)
         \<and> (\<forall>r s'. closureOf (params s) rnn r \<and> currentEpoch r < totalEpochs r
                \<and> real (currentEpoch r + 1) / real (totalEpochs r) > 0.5 \<longrightarrow>
              loss (fst (trainStep rnd r s')) =
                toFixed3 (max 0 (min 1 (targetLoss r
                    + exp (- (real (currentEpoch r + 1) / real (totalEpochs r)) * 5 * lrFactor r)
                        * (1 - targetLoss r)
                    + (rnd (rngPos s') - 0.5) * (learningRate (capturedParams r) * 2)
                    + rnd (rngPos s' + 1) * 0.05))))"
proof
  show "\<forall>m \<in> set (fst (runTraining rnd n s)).
            0 \<le> loss m \<and> loss m \<le> 1 \<and> 0 \<le> accuracy m \<and> accuracy m \<le> 1"
  proof (rule runTraining_samples [OF valid_two [OF assms(1)] assms(2)])
    fix r pos assume cl: "closureOf (params s) (modelType s) r"
    from tickLoss_bounds [OF assms(1) cl assms(2), of pos]
    have "0 \<le> tickLoss rnd r pos" "tickLoss rnd r pos \<le> 1" by simp_all
    then have "0 \<le> toFixed3 (tickLoss rnd r pos) \<and> toFixed3 (tickLoss rnd r pos) \<le> 1"
      "0 \<le> toFixed3 (toDouble (1 - tickLoss rnd r pos))
       \<and> toFixed3 (toDouble (1 - tickLoss rnd r pos)) \<le> 1"
      by (simp_all add: toFixed3_unit toDouble_unit)
    then show "0 \<le> loss \<lparr> epoch = currentEpoch r + 1, loss = toFixed3 (tickLoss rnd r pos),
              accuracy = toFixed3 (toDouble (1 - tickLoss rnd r pos)) \<rparr> \<and>
         loss \<lparr> epoch = currentEpoch r + 1, loss = toFixed3 (tickLoss rnd r pos),
              accuracy = toFixed3 (toDouble (1 - tickLoss rnd r pos)) \<rparr> \<le> 1 \<and>
         0 \<le> accuracy \<lparr> epoch = currentEpoch r + 1, loss = toFixed3 (tickLoss rnd r pos),
              accuracy = toFixed3 (toDouble (1 - tickLoss rnd r pos)) \<rparr> \<and>
         accuracy \<lparr> epoch = currentEpoch r + 1, loss = toFixed3 (tickLoss rnd r pos),
              accuracy = toFixed3 (toDouble (1 - tickLoss rnd r pos)) \<rparr> \<le> 1" by simp
  qed
next
  show "\<forall>r s'. closureOf (params s) rnn r \<and> currentEpoch r < totalEpochs r
                \<and> real (currentEpoch r + 1) / real (totalEpochs r) > 0.5 \<longrightarrow>
              loss (fst (trainStep rnd r s')) =
                toFixed3 (max 0 (min 1 (targetLoss r
                    + exp (- (real (currentEpoch r + 1) / real (totalEpochs r)) * 5 * lrFactor r)
                        * (1 - targetLoss r)
                    + (rnd (rngPos s') - 0.5) * (learningRate (capturedParams r) * 2)
                    + rnd (rngPos s' + 1) * 0.05)))"
  proof (intro allI impI)
    fix r s'
    assume a: "closureOf (params s) rnn r \<and> currentEpoch r < totalEpochs r
                \<and> real (currentEpoch r + 1) / real (totalEpochs r) > 0.5"
    then have h: "real (currentEpoch r + 1) / real (totalEpochs r) > 1/2" by simp
    from a have cl: "closureOf (params s) rnn r" by simp
    show "loss (fst (trainStep rnd r s')) =
                toFixed3 (max 0 (min 1 (targetLoss r
                    + exp (- (real (currentEpoch r + 1) / real (totalEpochs r)) * 5 * lrFactor r)
                        * (1 - targetLoss r)
                    + (rnd (rngPos s') - 0.5) * (learningRate (capturedParams r) * 2)
                    + rnd (rngPos s' + 1) * 0.05)))"
      using tickLoss_add_before_clamp [OF assms(1) cl assms(2) h, of "rngPos s'"]
      by (simp add: trainStep_sample)
  qed
qed

lemma runTraining_epochs:
  assumes N: "2 \<le> epochs (params s)"
  shows "map epoch (fst (runTraining rnd n s)) = [1 ..< 2 + min n (epochs (params s) - 1)]"
proof -
  let ?nxt = "(startClosure rnd s)\<lparr> currentEpoch := 1 \<rparr>"
  have "map epoch (fst (runTicks rnd n (snd (startTraining rnd s)))) =
          [currentEpoch ?nxt + 1 ..< currentEpoch ?nxt + 1 + min n (totalEpochs ?nxt - currentEpoch ?nxt)]"
    by (rule runTicks_epochs [OF run_started(1) [OF N]]) (use N in \<open>simp add: startClosure_fields\<close>)
  then have "map epoch (fst (runTicks rnd n (snd (startTraining rnd s)))) =
          [1 + 1 ..< 1 + 1 + min n (epochs (params s) - 1)]"
    by (simp add: startClosure_fields)
  moreover have "epoch (fst (startTraining rnd s)) = 1"
    by (simp add: startTraining_eq trainStep_sample startClosure_fields)
  ultimately show ?thesis
    using upt_head [of 1 "min n (epochs (params s) - 1)"]
    by (simp add: runTraining_unfold)
qed

lemma runTraining_running:
  assumes N: "2 \<le> epochs (params s)" and j: "j < epochs (params s) - 1"
  shows "status (snd (runTraining rnd j s)) = training"
proof -
  let ?nxt = "(startClosure rnd s)\<lparr> currentEpoch := 1 \<rparr>"
  have "status (snd (runTicks rnd j (snd (startTraining rnd s)))) = status (snd (startTraining rnd s))
         \<and> pending (snd (runTicks rnd j (snd (startTraining rnd s)))) = Some (?nxt\<lparr> currentEpoch := currentEpoch ?nxt + j \<rparr>)"
    by (rule runTicks_running [OF run_started(1) [OF N]]) (use j in \<open>simp add: startClosure_fields\<close>)
  then show ?thesis by (simp add: runTraining_unfold run_started(2) [OF N])
qed

lemma runTraining_done:
  assumes N: "2 \<le> epochs (params s)" and n: "epochs (params s) - 1 \<le> n"
  shows "status (snd (runTraining rnd n s)) = completed"
    and "pending (snd (runTraining rnd n s)) = None"
    and "last (fst (runTraining rnd n s)) =
              \<lparr> epoch = epochs (params s), loss = toFixed3 (finalLoss (snd (runTraining rnd n s))),
                accuracy = toFixed3 (toDouble (1 - finalLoss (snd (runTraining rnd n s)))) \<rparr>"
    and "\<exists>pos. finalLoss (snd (runTraining rnd n s)) =
                tickLoss rnd ((startClosure rnd s)\<lparr> currentEpoch := epochs (params s) - 1 \<rparr>) pos"
proof -
  let ?nxt = "(startClosure rnd s)\<lparr> currentEpoch := 1 \<rparr>"
  let ?s1 = "snd (startTraining rnd s)"
  have d: "status (snd (runTicks rnd n ?s1)) = completed
         \<and> pending (snd (runTicks rnd n ?s1)) = None
         \<and> fst (runTicks rnd n ?s1) \<noteq> []
         \<and> last (fst (runTicks rnd n ?s1)) =
              \<lparr> epoch = totalEpochs ?nxt, loss = toFixed3 (finalLoss (snd (runTicks rnd n ?s1))),
                accuracy = toFixed3 (toDouble (1 - finalLoss (snd (runTicks rnd n ?s1)))) \<rparr>
         \<and> (\<exists>pos. finalLoss (snd (runTicks rnd n ?s1)) =
                tickLoss rnd (?nxt\<lparr> currentEpoch := totalEpochs ?nxt - 1 \<rparr>) pos)"
    by (rule runTicks_done [OF run_started(1) [OF N]]) (use N n in \<open>simp_all add: startClosure_fields\<close>)
  from d show "status (snd (runTraining rnd n s)) = completed" by (simp add: runTraining_unfold)
  from d show "pending (snd (runTraining rnd n s)) = None" by (simp add: runTraining_unfold)
  from d show "last (fst (runTraining rnd n s)) =
              \<lparr> epoch = epochs (params s), loss = toFixed3 (finalLoss (snd (runTraining rnd n s))),
                accuracy = toFixed3 (toDouble (1 - finalLoss (snd (runTraining rnd n s)))) \<rparr>"
    by (simp add: runTraining_unfold startClosure_fields)
  from d show "\<exists>pos. finalLoss (snd (runTraining rnd n s)) =
                tickLoss rnd ((startClosure rnd s)\<lparr> currentEpoch := epochs (params s) - 1 \<rparr>) pos"
    by (simp add: runTraining_unfold startClosure_fields)
qed

text \<open>
  Claim C2. For valid parameters, a run that is started and left to finish (at least
  \<open>epochs - 1\<close> timeouts after the start) emits exactly \<open>epochs\<close> samples with epoch
  values \<open>1, 2, \<dots>, epochs\<close>; then no timeout is pending, the status is \<open>completed\<close> and
  \<open>finalLoss\<close> is the loss of the last tick (the last sample's loss is its rounding).
  At every earlier point the status is still \<open>training\<close>.
\<close>

theorem C2_run_emits_all_epochs_then_completes:
  assumes "validParams (params s)" and "epochs (params s) - 1 \<le> n"
  shows "length (fst (runTraining rnd n s)) = epochs (params s)
         \<and> map epoch (fst (runTraining rnd n s)) = [1 ..< epochs (params s) + 1]
         \<and> status (snd (runTraining rnd n s)) = completed
         \<and> pending (snd (runTraining rnd n s)) = None
         \<and> epoch (last (fst (runTraining rnd n s))) = epochs (params s)
         \<and> loss (last (fst (runTraining rnd n s))) = toFixed3 (finalLoss (snd (runTraining rnd n s)))
         \<and> (\<forall>j. j < epochs (params s) - 1 \<longrightarrow>
               status (snd (runTraining rnd j s)) = training
               \<and> map epoch (fst (runTraining rnd j s)) = [1 ..< j + 2])"
proof -
  have N: "2 \<le> epochs (params s)" using assms(1) by (rule valid_two)
  have k: "2 + min n (epochs (params s) - 1) = epochs (params s) + 1"
    using assms(2) N by (auto simp: min_def)
  have e: "map epoch (fst (runTraining rnd n s)) = [1 ..< epochs (params s) + 1]"
    using runTraining_epochs [OF N, of rnd n] unfolding k .
  have "length (map epoch (fst (runTraining rnd n s))) = epochs (params s)"
    unfolding e by simp
  then have l: "length (fst (runTraining rnd n s)) = epochs (params s)" by simp
  have r: "\<forall>j. j < epochs (params s) - 1 \<longrightarrow>
               status (snd (runTraining rnd j s)) = training
               \<and> map epoch (fst (runTraining rnd j s)) = [1 ..< j + 2]"
  proof (intro allI impI conjI)
    fix j assume j: "j < epochs (params s) - 1"
    show "status (snd (runTraining rnd j s)) = training"
      using N j by (rule runTraining_running)
    have "2 + min j (epochs (params s) - 1) = j + 2" using j by (auto simp: min_def)
    then show "map epoch (fst (runTraining rnd j s)) = [1 ..< j + 2]"
      using runTraining_epochs [OF N, of rnd j] by (simp only:)
  qed
  note d = runTraining_done [OF N assms(2), of rnd]
  have la: "epoch (last (fst (runTraining rnd n s))) = epochs (params s)"
    "loss (last (fst (runTraining rnd n s))) = toFixed3 (finalLoss (snd (runTraining rnd n s)))"
    unfolding d(3) by simp_all
  from l e d(1) d(2) la r show ?thesis by blast
qed

lemma runTraining_metrics:
  "metrics (snd (runTraining rnd n s)) = cap50 (fst (runTraining rnd n s))"
proof -
  have m1: "metrics (snd (startTraining rnd s)) = [fst (startTraining rnd s)]"
    using trainStep_metrics [of rnd "startClosure rnd s" "startState s"]
    by (simp add: startTraining_eq startState_fields cap50_def)
  then have "length (metrics (snd (startTraining rnd s))) \<le> 50" by simp
  from runTicks_metrics [OF this, of rnd n] show ?thesis
    by (simp add: runTraining_unfold m1)
qed

text \<open>
  Claim C8. At every point of a run (after any number of timeouts) the history holds at
  most 50 samples and is exactly the last 50 of the samples emitted so far, in the order
  of emission; for valid parameters its epochs are the most recent ones, increasing.
\<close>

theorem C8_history_is_last_fifty:
  "length (metrics (snd (runTraining rnd n s))) \<le> 50
   \<and> metrics (snd (runTraining rnd n s)) =
       drop (length (fst (runTraining rnd n s)) - 50) (fst (runTraining rnd n s))
   \<and> (validParams (params s) \<longrightarrow>
        map epoch (metrics (snd (runTraining rnd n s))) =
          [2 + min n (epochs (params s) - 1) - min 50 (1 + min n (epochs (params s) - 1))
             ..< 2 + min n (epochs (params s) - 1)])"
proof -
  have m: "metrics (snd (runTraining rnd n s)) = cap50 (fst (runTraining rnd n s))"
    by (rule runTraining_metrics)
  have 1: "length (metrics (snd (runTraining rnd n s))) \<le> 50" unfolding m by (rule cap50_length)
  have 2: "metrics (snd (runTraining rnd n s)) =
       drop (length (fst (runTraining rnd n s)) - 50) (fst (runTraining rnd n s))"
    unfolding m by (simp add: cap50_def)
  have 3: "map epoch (metrics (snd (runTraining rnd n s))) =
          [2 + min n (epochs (params s) - 1) - min 50 (1 + min n (epochs (params s) - 1))
             ..< 2 + min n (epochs (params s) - 1)]" if "validParams (params s)"
  proof -
    have N: "2 \<le> epochs (params s)" using that by (rule valid_two)
    define k where "k = min n (epochs (params s) - 1)"
    have e: "map epoch (fst (runTraining rnd n s)) = [1 ..< 2 + k]"
      unfolding k_def by (rule runTraining_epochs [OF N])
    then have "length (map epoch (fst (runTraining rnd n s))) = 1 + k" by simp
    then have l: "length (fst (runTraining rnd n s)) = 1 + k" by simp
    have "map epoch (metrics (snd (runTraining rnd n s))) =
            drop (1 + k - 50) (map epoch (fst (runTraining rnd n s)))"
      unfolding 2 l by (simp add: drop_map)
    then have "map epoch (metrics (snd (runTraining rnd n s))) = drop (1 + k - 50) [1 ..< 2 + k]"
      unfolding e .
    also have "\<dots> = [1 + (1 + k - 50) ..< 2 + k]"
      by (rule drop_upt)
    also have "1 + (1 + k - 50) = 2 + k - min 50 (1 + k)"
      by (auto simp: min_def)
    finally show ?thesis unfolding k_def .
  qed
  from 1 2 3 show ?thesis by blast
qed

subsection \<open>Rounded loss and accuracy\<close>

lemma rndOK_halfRnd: "rndOK halfRnd"
  by (simp add: rndOK_def halfRnd_def)

lemma first_sample_emitted:
  "fst (startTraining rnd s) \<in> set (fst (runTraining rnd n s))"
  by (simp add: runTraining_unfold)

lemma validParams_initial: "validParams (params (initialLab mt))"
  by (simp add: validParams_def initialLab_def)






lemma eps_small: "1000 * 2 powr (- 54) < (2 powr (- 44) :: real)" "(2 powr (- 44) :: real) < 1/2"
  "2000 * 2 powr (- 54) < (1/2 :: real)"
  by (simp_all add: powr_minus)

lemma accuracy_vs_loss:
  assumes "0 \<le> L" "L \<le> 1"
  shows "toFixed3 (1 - toFixed3 L) = 1 - toFixed3 L"
    and "toFixed3 (toDouble (1 - toFixed3 L)) = 1 - toFixed3 L"
    and "toFixed3 (toDouble (1 - L)) = 1 - toFixed3 L
         \<or> toFixed3 (toDouble (1 - L)) = 1 - toFixed3 L + 1/1000
         \<or> toFixed3 (toDouble (1 - L)) = 1 - toFixed3 L - 1/1000"
    and "2 powr (- 44) < \<bar>frac (1000 * L) - 1/2\<bar> \<Longrightarrow> toFixed3 (toDouble (1 - L)) = 1 - toFixed3 L"
    and "toFixed3 (toDouble (1 - toDouble (toFixed3 L))) = 1 - toFixed3 L"
proof -
  define n where "n = round (L * 1000)"
  have n: "of_int n \<le> L * 1000 + 1/2" "L * 1000 + 1/2 < of_int n + 1"
    unfolding n_def round_def by linarith+
  have nb: "0 \<le> n" "n \<le> 1000"
    using round_mono [of 0 "L * 1000"] round_mono [of "L * 1000" 1000] assms by (simp_all add: n_def)
  have tl: "toFixed3 L = of_int n / 1000" using assms by (simp add: toFixed3_def n_def)
  have g: "0 \<le> 1 - of_int n / (1000::real)" "1 - of_int n / (1000::real) \<le> 1" using nb by simp_all
  have "(1 - real_of_int n / 1000) * 1000 = real_of_int (1000 - n)" by simp
  then have "round ((1 - real_of_int n / 1000) * 1000) = 1000 - n" by (simp only: round_of_int)
  then show "toFixed3 (1 - toFixed3 L) = 1 - toFixed3 L"
    unfolding tl using g by (simp add: toFixed3_def)
  define y where "y = toDouble (1 - of_int n / 1000)"
  have ey: "\<bar>y - (1 - of_int n / 1000)\<bar> \<le> 2 powr (- 54)"
    unfolding y_def using g by (rule toDouble_error_unit)
  have y0: "0 \<le> y" unfolding y_def using g by (rule toDouble_unit(1))
  have "\<bar>y * 1000 - of_int (1000 - n)\<bar> \<le> 1000 * 2 powr (- 54)" using ey by simp
  then have "of_int (1000 - n) \<le> y * 1000 + 1/2" "y * 1000 + 1/2 < of_int (1000 - n) + 1"
    using eps_small by linarith+
  then have "\<lfloor>y * 1000 + 1/2\<rfloor> = 1000 - n" by linarith
  then have "round (y * 1000) = 1000 - n" by (simp add: round_def)
  then show "toFixed3 (toDouble (1 - toFixed3 L)) = 1 - toFixed3 L"
    unfolding tl using y0 by (simp add: toFixed3_def flip: y_def)
  define d where "d = toDouble (of_int n / 1000)"
  have g': "0 \<le> of_int n / (1000::real)" "of_int n / (1000::real) \<le> 1" using nb by simp_all
  have ed: "\<bar>d - of_int n / 1000\<bar> \<le> 2 powr (- 54)"
    unfolding d_def using g' by (rule toDouble_error_unit)
  have db: "0 \<le> 1 - d" "1 - d \<le> 1" using toDouble_unit [OF g'] by (simp_all add: d_def)
  define v where "v = toDouble (1 - d)"
  have ev: "\<bar>v - (1 - d)\<bar> \<le> 2 powr (- 54)" unfolding v_def using db by (rule toDouble_error_unit)
  have v0: "0 \<le> v" unfolding v_def using db by (rule toDouble_unit(1))
  have "\<bar>v * 1000 - (1000 - of_int n)\<bar> \<le> 2000 * 2 powr (- 54)" using ed ev by linarith
  then have "1000 - of_int n \<le> v * 1000 + 1/2" "v * 1000 + 1/2 < 1000 - of_int n + 1"
    using eps_small(3) by linarith+
  then have "of_int (1000 - n) \<le> v * 1000 + 1/2" "v * 1000 + 1/2 < of_int (1000 - n) + 1"
    by simp_all
  then have "\<lfloor>v * 1000 + 1/2\<rfloor> = 1000 - n" by linarith
  then have "round (v * 1000) = 1000 - n" by (simp add: round_def)
  then show "toFixed3 (toDouble (1 - toDouble (toFixed3 L))) = 1 - toFixed3 L"
    unfolding tl using v0 by (simp add: toFixed3_def flip: d_def v_def)
  define w where "w = toDouble (1 - L)"
  have b: "0 \<le> 1 - L" "1 - L \<le> 1" using assms by simp_all
  have ew: "\<bar>w - (1 - L)\<bar> \<le> 2 powr (- 54)" unfolding w_def using b by (rule toDouble_error_unit)
  have w0: "0 \<le> w" unfolding w_def using b by (rule toDouble_unit(1))
  define m where "m = round (w * 1000)"
  have m: "of_int m \<le> w * 1000 + 1/2" "w * 1000 + 1/2 < of_int m + 1"
    unfolding m_def round_def by linarith+
  have tw: "toFixed3 w = of_int m / 1000" using w0 by (simp add: toFixed3_def m_def)
  have e: "\<bar>w * 1000 - (1000 - L * 1000)\<bar> \<le> 1000 * 2 powr (- 54)" using ew by simp
  have "of_int m + of_int n < (1002::real)" "(998::real) < of_int m + of_int n"
    using m n e eps_small by linarith+
  then have "m + n < 1002" "998 < m + n" by linarith+
  then have "m = 1000 - n \<or> m = 1000 - n + 1 \<or> m = 1000 - n - 1" by linarith
  then show "toFixed3 (toDouble (1 - L)) = 1 - toFixed3 L
         \<or> toFixed3 (toDouble (1 - L)) = 1 - toFixed3 L + 1/1000
         \<or> toFixed3 (toDouble (1 - L)) = 1 - toFixed3 L - 1/1000"
    unfolding tl tw [unfolded w_def] by auto
  assume far: "2 powr (- 44) < \<bar>frac (1000 * L) - 1/2\<bar>"
  define f where "f = \<lfloor>1000 * L\<rfloor>"
  have f: "of_int f \<le> 1000 * L" "1000 * L < of_int f + 1" unfolding f_def by linarith+
  have "of_int f < (of_int n + 1 :: real)" "(of_int n - 1 :: real) < of_int f + 1" using f n by linarith+
  then have "f < n + 1" "n - 1 < f + 1" by linarith+
  then have fn: "f = n \<or> f = n - 1" by linarith
  have fr: "frac (1000 * L) = 1000 * L - of_int f" by (simp add: frac_def f_def)
  have far': "2 powr (- 44) < \<bar>1000 * L - of_int f - 1/2\<bar>" using far unfolding fr .
  have "of_int n - 1/2 + 2 powr (- 44) < 1000 * L \<and> 1000 * L < of_int n + 1/2 - 2 powr (- 44)"
    using fn
  proof
    assume "f = n"
    then have "real_of_int f = of_int n" by simp
    then show ?thesis using far' n f eps_small by linarith
  next
    assume "f = n - 1"
    then have "real_of_int f = of_int n - 1" by simp
    then show ?thesis using far' n f eps_small by linarith
  qed
  then have "1000 - of_int n \<le> w * 1000 + 1/2" "w * 1000 + 1/2 < 1000 - of_int n + 1"
    using e eps_small by linarith+
  then have "of_int (1000 - n) \<le> w * 1000 + 1/2" "w * 1000 + 1/2 < of_int (1000 - n) + 1"
    by simp_all
  then have "\<lfloor>w * 1000 + 1/2\<rfloor> = 1000 - n" by linarith
  then have "m = 1000 - n" by (simp add: m_def round_def)
  then show "toFixed3 (toDouble (1 - L)) = 1 - toFixed3 L"
    unfolding tl tw [unfolded w_def] by simp
qed


lemma roundEven_tie_even:
  assumes "z = of_int f + 1/2" "even f"
  shows "roundEven z = f"
proof -
  have "\<lfloor>z\<rfloor> = f" using assms(1) by linarith
  then show ?thesis using assms by (simp add: roundEven_def)
qed

text \<open>
  The stored accuracy can also fall short: at the double \<open>0.09649999999999997\<close> the
  loss is stored as \<open>0.096\<close>, the double subtraction gives a number just below
  \<open>0.9035\<close> and the accuracy is stored as \<open>0.903\<close>, while \<open>round3 (1 - 0.096) = 0.904\<close>.
\<close>

lemma accuracy_below_example:
  "toFixed3 (1738389456165011 / 18014398509481984) = 96/1000
   \<and> toFixed3 (toDouble (1 - 1738389456165011 / 18014398509481984)) = 903/1000
   \<and> toFixed3 (toDouble (1 - toFixed3 (1738389456165011 / 18014398509481984))) = 904/1000"
proof -
  let ?L = "1738389456165011 / 18014398509481984 :: real"
  have l: "toFixed3 ?L = 96/1000" by (simp add: toFixed3_def round_def)
  have r: "roundEven ((1 - ?L) / 2 powr (of_int (- 1) - 52)) = 8138004526658486"
    by (rule roundEven_tie_even) (simp_all add: powr_minus)
  have "toDouble (1 - ?L) = of_int 8138004526658486 * 2 powr (of_int (- 1) - 52)"
    by (rule toDouble_eval [OF _ _ _ _ r]) (simp_all add: powr_minus)
  then have d: "toDouble (1 - ?L) = 8138004526658486 / 9007199254740992"
    by (simp add: powr_minus)
  have a: "toFixed3 (toDouble (1 - ?L)) = 903/1000"
    unfolding d by (simp add: toFixed3_def round_def)
  have "toFixed3 (toDouble (1 - toFixed3 ?L)) = 1 - toFixed3 ?L"
    by (rule accuracy_vs_loss(2)) simp_all
  then have g: "toFixed3 (toDouble (1 - 96/1000)) = 1 - 96/1000" unfolding l .
  show ?thesis unfolding l using a g by simp
qed














subsection \<open>Concrete runs\<close>

lemma startClosure_initial:
  "closureOf (params (initialLab rnn)) rnn ((startClosure halfRnd (initialLab rnn))\<lparr> currentEpoch := 49 \<rparr>)"
  using closureOf_epoch [OF startClosure_closureOf [OF rndOK_halfRnd, of "initialLab rnn"], of 49]
  by (simp add: initialLab_def)

theorem C1_witness:
  "validParams (params (initialLab rnn)) \<and> rndOK halfRnd
   \<and> fst (startTraining halfRnd (initialLab rnn)) \<in> set (fst (runTraining halfRnd 49 (initialLab rnn)))
   \<and> 0 \<le> loss (fst (startTraining halfRnd (initialLab rnn)))
   \<and> loss (fst (startTraining halfRnd (initialLab rnn))) \<le> 1
   \<and> 0 \<le> accuracy (fst (startTraining halfRnd (initialLab rnn)))
   \<and> accuracy (fst (startTraining halfRnd (initialLab rnn))) \<le> 1
   \<and> closureOf (params (initialLab rnn)) rnn ((startClosure halfRnd (initialLab rnn))\<lparr> currentEpoch := 49 \<rparr>)
   \<and> real (49 + 1) / real (50::nat) > 0.5
   \<and> loss (fst (trainStep halfRnd ((startClosure halfRnd (initialLab rnn))\<lparr> currentEpoch := 49 \<rparr>)
                 (initialLab rnn)))
       = toFixed3 (max 0 (min 1 (targetLoss (startClosure halfRnd (initialLab rnn))
            + exp (- (real (49 + 1) / real (50::nat)) * 5 * lrFactor (startClosure halfRnd (initialLab rnn)))
                * (1 - targetLoss (startClosure halfRnd (initialLab rnn)))
            + (halfRnd 0 - 0.5) * (learningRate (params (initialLab rnn)) * 2)
            + halfRnd 1 * 0.05)))"
proof -
  note t = C1_samples_in_unit_interval [where s = "initialLab rnn" and rnd = halfRnd and n = 49,
      OF validParams_initial rndOK_halfRnd]
  from t have a: "\<forall>m \<in> set (fst (runTraining halfRnd 49 (initialLab rnn))).
            0 \<le> loss m \<and> loss m \<le> 1 \<and> 0 \<le> accuracy m \<and> accuracy m \<le> 1" by (rule conjunct1)
  from t have b: "\<forall>r s'. closureOf (params (initialLab rnn)) rnn r \<and> currentEpoch r < totalEpochs r
                \<and> real (currentEpoch r + 1) / real (totalEpochs r) > 0.5 \<longrightarrow>
              loss (fst (trainStep halfRnd r s')) =
                toFixed3 (max 0 (min 1 (targetLoss r
                    + exp (- (real (currentEpoch r + 1) / real (totalEpochs r)) * 5 * lrFactor r)
                        * (1 - targetLoss r)
                    + (halfRnd (rngPos s') - 0.5) * (learningRate (capturedParams r) * 2)
                    + halfRnd (rngPos s' + 1) * 0.05)))" by (rule conjunct2)
  from a first_sample_emitted [of halfRnd "initialLab rnn" 49]
  have 1: "0 \<le> loss (fst (startTraining halfRnd (initialLab rnn)))
   \<and> loss (fst (startTraining halfRnd (initialLab rnn))) \<le> 1
   \<and> 0 \<le> accuracy (fst (startTraining halfRnd (initialLab rnn)))
   \<and> accuracy (fst (startTraining halfRnd (initialLab rnn))) \<le> 1" by blast
  from b [rule_format, of "(startClosure halfRnd (initialLab rnn))\<lparr> currentEpoch := 49 \<rparr>" "initialLab rnn"]
    startClosure_initial
  have 2: "loss (fst (trainStep halfRnd ((startClosure halfRnd (initialLab rnn))\<lparr> currentEpoch := 49 \<rparr>)
                 (initialLab rnn)))
       = toFixed3 (max 0 (min 1 (targetLoss (startClosure halfRnd (initialLab rnn))
            + exp (- (real (49 + 1) / real (50::nat)) * 5 * lrFactor (startClosure halfRnd (initialLab rnn)))
                * (1 - targetLoss (startClosure halfRnd (initialLab rnn)))
            + (halfRnd 0 - 0.5) * (learningRate (params (initialLab rnn)) * 2)
            + halfRnd 1 * 0.05)))"
    by (simp add: startClosure_def initialLab_def)
  have 3: "real (49 + 1) / real (50::nat) > 0.5" by simp
  from 1 2 3 validParams_initial [of rnn] rndOK_halfRnd startClosure_initial
    first_sample_emitted [of halfRnd "initialLab rnn" 49]
  show ?thesis by blast
qed

theorem C2_witness:
  "validParams (params (initialLab fnn)) \<and> epochs (params (initialLab fnn)) - 1 \<le> 49
   \<and> length (fst (runTraining halfRnd 49 (initialLab fnn))) = 50
   \<and> map epoch (fst (runTraining halfRnd 49 (initialLab fnn))) = [1 ..< 51]
   \<and> status (snd (runTraining halfRnd 49 (initialLab fnn))) = completed
   \<and> loss (last (fst (runTraining halfRnd 49 (initialLab fnn))))
        = toFixed3 (finalLoss (snd (runTraining halfRnd 49 (initialLab fnn))))
   \<and> (3::nat) < epochs (params (initialLab fnn)) - 1
   \<and> status (snd (runTraining halfRnd 3 (initialLab fnn))) = training"
proof -
  have e: "epochs (params (initialLab fnn)) = 50" by (simp add: initialLab_def)
  have n: "epochs (params (initialLab fnn)) - 1 \<le> 49" by (simp add: e)
  note t = C2_run_emits_all_epochs_then_completes [where s = "initialLab fnn" and rnd = halfRnd and n = 49,
      OF validParams_initial n]
  from t have r: "\<forall>j. j < epochs (params (initialLab fnn)) - 1 \<longrightarrow>
               status (snd (runTraining halfRnd j (initialLab fnn))) = training
               \<and> map epoch (fst (runTraining halfRnd j (initialLab fnn))) = [1 ..< j + 2]" by blast
  have 3: "(3::nat) < epochs (params (initialLab fnn)) - 1" by (simp add: e)
  from r 3 have 4: "status (snd (runTraining halfRnd 3 (initialLab fnn))) = training" by blast
  from t have 5: "length (fst (runTraining halfRnd 49 (initialLab fnn))) = 50"
    "map epoch (fst (runTraining halfRnd 49 (initialLab fnn))) = [1 ..< 51]"
    "status (snd (runTraining halfRnd 49 (initialLab fnn))) = completed"
    "loss (last (fst (runTraining halfRnd 49 (initialLab fnn))))
        = toFixed3 (finalLoss (snd (runTraining halfRnd 49 (initialLab fnn))))"
    unfolding e by simp_all
  from validParams_initial [of fnn] n 3 4 5 show ?thesis by blast
qed

theorem C8_witness:
  "validParams (params longLab)
   \<and> map epoch (metrics (snd (runTraining halfRnd 99 longLab))) = [51 ..< 101]
   \<and> length (metrics (snd (runTraining halfRnd 99 longLab))) \<le> 50"
proof -
  have p: "params longLab = \<lparr> epochs = 100, learningRate = 0.01 \<rparr>"
    by (simp add: longLab_def handleParamChange_def initialLab_def)
  have v: "validParams (params longLab)" by (simp add: p validParams_def)
  note t = C8_history_is_last_fifty [where s = longLab and rnd = halfRnd and n = 99]
  from t v have "map epoch (metrics (snd (runTraining halfRnd 99 longLab))) =
          [2 + min 99 (epochs (params longLab) - 1) - min 50 (1 + min 99 (epochs (params longLab) - 1))
             ..< 2 + min 99 (epochs (params longLab) - 1)]" by blast
  moreover have "2 + min 99 (epochs (params longLab) - 1) - min 50 (1 + min 99 (epochs (params longLab) - 1)) = (51::nat)"
    "2 + min 99 (epochs (params longLab) - 1) = (101::nat)" by (simp_all add: p)
  ultimately have "map epoch (metrics (snd (runTraining halfRnd 99 longLab))) = [51 ..< 101]"
    by (simp only:)
  with t v show ?thesis by blast
qed

subsection \<open>The generation service\<close>

lemma generateCouplet_resolves: "\<exists>res. generateCouplet env up mt ctx = Inr res"
  by (simp add: generateCouplet_def split: sum.split)

lemma generateCouplet_caught:
  "tryBody env up mt ctx = Inl e \<Longrightarrow> generateCouplet env up mt ctx = Inr (failureResult up e)"
  by (simp add: generateCouplet_def)

lemma tryBody_no_key:
  "apiKey env = None \<or> apiKey env = Some [] \<Longrightarrow>
   tryBody env up mt ctx = Inl (Error ''API Key is missing'')"
  by (auto simp: tryBody_def Let_def)

lemma tryBody_fetch_rejects:
  "apiKey env = Some k \<Longrightarrow> k \<noteq> [] \<Longrightarrow> fetch env (requestOf k up mt ctx) = Inl e \<Longrightarrow>
   tryBody env up mt ctx = Inl e"
  by (simp add: tryBody_def Let_def)

lemma tryBody_not_ok:
  "apiKey env = Some k \<Longrightarrow> k \<noteq> [] \<Longrightarrow> fetch env (requestOf k up mt ctx) = Inr resp \<Longrightarrow>
   \<not> ok resp \<Longrightarrow>
   tryBody env up mt ctx =
     Inl (Error (''Gemini API Error: '' @ showNat (statusCode resp) @ '' - '' @ body resp))"
  by (simp add: tryBody_def Let_def)

lemma tryBody_body_unparseable:
  "apiKey env = Some k \<Longrightarrow> k \<noteq> [] \<Longrightarrow> fetch env (requestOf k up mt ctx) = Inr resp \<Longrightarrow>
   ok resp \<Longrightarrow> JSON_parse env (body resp) = Inl e \<Longrightarrow>
   tryBody env up mt ctx = Inl e"
  by (simp add: tryBody_def Let_def)

lemma tryBody_empty:
  "apiKey env = Some k \<Longrightarrow> k \<noteq> [] \<Longrightarrow> fetch env (requestOf k up mt ctx) = Inr resp \<Longrightarrow>
   ok resp \<Longrightarrow> JSON_parse env (body resp) = Inr data \<Longrightarrow> extractText data = Inr tx \<Longrightarrow>
   falsy tx \<Longrightarrow>
   tryBody env up mt ctx = Inl (Error ''No response from Gemini API'')"
  by (simp add: tryBody_def Let_def)

lemma tryBody_text_unparseable:
  "apiKey env = Some k \<Longrightarrow> k \<noteq> [] \<Longrightarrow> fetch env (requestOf k up mt ctx) = Inr resp \<Longrightarrow>
   ok resp \<Longrightarrow> JSON_parse env (body resp) = Inr data \<Longrightarrow> extractText data = Inr tx \<Longrightarrow>
   \<not> falsy tx \<Longrightarrow> JSON_parse env (parseArgument env tx) = Inl e \<Longrightarrow>
   tryBody env up mt ctx = Inl e"
  by (simp add: tryBody_def Let_def)

lemma tryBody_score:
  "tryBody env up mt ctx = Inr res \<Longrightarrow> qualityScore res = Some (qualityScoreOf (contextLoss ctx))"
  by (auto simp: tryBody_def Let_def split: option.splits if_splits sum.splits)

lemma score_default: "qualityScoreOf (contextLoss None) = 90"
  using qualityScoreOf_tenth by (simp add: contextLoss_def)

lemma fit_default: "fitStatus (contextLoss None) = Converged"
  by (simp add: fitStatus_def contextLoss_def)

lemma tryBody_ctx_default:
  "tryBody env up mt None = tryBody env up mt (Some \<lparr> ctxLoss = 0.1, ctxEpochs = n \<rparr>)"
proof -
  have "requestOf k up mt (Some \<lparr> ctxLoss = 0.1, ctxEpochs = n \<rparr>) = requestOf k up mt None" for k
    by (simp add: requestOf_def buildPrompt_def contextLoss_def)
  then show ?thesis
    by (simp add: tryBody_def contextLoss_def cong: option.case_cong sum.case_cong if_cong)
qed

text \<open>
  Claim C6. \<open>generateCouplet\<close> always resolves to a result, never rejects. Whenever the
  \<open>try\<close> block throws, the result is the failure result: the fixed marker as generated
  text, the explanation carrying the error's message, and score 0. Each listed cause
  makes the block throw: a missing or empty API key, a rejected \<open>fetch\<close>, a non-OK
  status, a body that does not parse, an empty text, a text that does not parse.
\<close>

theorem C6_generation_failure_recovered:
  "(\<exists>res. generateCouplet env up mt ctx = Inr res)
   \<and> (tryBody env up mt ctx = Inl e \<longrightarrow>
        generateCouplet env up mt ctx =
          Inr \<lparr> upper = up, lower = JStr callFailed,
                explanation = JStr (failurePrefix @ message e), qualityScore = Some 0 \<rparr>)
   \<and> (apiKey env = None \<or> apiKey env = Some [] \<longrightarrow>
        tryBody env up mt ctx = Inl (Error ''API Key is missing''))
   \<and> (apiKey env = Some k \<and> k \<noteq> [] \<and> fetch env (requestOf k up mt ctx) = Inl ea \<longrightarrow>
        tryBody env up mt ctx = Inl ea)
   \<and> (apiKey env = Some k \<and> k \<noteq> [] \<and> fetch env (requestOf k up mt ctx) = Inr resp \<and> \<not> ok resp \<longrightarrow>
        tryBody env up mt ctx =
          Inl (Error (''Gemini API Error: '' @ showNat (statusCode resp) @ '' - '' @ body resp)))
   \<and> (apiKey env = Some k \<and> k \<noteq> [] \<and> fetch env (requestOf k up mt ctx) = Inr resp \<and> ok resp
        \<and> JSON_parse env (body resp) = Inl eb \<longrightarrow>
        tryBody env up mt ctx = Inl eb)
   \<and> (apiKey env = Some k \<and> k \<noteq> [] \<and> fetch env (requestOf k up mt ctx) = Inr resp \<and> ok resp
        \<and> JSON_parse env (body resp) = Inr data \<and> extractText data = Inr tx \<and> falsy tx \<longrightarrow>
        tryBody env up mt ctx = Inl (Error ''No response from Gemini API''))
   \<and> (apiKey env = Some k \<and> k \<noteq> [] \<and> fetch env (requestOf k up mt ctx) = Inr resp \<and> ok resp
        \<and> JSON_parse env (body resp) = Inr data \<and> extractText data = Inr tx \<and> \<not> falsy tx
        \<and> JSON_parse env (parseArgument env tx) = Inl ec \<longrightarrow>
        tryBody env up mt ctx = Inl ec)"
proof (intro conjI impI)
  show "\<exists>res. generateCouplet env up mt ctx = Inr res" by (rule generateCouplet_resolves)
next
  assume "tryBody env up mt ctx = Inl e"
  then show "generateCouplet env up mt ctx =
          Inr \<lparr> upper = up, lower = JStr callFailed,
                explanation = JStr (failurePrefix @ message e), qualityScore = Some 0 \<rparr>"
    by (simp add: generateCouplet_caught failureResult_def)
next
  assume "apiKey env = None \<or> apiKey env = Some []"
  then show "tryBody env up mt ctx = Inl (Error ''API Key is missing'')" by (rule tryBody_no_key)
next
  assume "apiKey env = Some k \<and> k \<noteq> [] \<and> fetch env (requestOf k up mt ctx) = Inl ea"
  then show "tryBody env up mt ctx = Inl ea" by (simp add: tryBody_fetch_rejects)
next
  assume "apiKey env = Some k \<and> k \<noteq> [] \<and> fetch env (requestOf k up mt ctx) = Inr resp \<and> \<not> ok resp"
  then show "tryBody env up mt ctx =
          Inl (Error (''Gemini API Error: '' @ showNat (statusCode resp) @ '' - '' @ body resp))"
    by (simp add: tryBody_not_ok)
next
  assume "apiKey env = Some k \<and> k \<noteq> [] \<and> fetch env (requestOf k up mt ctx) = Inr resp \<and> ok resp
        \<and> JSON_parse env (body resp) = Inl eb"
  then show "tryBody env up mt ctx = Inl eb" by (simp add: tryBody_body_unparseable)
next
  assume "apiKey env = Some k \<and> k \<noteq> [] \<and> fetch env (requestOf k up mt ctx) = Inr resp \<and> ok resp
        \<and> JSON_parse env (body resp) = Inr data \<and> extractText data = Inr tx \<and> falsy tx"
  then show "tryBody env up mt ctx = Inl (Error ''No response from Gemini API'')"
    by (simp add: tryBody_empty)
next
  assume "apiKey env = Some k \<and> k \<noteq> [] \<and> fetch env (requestOf k up mt ctx) = Inr resp \<and> ok resp
        \<and> JSON_parse env (body resp) = Inr data \<and> extractText data = Inr tx \<and> \<not> falsy tx
        \<and> JSON_parse env (parseArgument env tx) = Inl ec"
  then show "tryBody env up mt ctx = Inl ec" by (simp add: tryBody_text_unparseable)
qed

lemma requestOf_default:
  "requestOf k up mt (Some \<lparr> ctxLoss = 0.1, ctxEpochs = n \<rparr>) = requestOf k up mt None"
  by (simp add: requestOf_def buildPrompt_def contextLoss_def)

lemma generateCouplet_ctx_default:
  "generateCouplet env up mt None = generateCouplet env up mt (Some \<lparr> ctxLoss = 0.1, ctxEpochs = n \<rparr>)"
  by (simp add: generateCouplet_def tryBody_ctx_default [of env up mt n])

lemma tryBody_good:
  "tryBody envGood ''abc'' lstm None =
     Inr \<lparr> upper = ''abc'', lower = JStr ''line'', explanation = JStr ''why'',
           qualityScore = Some 90 \<rparr>"
  by (simp add: tryBody_def envGood_def envTruncated_def envOffline_def envNoKey_def replyJson_def
      extractText_def parseArgument_def orElse_def score_default Let_def)

text \<open>
  Claim C10. Without a training context the loss defaults to \<open>0.1\<close>: the prompt takes the
  converged branch at both choice points, the call behaves exactly as with a context of
  loss \<open>0.1\<close> (so the missing argument is no failure of its own), and every result
  returned by the \<open>try\<close> block carries score 90.
\<close>

theorem C10_default_context:
  "contextLoss None = 0.1
   \<and> fitStatus (contextLoss None) = Converged
   \<and> promptStatus (buildPrompt up mt None) = Converged
   \<and> promptQualityBlock (buildPrompt up mt None) = Converged
   \<and> generateCouplet env up mt None
        = generateCouplet env up mt (Some \<lparr> ctxLoss = 0.1, ctxEpochs = n \<rparr>)
   \<and> (tryBody env up mt None = Inr res \<longrightarrow>
        generateCouplet env up mt None = Inr res \<and> qualityScore res = Some 90)"
  using fit_default generateCouplet_ctx_default [of env up mt n] tryBody_score [of env up mt None res]
    score_default
  by (simp add: contextLoss_def buildPrompt_def generateCouplet_def)

theorem C10_witness:
  "tryBody envGood ''abc'' lstm None =
     Inr \<lparr> upper = ''abc'', lower = JStr ''line'', explanation = JStr ''why'', qualityScore = Some 90 \<rparr>
   \<and> generateCouplet envGood ''abc'' lstm None =
     Inr \<lparr> upper = ''abc'', lower = JStr ''line'', explanation = JStr ''why'', qualityScore = Some 90 \<rparr>
   \<and> qualityScore \<lparr> upper = ''abc'', lower = JStr ''line'', explanation = JStr ''why'',
                      qualityScore = Some 90 \<rparr> = Some 90"
proof -
  note t = C10_default_context [where up = "''abc''" and mt = lstm and env = envGood and n = 0
      and res = "\<lparr> upper = ''abc'', lower = JStr ''line'', explanation = JStr ''why'',
                   qualityScore = Some 90 \<rparr>"]
  from t tryBody_good
  have "generateCouplet envGood ''abc'' lstm None =
     Inr \<lparr> upper = ''abc'', lower = JStr ''line'', explanation = JStr ''why'', qualityScore = Some 90 \<rparr>
     \<and> qualityScore \<lparr> upper = ''abc'', lower = JStr ''line'', explanation = JStr ''why'',
                      qualityScore = Some 90 \<rparr> = Some 90"
    by blast
  with tryBody_good show ?thesis by blast
qed

lemmas env_defs = envNoKey_def envOffline_def envStatus503_def envGarbled_def envEmpty_def
  envTruncated_def replyJson_def

theorem C6_witness:
  "generateCouplet envNoKey ''abc'' rnn None =
     Inr \<lparr> upper = ''abc'', lower = JStr callFailed,
           explanation = JStr (failurePrefix @ ''API Key is missing''), qualityScore = Some 0 \<rparr>
   \<and> generateCouplet envOffline ''abc'' rnn None =
     Inr \<lparr> upper = ''abc'', lower = JStr callFailed,
           explanation = JStr (failurePrefix @ ''Failed to fetch''), qualityScore = Some 0 \<rparr>
   \<and> generateCouplet envStatus503 ''abc'' rnn None =
     Inr \<lparr> upper = ''abc'', lower = JStr callFailed,
           explanation = JStr (failurePrefix @ ''Gemini API Error: '' @ showNat 503 @ '' - '' @ ''unavailable''),
           qualityScore = Some 0 \<rparr>
   \<and> generateCouplet envGarbled ''abc'' rnn None =
     Inr \<lparr> upper = ''abc'', lower = JStr callFailed,
           explanation = JStr (failurePrefix @ ''Unexpected token''), qualityScore = Some 0 \<rparr>
   \<and> generateCouplet envEmpty ''abc'' rnn None =
     Inr \<lparr> upper = ''abc'', lower = JStr callFailed,
           explanation = JStr (failurePrefix @ ''No response from Gemini API''), qualityScore = Some 0 \<rparr>
   \<and> generateCouplet envTruncated ''abc'' rnn None =
     Inr \<lparr> upper = ''abc'', lower = JStr callFailed,
           explanation = JStr (failurePrefix @ ''Unexpected end of JSON input''), qualityScore = Some 0 \<rparr>"
proof (intro conjI)
  note t = C6_generation_failure_recovered [where env = envNoKey and up = "''abc''" and mt = rnn
      and ctx = None and e = "Error ''API Key is missing''"]
  have h: "apiKey envNoKey = None \<or> apiKey envNoKey = Some []" by (simp add: env_defs)
  from t h have "tryBody envNoKey ''abc'' rnn None = Inl (Error ''API Key is missing'')" by blast
  with t show "generateCouplet envNoKey ''abc'' rnn None =
     Inr \<lparr> upper = ''abc'', lower = JStr callFailed,
           explanation = JStr (failurePrefix @ ''API Key is missing''), qualityScore = Some 0 \<rparr>"
    by simp
next
  note t = C6_generation_failure_recovered [where env = envOffline and up = "''abc''" and mt = rnn
      and ctx = None and k = "''key''" and e = "TypeError ''Failed to fetch''"
      and ea = "TypeError ''Failed to fetch''"]
  have h: "apiKey envOffline = Some ''key'' \<and> ''key'' \<noteq> []
           \<and> fetch envOffline (requestOf ''key'' ''abc'' rnn None) = Inl (TypeError ''Failed to fetch'')"
    by (simp add: env_defs)
  from t h have "tryBody envOffline ''abc'' rnn None = Inl (TypeError ''Failed to fetch'')" by blast
  with t show "generateCouplet envOffline ''abc'' rnn None =
     Inr \<lparr> upper = ''abc'', lower = JStr callFailed,
           explanation = JStr (failurePrefix @ ''Failed to fetch''), qualityScore = Some 0 \<rparr>"
    by simp
next
  let ?resp = "\<lparr> ok = False, statusCode = 503, body = ''unavailable'' \<rparr>"
  note t = C6_generation_failure_recovered [where env = envStatus503 and up = "''abc''" and mt = rnn
      and ctx = None and k = "''key''" and resp = ?resp
      and e = "Error (''Gemini API Error: '' @ showNat (statusCode ?resp) @ '' - '' @ body ?resp)"]
  have h: "apiKey envStatus503 = Some ''key'' \<and> ''key'' \<noteq> []
           \<and> fetch envStatus503 (requestOf ''key'' ''abc'' rnn None) = Inr ?resp \<and> \<not> ok ?resp"
    by (simp add: env_defs)
  from t h have "tryBody envStatus503 ''abc'' rnn None
      = Inl (Error (''Gemini API Error: '' @ showNat (statusCode ?resp) @ '' - '' @ body ?resp))" by blast
  with t show "generateCouplet envStatus503 ''abc'' rnn None =
     Inr \<lparr> upper = ''abc'', lower = JStr callFailed,
           explanation = JStr (failurePrefix @ ''Gemini API Error: '' @ showNat 503 @ '' - '' @ ''unavailable''),
           qualityScore = Some 0 \<rparr>"
    by simp
next
  let ?resp = "\<lparr> ok = True, statusCode = 200, body = ''<html>'' \<rparr>"
  note t = C6_generation_failure_recovered [where env = envGarbled and up = "''abc''" and mt = rnn
      and ctx = None and k = "''key''" and resp = ?resp
      and e = "SyntaxError ''Unexpected token''" and eb = "SyntaxError ''Unexpected token''"]
  have h: "apiKey envGarbled = Some ''key'' \<and> ''key'' \<noteq> []
           \<and> fetch envGarbled (requestOf ''key'' ''abc'' rnn None) = Inr ?resp \<and> ok ?resp
           \<and> JSON_parse envGarbled (body ?resp) = Inl (SyntaxError ''Unexpected token'')"
    by (simp add: env_defs)
  from t h have "tryBody envGarbled ''abc'' rnn None = Inl (SyntaxError ''Unexpected token'')" by blast
  with t show "generateCouplet envGarbled ''abc'' rnn None =
     Inr \<lparr> upper = ''abc'', lower = JStr callFailed,
           explanation = JStr (failurePrefix @ ''Unexpected token''), qualityScore = Some 0 \<rparr>"
    by simp
next
  let ?resp = "\<lparr> ok = True, statusCode = 200, body = ''{}'' \<rparr>"
  note t = C6_generation_failure_recovered [where env = envEmpty and up = "''abc''" and mt = rnn
      and ctx = None and k = "''key''" and resp = ?resp and data = "JObj []" and tx = None
      and e = "Error ''No response from Gemini API''"]
  have h: "apiKey envEmpty = Some ''key'' \<and> ''key'' \<noteq> []
           \<and> fetch envEmpty (requestOf ''key'' ''abc'' rnn None) = Inr ?resp \<and> ok ?resp
           \<and> JSON_parse envEmpty (body ?resp) = Inr (JObj []) \<and> extractText (JObj []) = Inr None
           \<and> falsy None"
    by (simp add: env_defs extractText_def)
  from t h have "tryBody envEmpty ''abc'' rnn None = Inl (Error ''No response from Gemini API'')" by blast
  with t show "generateCouplet envEmpty ''abc'' rnn None =
     Inr \<lparr> upper = ''abc'', lower = JStr callFailed,
           explanation = JStr (failurePrefix @ ''No response from Gemini API''), qualityScore = Some 0 \<rparr>"
    by simp
next
  let ?resp = "\<lparr> ok = True, statusCode = 200, body = ''reply'' \<rparr>"
  note t = C6_generation_failure_recovered [where env = envTruncated and up = "''abc''" and mt = rnn
      and ctx = None and k = "''key''" and resp = ?resp and data = replyJson
      and tx = "Some (JStr ''couplet'')"
      and e = "SyntaxError ''Unexpected end of JSON input''"
      and ec = "SyntaxError ''Unexpected end of JSON input''"]
  have h: "apiKey envTruncated = Some ''key'' \<and> ''key'' \<noteq> []
           \<and> fetch envTruncated (requestOf ''key'' ''abc'' rnn None) = Inr ?resp \<and> ok ?resp
           \<and> JSON_parse envTruncated (body ?resp) = Inr replyJson
           \<and> extractText replyJson = Inr (Some (JStr ''couplet''))
           \<and> \<not> falsy (Some (JStr ''couplet''))
           \<and> JSON_parse envTruncated (parseArgument envTruncated (Some (JStr ''couplet'')))
                = Inl (SyntaxError ''Unexpected end of JSON input'')"
    by (simp add: env_defs extractText_def parseArgument_def)
  from t h have "tryBody envTruncated ''abc'' rnn None = Inl (SyntaxError ''Unexpected end of JSON input'')"
    by blast
  with t show "generateCouplet envTruncated ''abc'' rnn None =
     Inr \<lparr> upper = ''abc'', lower = JStr callFailed,
           explanation = JStr (failurePrefix @ ''Unexpected end of JSON input''), qualityScore = Some 0 \<rparr>"
    by simp
qed

subsection \<open>The component under arbitrary events\<close>

lemma labInv_initial: "labInv (initialLab mt)"
  by (simp add: labInv_def initialLab_def)

lemma labInv_no_timers: "1 \<le> nextTimerId s \<Longrightarrow> \<forall>i. timers s i = None \<Longrightarrow> labInv s"
  by (simp add: labInv_def)

lemma trainStep_inv:
  assumes "\<forall>i. timers s i = None" "1 \<le> nextTimerId s" "status s = training"
  shows "labInv (snd (trainStep rnd r s))"
  using assms by (simp add: trainStep_def Let_def labInv_def)

lemma startTraining_inv:
  assumes "labInv s" "status s \<noteq> training"
  shows "labInv (snd (startTraining rnd s))"
proof -
  have "\<forall>i. timers s i = None" using assms by (auto simp: labInv_def)
  then have "\<forall>i. timers (startState s) i = None" by (simp add: startState_def)
  moreover have "1 \<le> nextTimerId (startState s)" using assms(1) by (simp add: startState_def labInv_def)
  moreover have "status (startState s) = training" by (simp add: startState_def)
  ultimately show ?thesis unfolding startTraining_eq by (rule trainStep_inv)
qed

lemma fireTimer_inv:
  assumes "labInv s"
  shows "labInv (snd (fireTimer rnd i s))"
proof (cases "timers s i")
  case None
  then show ?thesis using assms by (simp add: fireTimer_def)
next
  case (Some r)
  then have a: "trainingRef s = Some i" "status s = training" using assms by (auto simp: labInv_def)
  have "\<forall>j. timers (clearTimeout i s) j = None"
  proof
    fix j show "timers (clearTimeout i s) j = None"
      using assms a(1) by (cases "j = i") (auto simp: labInv_def clearTimeout_def)
  qed
  moreover have "1 \<le> nextTimerId (clearTimeout i s)" using assms by (simp add: labInv_def clearTimeout_def)
  moreover have "status (clearTimeout i s) = training" using a(2) by (simp add: clearTimeout_def)
  ultimately have "labInv (snd (trainStep rnd r (clearTimeout i s)))" by (rule trainStep_inv)
  then show ?thesis using Some by (simp add: fireTimer_def case_prod_beta)
qed

lemma handleParamChange_inv:
  assumes "labInv s" "status s \<noteq> training"
  shows "labInv (handleParamChange ne nr s)"
proof -
  have "\<forall>i. timers s i = None" using assms by (auto simp: labInv_def)
  then show ?thesis using assms(1) by (simp add: handleParamChange_def Let_def labInv_def)
qed

lemma resetLab_timers:
  assumes "labInv s"
  shows "\<forall>i. timers (resetLab (s\<lparr> modelType := m \<rparr>)) i = None"
proof
  fix i
  show "timers (resetLab (s\<lparr> modelType := m \<rparr>)) i = None"
  proof (cases "timers s i")
    case None
    then show ?thesis by (simp add: resetLab_def clearTimeout_def Let_def split: option.splits)
  next
    case (Some r)
    then have "trainingRef s = Some i" "i \<noteq> 0" using assms by (auto simp: labInv_def)
    then show ?thesis by (simp add: resetLab_def clearTimeout_def Let_def)
  qed
qed

lemma resetLab_fields:
  "status (resetLab s) = idle" "metrics (resetLab s) = []" "progress (resetLab s) = 0"
  "finalLoss (resetLab s) = 1" "testResult (resetLab s) = None"
  "nextTimerId (resetLab s) = nextTimerId s"
  by (simp_all add: resetLab_def clearTimeout_def Let_def split: option.splits)

lemma resetLab_inv:
  assumes "labInv s"
  shows "labInv (resetLab (s\<lparr> modelType := m \<rparr>))"
proof (rule labInv_no_timers)
  show "1 \<le> nextTimerId (resetLab (s\<lparr> modelType := m \<rparr>))"
    using assms by (simp add: resetLab_fields labInv_def)
  show "\<forall>i. timers (resetLab (s\<lparr> modelType := m \<rparr>)) i = None"
    using assms by (rule resetLab_timers)
qed

lemma labStep_inv:
  assumes "labInv s"
  shows "labInv (snd (labStep rnd ev s))"
proof (cases ev)
  case ClickStart
  then show ?thesis
    using assms startTraining_inv [OF assms, of rnd]
    by (simp add: startDisabled_def case_prod_beta)
next
  case (ChangeEpochs n)
  then show ?thesis
    using assms handleParamChange_inv [OF assms] by (simp add: paramsDisabled_def)
next
  case (ChangeLearningRate x)
  then show ?thesis
    using assms handleParamChange_inv [OF assms] by (simp add: paramsDisabled_def)
next
  case (TimerFires i)
  then show ?thesis using fireTimer_inv [OF assms] by simp
next
  case (ModelTypeChanges m)
  then show ?thesis using assms resetLab_inv [OF assms] by simp
next
  case (TypeInput tx)
  then show ?thesis using assms by (simp add: labInv_def)
next
  case (ClickGenerate env)
  then show ?thesis using assms by (simp add: labInv_def handleGenerate_def)
next
  case GenerationSettles
  then show ?thesis using assms
    by (simp add: labInv_def generationSettles_def split: option.splits sum.splits)
qed

lemma runEvents_inv:
  "labInv s \<Longrightarrow> labInv (snd (runEvents rnd evs s))"
proof (induction evs arbitrary: s)
  case Nil
  then show ?case by simp
next
  case (Cons ev evs)
  have "labInv (snd (labStep rnd ev s))" using Cons.prems by (rule labStep_inv)
  then have "labInv (snd (runEvents rnd evs (snd (labStep rnd ev s))))" by (rule Cons.IH)
  then show ?case by (simp add: case_prod_beta)
qed

lemma reachable_inv: "labInv (snd (runEvents rnd evs (initialLab mt)))"
  using labInv_initial by (rule runEvents_inv)

lemma fire_nothing:
  assumes "\<forall>i. timers s i = None"
  shows "runEvents rnd (map TimerFires ids) s = ([], s)"
  using assms by (induction ids) (simp_all add: fireTimer_def case_prod_beta)

lemma no_timers_no_ticks:
  assumes "\<forall>i. timers s i = None"
  shows "runTicks rnd n s = ([], s)"
proof (rule runTicks_idle)
  show "pending s = None" using assms by (simp add: pending_def split: option.splits)
qed

text \<open>
  Claim C9. \<open>resetLab\<close> runs when the parent passes another model type. In whatever
  state the component is then (any state reachable from the initial one, in particular
  one with a run in progress), afterwards the status is \<open>idle\<close>, the history is empty
  and no timeout is pending, so no timeout that comes due later emits a sample or
  changes the state.
\<close>

theorem C9_reset_cancels_pending_tick:
  "status (resetLab ((snd (runEvents rnd evs (initialLab mt)))\<lparr> modelType := m \<rparr>)) = idle
   \<and> metrics (resetLab ((snd (runEvents rnd evs (initialLab mt)))\<lparr> modelType := m \<rparr>)) = []
   \<and> (\<forall>i. timers (resetLab ((snd (runEvents rnd evs (initialLab mt)))\<lparr> modelType := m \<rparr>)) i = None)
   \<and> (\<forall>ids. runEvents rnd (map TimerFires ids)
               (resetLab ((snd (runEvents rnd evs (initialLab mt)))\<lparr> modelType := m \<rparr>))
             = ([], resetLab ((snd (runEvents rnd evs (initialLab mt)))\<lparr> modelType := m \<rparr>)))
   \<and> (\<forall>n. runTicks rnd n (resetLab ((snd (runEvents rnd evs (initialLab mt)))\<lparr> modelType := m \<rparr>))
             = ([], resetLab ((snd (runEvents rnd evs (initialLab mt)))\<lparr> modelType := m \<rparr>)))"
proof -
  let ?s' = "resetLab ((snd (runEvents rnd evs (initialLab mt)))\<lparr> modelType := m \<rparr>)"
  have t: "\<forall>i. timers ?s' i = None" using reachable_inv by (rule resetLab_timers)
  from t fire_nothing [OF t] no_timers_no_ticks [OF t] show ?thesis
    by (simp add: resetLab_fields)
qed

lemma trainStep_schedule:
  assumes "currentEpoch r + 1 < totalEpochs r"
  shows "trainingRef (snd (trainStep rnd r s)) = Some (nextTimerId s)"
    and "nextTimerId (snd (trainStep rnd r s)) = nextTimerId s + 1"
    and "timers (snd (trainStep rnd r s)) = (timers s)(nextTimerId s \<mapsto> r\<lparr> currentEpoch := currentEpoch r + 1 \<rparr>)"
  using assms by (simp_all add: trainStep_def Let_def)

lemma fireTimer_pending:
  "timers s i = Some r \<Longrightarrow>
   fireTimer rnd i s = ([fst (trainStep rnd r (clearTimeout i s))], snd (trainStep rnd r (clearTimeout i s)))"
  by (simp add: fireTimer_def case_prod_beta)

lemma runEvents_Cons:
  "runEvents rnd (ev # evs) s =
     (fst (labStep rnd ev s) @ fst (runEvents rnd evs (snd (labStep rnd ev s))),
      snd (runEvents rnd evs (snd (labStep rnd ev s))))"
  by (simp add: case_prod_beta)

lemma runTicks_as_events:
  assumes "trainingRef s = Some k" "timers s k = Some r" "nextTimerId s = k + 1"
    and "\<forall>i. i \<noteq> k \<longrightarrow> timers s i = None" and "currentEpoch r < totalEpochs r"
  shows "runTicks rnd n s = runEvents rnd (map TimerFires [k ..< k + n]) s"
  using assms
proof (induction n arbitrary: s k r)
  case 0
  then show ?case by simp
next
  case (Suc n)
  have p: "pending s = Some r" using Suc.prems(1,2) by (simp add: pending_def)
  from p obtain i where i: "trainingRef s = Some i"
    and u: "runTicks rnd (Suc n) s =
           (fst (trainStep rnd r (clearTimeout i s)) # fst (runTicks rnd n (snd (trainStep rnd r (clearTimeout i s)))),
            snd (runTicks rnd n (snd (trainStep rnd r (clearTimeout i s)))))"
    by (rule runTicks_Suc)
  have ik: "i = k" using i Suc.prems(1) by simp
  let ?c = "clearTimeout k s"
  let ?s1 = "snd (trainStep rnd r ?c)"
  have none: "\<forall>j. timers ?c j = None"
    using Suc.prems(4) by (simp add: clearTimeout_def)
  have l: "[k ..< k + Suc n] = k # [k + 1 ..< k + 1 + n]"
    using upt_head [of k n] by simp
  have ev: "runEvents rnd (map TimerFires [k ..< k + Suc n]) s =
        (fst (trainStep rnd r ?c) # fst (runEvents rnd (map TimerFires [k + 1 ..< k + 1 + n]) ?s1),
         snd (runEvents rnd (map TimerFires [k + 1 ..< k + 1 + n]) ?s1))"
    unfolding l by (simp only: list.map runEvents_Cons labStep.simps fireTimer_pending [OF Suc.prems(2)])
       simp
  have "runTicks rnd n ?s1 = runEvents rnd (map TimerFires [k + 1 ..< k + 1 + n]) ?s1"
  proof (cases "currentEpoch r + 1 < totalEpochs r")
    case True
    note sch = trainStep_schedule [OF True, of rnd ?c]
    have nx: "nextTimerId ?c = k + 1" using Suc.prems(3) by (simp add: clearTimeout_def)
    show ?thesis
    proof (rule Suc.IH [where r = "r\<lparr> currentEpoch := currentEpoch r + 1 \<rparr>"])
      show "trainingRef ?s1 = Some (k + 1)" using sch(1) nx by simp
      show "timers ?s1 (k + 1) = Some (r\<lparr> currentEpoch := currentEpoch r + 1 \<rparr>)"
        using sch(3) nx by simp
      show "nextTimerId ?s1 = k + 1 + 1" using sch(2) nx by simp
      show "\<forall>i. i \<noteq> k + 1 \<longrightarrow> timers ?s1 i = None" using sch(3) nx none by simp
      show "currentEpoch (r\<lparr> currentEpoch := currentEpoch r + 1 \<rparr>)
              < totalEpochs (r\<lparr> currentEpoch := currentEpoch r + 1 \<rparr>)" using True by simp
    qed
  next
    case False
    have "timers ?s1 = timers ?c" using False by (rule trainStep_finish(3))
    then have t: "\<forall>j. timers ?s1 j = None" using none by simp
    show ?thesis using no_timers_no_ticks [OF t] fire_nothing [OF t] by simp
  qed
  then show ?case unfolding u ev ik by simp
qed

lemma runTraining_as_events:
  assumes "labInv s" "status s \<noteq> training" "2 \<le> epochs (params s)"
  shows "runTraining rnd n s =
           runEvents rnd (ClickStart # map TimerFires [nextTimerId s ..< nextTimerId s + n]) s"
proof -
  let ?r0 = "startClosure rnd s"
  let ?s1 = "snd (startTraining rnd s)"
  have lt: "currentEpoch ?r0 + 1 < totalEpochs ?r0" using assms(3) by (simp add: startClosure_fields)
  note sch = trainStep_schedule [OF lt, of rnd "startState s"]
  have none: "\<forall>i. timers (startState s) i = None"
    using assms(1,2) by (auto simp: labInv_def startState_def)
  have nx: "nextTimerId (startState s) = nextTimerId s" by (simp add: startState_def)
  have "runTicks rnd n ?s1 = runEvents rnd (map TimerFires [nextTimerId s ..< nextTimerId s + n]) ?s1"
  proof (rule runTicks_as_events [where r = "?r0\<lparr> currentEpoch := currentEpoch ?r0 + 1 \<rparr>"])
    show "trainingRef ?s1 = Some (nextTimerId s)" using sch(1) nx by (simp add: startTraining_eq)
    show "timers ?s1 (nextTimerId s) = Some (?r0\<lparr> currentEpoch := currentEpoch ?r0 + 1 \<rparr>)"
      using sch(3) nx by (simp add: startTraining_eq)
    show "nextTimerId ?s1 = nextTimerId s + 1" using sch(2) nx by (simp add: startTraining_eq)
    show "\<forall>i. i \<noteq> nextTimerId s \<longrightarrow> timers ?s1 i = None"
      using sch(3) nx none by (simp add: startTraining_eq)
    show "currentEpoch (?r0\<lparr> currentEpoch := currentEpoch ?r0 + 1 \<rparr>)
            < totalEpochs (?r0\<lparr> currentEpoch := currentEpoch ?r0 + 1 \<rparr>)" using lt by simp
  qed
  then show ?thesis
    using assms(2) by (simp add: runTraining_unfold startDisabled_def case_prod_beta)
qed

lemma three_ticks:
  "runEvents halfRnd [ClickStart, TimerFires 1, TimerFires 2] (initialLab fnn)
     = runTraining halfRnd 2 (initialLab fnn)"
proof -
  have l: "[nextTimerId (initialLab fnn) ..< nextTimerId (initialLab fnn) + 2] = [1, 2]"
    by (simp add: initialLab_def upt_conv_Cons)
  have "status (initialLab fnn) \<noteq> training" "2 \<le> epochs (params (initialLab fnn))"
    by (simp_all add: initialLab_def)
  with labInv_initial
  have "runTraining halfRnd 2 (initialLab fnn) =
          runEvents halfRnd (ClickStart # map TimerFires
            [nextTimerId (initialLab fnn) ..< nextTimerId (initialLab fnn) + 2]) (initialLab fnn)"
    by (rule runTraining_as_events)
  then show ?thesis unfolding l by (simp only: list.map)
qed

theorem C9_witness:
  "status (snd (runEvents halfRnd [ClickStart, TimerFires 1, TimerFires 2] (initialLab fnn))) = training
   \<and> map epoch (fst (runEvents halfRnd [ClickStart, TimerFires 1, TimerFires 2] (initialLab fnn))) = [1, 2, 3]
   \<and> pending (snd (runEvents halfRnd [ClickStart, TimerFires 1, TimerFires 2] (initialLab fnn))) \<noteq> None
   \<and> status (resetLab ((snd (runEvents halfRnd [ClickStart, TimerFires 1, TimerFires 2] (initialLab fnn)))
                \<lparr> modelType := fnn \<rparr>)) = idle
   \<and> metrics (resetLab ((snd (runEvents halfRnd [ClickStart, TimerFires 1, TimerFires 2] (initialLab fnn)))
                \<lparr> modelType := fnn \<rparr>)) = []
   \<and> pending (resetLab ((snd (runEvents halfRnd [ClickStart, TimerFires 1, TimerFires 2] (initialLab fnn)))
                \<lparr> modelType := fnn \<rparr>)) = None
   \<and> runEvents halfRnd (map TimerFires [3, 3, 4])
        (resetLab ((snd (runEvents halfRnd [ClickStart, TimerFires 1, TimerFires 2] (initialLab fnn)))
                \<lparr> modelType := fnn \<rparr>))
      = ([], resetLab ((snd (runEvents halfRnd [ClickStart, TimerFires 1, TimerFires 2] (initialLab fnn)))
                \<lparr> modelType := fnn \<rparr>))"
proof -
  let ?s = "snd (runEvents halfRnd [ClickStart, TimerFires 1, TimerFires 2] (initialLab fnn))"
  have N: "2 \<le> epochs (params (initialLab fnn))" "2 < epochs (params (initialLab fnn)) - 1"
    by (simp_all add: initialLab_def)
  have 1: "status ?s = training" unfolding three_ticks using N by (rule runTraining_running)
  have "map epoch (fst (runTraining halfRnd 2 (initialLab fnn))) = [1 ..< 2 + min 2 (epochs (params (initialLab fnn)) - 1)]"
    using N(1) by (rule runTraining_epochs)
  then have 2: "map epoch (fst (runEvents halfRnd [ClickStart, TimerFires 1, TimerFires 2] (initialLab fnn))) = [1, 2, 3]"
    unfolding three_ticks by (simp add: initialLab_def upt_conv_Cons)
  let ?nxt = "(startClosure halfRnd (initialLab fnn))\<lparr> currentEpoch := 1 \<rparr>"
  have "status (snd (runTicks halfRnd 2 (snd (startTraining halfRnd (initialLab fnn))))) = status (snd (startTraining halfRnd (initialLab fnn)))
         \<and> pending (snd (runTicks halfRnd 2 (snd (startTraining halfRnd (initialLab fnn))))) = Some (?nxt\<lparr> currentEpoch := currentEpoch ?nxt + 2 \<rparr>)"
    by (rule runTicks_running [OF run_started(1) [OF N(1)]]) (simp add: startClosure_fields initialLab_def)
  then have 3: "pending ?s \<noteq> None" unfolding three_ticks by (simp add: runTraining_unfold)
  note t = C9_reset_cancels_pending_tick [where rnd = halfRnd
      and evs = "[ClickStart, TimerFires 1, TimerFires 2]" and mt = fnn and m = fnn]
  from t have 4: "status (resetLab (?s\<lparr> modelType := fnn \<rparr>)) = idle"
    "metrics (resetLab (?s\<lparr> modelType := fnn \<rparr>)) = []"
    "\<forall>i. timers (resetLab (?s\<lparr> modelType := fnn \<rparr>)) i = None"
    "runEvents halfRnd (map TimerFires [3, 3, 4]) (resetLab (?s\<lparr> modelType := fnn \<rparr>))
       = ([], resetLab (?s\<lparr> modelType := fnn \<rparr>))"
    by blast+
  from 4(3) have 5: "pending (resetLab (?s\<lparr> modelType := fnn \<rparr>)) = None"
    by (simp add: pending_def split: option.splits del: runEvents.simps)
  from 1 2 3 4 5 show ?thesis by blast
qed

subsection \<open>Changing parameters after a run\<close>

lemma handleParamChange_completed:
  assumes "status s = completed"
  shows "status (handleParamChange ne nr s) = idle"
    and "testResult (handleParamChange ne nr s) = None"
    and "finalLoss (handleParamChange ne nr s) = finalLoss s"
    and "metrics (handleParamChange ne nr s) = metrics s"
  using assms by (simp_all add: handleParamChange_def Let_def)

lemma handleParamChange_status:
  "status (handleParamChange ne nr s) = (if status s = completed then idle else status s)"
  by (simp add: handleParamChange_def Let_def)

lemma trainStep_completed:
  assumes "status s \<noteq> completed" "status (snd (trainStep rnd r s)) = completed"
  shows "loss (fst (trainStep rnd r s)) = toFixed3 (finalLoss (snd (trainStep rnd r s)))"
proof (cases "currentEpoch r + 1 < totalEpochs r")
  case True
  then have "status (snd (trainStep rnd r s)) = status s" by (rule trainStep_continue(1))
  with assms show ?thesis by simp
next
  case False
  then have "finalLoss (snd (trainStep rnd r s)) = tickLoss rnd r (rngPos s)" by (rule trainStep_finish(2))
  then show ?thesis by (simp add: trainStep_sample)
qed

lemma completes_only_by_tick:
  assumes "status s \<noteq> completed" "status (snd (labStep rnd ev s)) = completed"
  shows "\<exists>m. fst (labStep rnd ev s) = [m] \<and> loss m = toFixed3 (finalLoss (snd (labStep rnd ev s)))"
proof (cases ev)
  case ClickStart
  show ?thesis
  proof (cases "startDisabled s")
    case True
    with assms ClickStart show ?thesis by simp
  next
    case False
    have st: "status (startState s) \<noteq> completed" by (simp add: startState_def)
    from False ClickStart assms(2)
    have c: "status (snd (trainStep rnd (startClosure rnd s) (startState s))) = completed"
      by (simp add: case_prod_beta startTraining_eq)
    from trainStep_completed [OF st c] False ClickStart show ?thesis
      by (simp add: case_prod_beta startTraining_eq)
  qed
next
  case (ChangeEpochs n)
  with assms show ?thesis by (simp add: handleParamChange_status split: if_splits)
next
  case (ChangeLearningRate x)
  with assms show ?thesis by (simp add: handleParamChange_status split: if_splits)
next
  case (TimerFires i)
  show ?thesis
  proof (cases "timers s i")
    case None
    with assms TimerFires show ?thesis by (simp add: fireTimer_def)
  next
    case (Some r)
    have st: "status (clearTimeout i s) \<noteq> completed" using assms(1) by (simp add: clearTimeout_def)
    from Some TimerFires assms(2)
    have c: "status (snd (trainStep rnd r (clearTimeout i s))) = completed"
      by (simp add: fireTimer_pending)
    from trainStep_completed [OF st c] Some TimerFires show ?thesis
      by (simp add: fireTimer_pending)
  qed
next
  case (ModelTypeChanges m)
  with assms show ?thesis by (simp add: resetLab_fields split: if_splits)
next
  case (TypeInput tx)
  with assms show ?thesis by simp
next
  case (ClickGenerate env)
  with assms show ?thesis by (simp add: generateDisabled_def)
next
  case GenerationSettles
  with assms show ?thesis by (simp add: generationSettles_def split: option.splits sum.splits)
qed

lemma trainStep_frame:
  "finalLoss (snd (trainStep rnd r s)) = finalLoss s
   \<or> (status (snd (trainStep rnd r s)) = completed
      \<and> loss (fst (trainStep rnd r s)) = toFixed3 (finalLoss (snd (trainStep rnd r s))))"
proof (cases "currentEpoch r + 1 < totalEpochs r")
  case True
  then show ?thesis by (simp add: trainStep_continue(3))
next
  case False
  then show ?thesis by (simp add: trainStep_finish(1,2) trainStep_sample)
qed

lemma finalLoss_frame:
  "finalLoss (snd (labStep rnd ev s)) = finalLoss s
   \<or> ((\<exists>mt. ev = ModelTypeChanges mt) \<and> finalLoss (snd (labStep rnd ev s)) = 1)
   \<or> (status (snd (labStep rnd ev s)) = completed
      \<and> (\<exists>m. fst (labStep rnd ev s) = [m] \<and> loss m = toFixed3 (finalLoss (snd (labStep rnd ev s)))))"
proof (cases ev)
  case ClickStart
  show ?thesis
  proof (cases "startDisabled s")
    case True
    with ClickStart show ?thesis by simp
  next
    case False
    have f: "finalLoss (startState s) = finalLoss s" by (simp add: startState_def)
    from trainStep_frame [of rnd "startClosure rnd s" "startState s"] False ClickStart f
    show ?thesis by (simp add: case_prod_beta startTraining_eq)
  qed
next
  case (ChangeEpochs n)
  then show ?thesis by (simp add: handleParamChange_def Let_def)
next
  case (ChangeLearningRate x)
  then show ?thesis by (simp add: handleParamChange_def Let_def)
next
  case (TimerFires i)
  show ?thesis
  proof (cases "timers s i")
    case None
    with TimerFires show ?thesis by (simp add: fireTimer_def)
  next
    case (Some r)
    have f: "finalLoss (clearTimeout i s) = finalLoss s" by (simp add: clearTimeout_def)
    from trainStep_frame [of rnd r "clearTimeout i s"] Some TimerFires f
    show ?thesis by (simp add: fireTimer_pending)
  qed
next
  case (ModelTypeChanges m)
  then show ?thesis by (simp add: resetLab_fields)
next
  case (TypeInput tx)
  then show ?thesis by simp
next
  case (ClickGenerate env)
  then show ?thesis by (simp add: handleGenerate_def)
next
  case GenerationSettles
  then show ?thesis by (simp add: generationSettles_def split: option.splits sum.splits)
qed

lemma runEvents_take_Suc:
  "snd (runEvents rnd (take (Suc k) (ev # evs)) s) = snd (runEvents rnd (take k evs) (snd (labStep rnd ev s)))"
  by (simp add: case_prod_beta)

lemma quiet_run:
  assumes "\<forall>k \<le> length evs. status (snd (runEvents rnd (take k evs) s)) \<noteq> completed"
    and "\<forall>mt. ModelTypeChanges mt \<notin> set evs"
  shows "finalLoss (snd (runEvents rnd evs s)) = finalLoss s"
  using assms
proof (induction evs arbitrary: s)
  case Nil
  then show ?case by simp
next
  case (Cons ev evs)
  let ?s1 = "snd (labStep rnd ev s)"
  have q: "\<forall>k \<le> length evs. status (snd (runEvents rnd (take k evs) ?s1)) \<noteq> completed"
  proof (intro allI impI)
    fix k assume "k \<le> length evs"
    then have "Suc k \<le> length (ev # evs)" by simp
    with Cons.prems(1) have "status (snd (runEvents rnd (take (Suc k) (ev # evs)) s)) \<noteq> completed"
      by blast
    then show "status (snd (runEvents rnd (take k evs) ?s1)) \<noteq> completed"
      unfolding runEvents_take_Suc .
  qed
  have m: "\<forall>mt. ModelTypeChanges mt \<notin> set evs" using Cons.prems(2) by simp
  have ih: "finalLoss (snd (runEvents rnd evs ?s1)) = finalLoss ?s1" using q m by (rule Cons.IH)
  from q have "status (snd (runEvents rnd (take 0 evs) ?s1)) \<noteq> completed" by blast
  then have nc: "status ?s1 \<noteq> completed" by simp
  have nm: "\<not> (\<exists>mt. ev = ModelTypeChanges mt)" using Cons.prems(2) by auto
  from finalLoss_frame [of rnd ev s] nc nm have "finalLoss ?s1 = finalLoss s" by blast
  with ih show ?case by (simp add: case_prod_beta)
qed

text \<open>
  Claim C4, as amended. A parameter change in status \<open>completed\<close> sets the status to
  \<open>idle\<close> and clears the generation result on display, so the generate button is
  disabled and a click on it does nothing; \<open>finalLoss\<close> keeps its value, and so does a
  pending promise of \<open>generateCouplet\<close>: when it settles, the result computed from
  the earlier \<open>finalLoss\<close> is put on display although the status is \<open>idle\<close>. Whatever
  happens to the component in whatever state, \<open>finalLoss\<close> is left as it is, unless the
  model type changes (\<open>resetLab\<close> sets it to 1) or the event is the last tick of a run,
  which sets it to the loss of that tick. The status becomes \<open>completed\<close> again only by
  such a tick. So over any sequence of events without a change of model type during
  which no run completes, \<open>finalLoss\<close> keeps its value and the generate button stays
  without effect.
\<close>

theorem C4_param_change_returns_to_idle:
  "(status s = completed \<longrightarrow>
      status (handleParamChange ne nr s) = idle
      \<and> testResult (handleParamChange ne nr s) = None
      \<and> generateDisabled (handleParamChange ne nr s)
      \<and> finalLoss (handleParamChange ne nr s) = finalLoss s
      \<and> inflight (handleParamChange ne nr s) = inflight s
      \<and> labStep rnd (ChangeEpochs n) s = ([], handleParamChange (Some n) None s)
      \<and> labStep rnd (ChangeLearningRate x) s = ([], handleParamChange None (Some x) s)
      \<and> labStep rnd (ClickGenerate env) (handleParamChange ne nr s) = ([], handleParamChange ne nr s)
      \<and> (\<forall>res. inflight s = Some (Inr res) \<longrightarrow>
            status (snd (labStep rnd GenerationSettles (handleParamChange ne nr s))) = idle
            \<and> testResult (snd (labStep rnd GenerationSettles (handleParamChange ne nr s))) = Some res))
   \<and> (finalLoss (snd (labStep rnd ev s')) = finalLoss s'
       \<or> ((\<exists>mt. ev = ModelTypeChanges mt) \<and> finalLoss (snd (labStep rnd ev s')) = 1)
       \<or> (status (snd (labStep rnd ev s')) = completed
          \<and> (\<exists>m. fst (labStep rnd ev s') = [m]
               \<and> loss m = toFixed3 (finalLoss (snd (labStep rnd ev s'))))))
   \<and> (status s' \<noteq> completed \<and> status (snd (labStep rnd ev s')) = completed \<longrightarrow>
      (\<exists>m. fst (labStep rnd ev s') = [m]
           \<and> loss m = toFixed3 (finalLoss (snd (labStep rnd ev s')))))
   \<and> ((\<forall>k \<le> length evs. status (snd (runEvents rnd (take k evs) sa)) \<noteq> completed)
       \<and> (\<forall>mt. ModelTypeChanges mt \<notin> set evs) \<longrightarrow>
      finalLoss (snd (runEvents rnd evs sa)) = finalLoss sa
      \<and> generateDisabled (snd (runEvents rnd evs sa))
      \<and> (\<forall>env. labStep rnd (ClickGenerate env) (snd (runEvents rnd evs sa))
                 = ([], snd (runEvents rnd evs sa))))"
proof (intro conjI impI)
  assume c: "status s = completed"
  note h = handleParamChange_completed [OF c, of ne nr]
  show "status (handleParamChange ne nr s) = idle" by (rule h(1))
  show "testResult (handleParamChange ne nr s) = None" by (rule h(2))
  show "generateDisabled (handleParamChange ne nr s)" using h(1) by (simp add: generateDisabled_def)
  show "finalLoss (handleParamChange ne nr s) = finalLoss s" by (rule h(3))
  show "inflight (handleParamChange ne nr s) = inflight s"
    by (simp add: handleParamChange_def Let_def)
  show "labStep rnd (ChangeEpochs n) s = ([], handleParamChange (Some n) None s)"
    using c by (simp add: paramsDisabled_def)
  show "labStep rnd (ChangeLearningRate x) s = ([], handleParamChange None (Some x) s)"
    using c by (simp add: paramsDisabled_def)
  show "labStep rnd (ClickGenerate env) (handleParamChange ne nr s) = ([], handleParamChange ne nr s)"
    using h(1) by (simp add: generateDisabled_def)
  show "\<forall>res. inflight s = Some (Inr res) \<longrightarrow>
            status (snd (labStep rnd GenerationSettles (handleParamChange ne nr s))) = idle
            \<and> testResult (snd (labStep rnd GenerationSettles (handleParamChange ne nr s))) = Some res"
    using c by (simp add: generationSettles_def handleParamChange_def Let_def)
next
  show "finalLoss (snd (labStep rnd ev s')) = finalLoss s'
       \<or> ((\<exists>mt. ev = ModelTypeChanges mt) \<and> finalLoss (snd (labStep rnd ev s')) = 1)
       \<or> (status (snd (labStep rnd ev s')) = completed
          \<and> (\<exists>m. fst (labStep rnd ev s') = [m]
               \<and> loss m = toFixed3 (finalLoss (snd (labStep rnd ev s')))))"
    by (rule finalLoss_frame)
next
  assume "status s' \<noteq> completed \<and> status (snd (labStep rnd ev s')) = completed"
  then show "\<exists>m. fst (labStep rnd ev s') = [m]
           \<and> loss m = toFixed3 (finalLoss (snd (labStep rnd ev s')))"
    using completes_only_by_tick [of s' rnd ev] by blast
next
  assume a: "(\<forall>k \<le> length evs. status (snd (runEvents rnd (take k evs) sa)) \<noteq> completed)
       \<and> (\<forall>mt. ModelTypeChanges mt \<notin> set evs)"
  then show "finalLoss (snd (runEvents rnd evs sa)) = finalLoss sa" using quiet_run by blast
  from a have "status (snd (runEvents rnd (take (length evs) evs) sa)) \<noteq> completed" by blast
  then have nc: "status (snd (runEvents rnd evs sa)) \<noteq> completed" by simp
  then show "generateDisabled (snd (runEvents rnd evs sa))" by (simp add: generateDisabled_def)
  show "\<forall>env. labStep rnd (ClickGenerate env) (snd (runEvents rnd evs sa))
                 = ([], snd (runEvents rnd evs sa))"
    using nc by (simp add: generateDisabled_def)
qed


lemma initial_facts:
  "2 \<le> epochs (params (initialLab fnn))" "epochs (params (initialLab fnn)) - 1 \<le> 49"
  "epochs (params (initialLab fnn)) = 50" "status (initialLab fnn) \<noteq> training"
  "nextTimerId (initialLab fnn) = 1"
  by (simp_all add: initialLab_def)

lemma doneLab_completed: "status doneLab = completed"
  unfolding doneLab_def using initial_facts(1,2) by (rule runTraining_done(1))

lemma doneLab_finalLoss: "finalLoss doneLab < 1"
proof -
  let ?r = "(startClosure halfRnd (initialLab fnn))\<lparr> currentEpoch := epochs (params (initialLab fnn)) - 1 \<rparr>"
  from runTraining_done(4) [OF initial_facts(1,2), of halfRnd]
  obtain pos where p: "finalLoss doneLab = tickLoss halfRnd ?r pos" unfolding doneLab_def by blast
  have cl: "closureOf (params (initialLab fnn)) (modelType (initialLab fnn)) ?r"
    using startClosure_closureOf [OF rndOK_halfRnd] by (rule closureOf_epoch)
  have half: "real (currentEpoch ?r + 1) / real (totalEpochs ?r) > 1/2"
    by (simp add: startClosure_fields initial_facts(3))
  show ?thesis unfolding p
    using validParams_initial cl rndOK_halfRnd half by (rule tickLoss_back_half)
qed

text \<open>
  The claim as stated fails: after a completed run a parameter change leaves \<open>finalLoss\<close>
  at the value the run recorded (below 1), not at the value \<open>1.0\<close> that the initial
  state and \<open>resetLab\<close> give it.
\<close>

theorem C4_counterexample:
  "status doneLab = completed
   \<and> finalLoss doneLab < 1
   \<and> status (handleParamChange (Some 20) None doneLab) = idle
   \<and> finalLoss (handleParamChange (Some 20) None doneLab) = finalLoss doneLab
   \<and> finalLoss (handleParamChange (Some 20) None doneLab) \<noteq> finalLoss (initialLab fnn)
   \<and> finalLoss (resetLab doneLab) = finalLoss (initialLab fnn)"
  using doneLab_completed doneLab_finalLoss handleParamChange_completed [OF doneLab_completed, of "Some 20" None]
  by (simp add: resetLab_fields initialLab_def)

lemma runEvents_snoc:
  "runEvents rnd (evs @ [ev]) s =
     (fst (runEvents rnd evs s) @ fst (labStep rnd ev (snd (runEvents rnd evs s))),
      snd (labStep rnd ev (snd (runEvents rnd evs s))))"
  by (induction evs arbitrary: s) (simp_all add: case_prod_beta)

lemma last_timeout:
  "snd (labStep halfRnd (TimerFires 49) (snd (runTraining halfRnd 48 (initialLab fnn)))) = doneLab"
proof -
  have a: "runTraining halfRnd n (initialLab fnn) =
          runEvents halfRnd (ClickStart # map TimerFires [1 ..< 1 + n]) (initialLab fnn)" for n
    using runTraining_as_events [OF labInv_initial initial_facts(4,1), of halfRnd n]
    by (simp only: initial_facts(5))
  have "[1 ..< 1 + 49] = [1 ..< 1 + 48] @ [49::nat]" by (simp add: upt_rec)
  then have "ClickStart # map TimerFires [1 ..< 1 + 49]
          = (ClickStart # map TimerFires [1 ..< 1 + 48]) @ [TimerFires 49]" by simp
  then have "runTraining halfRnd 49 (initialLab fnn) =
          runEvents halfRnd ((ClickStart # map TimerFires [1 ..< 1 + 48]) @ [TimerFires 49]) (initialLab fnn)"
    using a [of 49] by (simp only:)
  then show ?thesis
    unfolding doneLab_def runEvents_snoc a [of 48, symmetric] by simp
qed

lemma trainStep_keeps:
  "isGenerating (snd (trainStep rnd r s)) = isGenerating s"
  "testInput (snd (trainStep rnd r s)) = testInput s"
  "inflight (snd (trainStep rnd r s)) = inflight s"
  "testResult (snd (trainStep rnd r s)) = testResult s"
  "modelType (snd (trainStep rnd r s)) = modelType s"
  "params (snd (trainStep rnd r s)) = params s"
  by (simp_all add: trainStep_def Let_def)

lemma fireDue_keeps:
  "isGenerating (snd (fireDue rnd s)) = isGenerating s"
  "testInput (snd (fireDue rnd s)) = testInput s"
  "inflight (snd (fireDue rnd s)) = inflight s"
  "testResult (snd (fireDue rnd s)) = testResult s"
  "modelType (snd (fireDue rnd s)) = modelType s"
  "params (snd (fireDue rnd s)) = params s"
  by (simp_all add: fireDue_def fireTimer_def trainStep_keeps clearTimeout_def case_prod_beta
      split: option.splits)

lemma runTicks_keeps:
  "isGenerating (snd (runTicks rnd n s)) = isGenerating s
   \<and> testInput (snd (runTicks rnd n s)) = testInput s
   \<and> inflight (snd (runTicks rnd n s)) = inflight s
   \<and> testResult (snd (runTicks rnd n s)) = testResult s
   \<and> modelType (snd (runTicks rnd n s)) = modelType s
   \<and> params (snd (runTicks rnd n s)) = params s"
proof (induction n arbitrary: s)
  case 0
  then show ?case by simp
next
  case (Suc n)
  from Suc.IH [of "snd (fireDue rnd s)"] show ?case
    by (simp add: case_prod_beta fireDue_keeps)
qed

lemma runTraining_keeps:
  "isGenerating (snd (runTraining rnd n s)) = isGenerating s"
  "testInput (snd (runTraining rnd n s)) = testInput s"
  "inflight (snd (runTraining rnd n s)) = inflight s"
  "modelType (snd (runTraining rnd n s)) = modelType s"
  "params (snd (runTraining rnd n s)) = params s"
  using runTicks_keeps [of rnd n "snd (startTraining rnd s)"]
  by (simp_all add: runTraining_unfold startTraining_eq trainStep_keeps startState_def)

lemma doneLab_gen:
  "isGenerating doneLab = False" "testInput doneLab = initialInput" "inflight doneLab = None"
  "modelType doneLab = fnn" "epochs (params doneLab) = 50"
  unfolding doneLab_def runTraining_keeps by (simp_all add: initialLab_def)

lemma initialInput_not_blank: "\<not> isBlank initialInput"
  by (simp add: initialInput_def isAsciiSpace_def isWideSpace_def)

lemma generateCouplet_good:
  "generateCouplet envGood up mt (Some c) =
     Inr \<lparr> upper = up, lower = JStr ''line'', explanation = JStr ''why'',
           qualityScore = Some (qualityScoreOf (ctxLoss c)) \<rparr>"
  by (simp add: generateCouplet_def tryBody_def envGood_def envTruncated_def envOffline_def envNoKey_def
      replyJson_def extractText_def parseArgument_def orElse_def contextLoss_def Let_def)

lemma busyLab_eq: "busyLab = handleGenerate envGood doneLab"
  by (simp add: busyLab_def generateDisabled_def doneLab_gen doneLab_completed)

lemma busyLab_fields:
  "status busyLab = completed" "isGenerating busyLab" "testResult busyLab = None"
  "finalLoss busyLab = finalLoss doneLab"
  "inflight busyLab =
     Some (Inr \<lparr> upper = initialInput, lower = JStr ''line'', explanation = JStr ''why'',
                 qualityScore = Some (qualityScoreOf (finalLoss doneLab)) \<rparr>)"
  unfolding busyLab_eq
  by (simp_all add: handleGenerate_def doneLab_gen doneLab_completed initialInput_not_blank
      generateCouplet_good)

lemma shownLab_fields:
  "status shownLab = completed" "\<not> isGenerating shownLab"
  "testResult shownLab =
     Some \<lparr> upper = initialInput, lower = JStr ''line'', explanation = JStr ''why'',
            qualityScore = Some (qualityScoreOf (finalLoss doneLab)) \<rparr>"
  "finalLoss shownLab = finalLoss doneLab" "inflight shownLab = None"
  by (simp_all add: shownLab_def generationSettles_def busyLab_fields)

lemma labStep_status_keep:
  "status (snd (labStep rnd (ClickGenerate env) s)) = status s"
  "status (snd (labStep rnd GenerationSettles s)) = status s"
  "status (snd (labStep rnd (TypeInput tx) s)) = status s"
  by (simp_all add: handleGenerate_def generationSettles_def split: option.splits sum.splits)

lemma labStep_start:
  assumes "status s \<noteq> training" "2 \<le> epochs (params s)"
  shows "status (snd (labStep rnd ClickStart s)) = training"
  using assms run_started(2) [OF assms(2), of rnd] by (simp add: startDisabled_def case_prod_beta)

lemma retuned_fields:
  "status (handleParamChange (Some 20) None shownLab) = idle"
  "epochs (params (handleParamChange (Some 20) None shownLab)) = 20"
  "finalLoss (handleParamChange (Some 20) None shownLab) = finalLoss doneLab"
  by (simp_all add: handleParamChange_def Let_def shownLab_fields)

lemma next_run_statuses:
  "map (\<lambda>k. status (snd (runEvents halfRnd
            (take k [ClickStart, ClickGenerate envGood, TypeInput ''abc''])
            (handleParamChange (Some 20) None shownLab)))) [0, 1, 2, 3]
     = [idle, training, training, training]"
proof -
  let ?s = "handleParamChange (Some 20) None shownLab"
  have a: "status (snd (labStep halfRnd ClickStart ?s)) = training"
    by (rule labStep_start) (simp_all add: retuned_fields)
  show ?thesis
    by (simp add: case_prod_beta labStep_status_keep a retuned_fields del: labStep.simps)
qed

theorem C4_witness:
  "status shownLab = completed
   \<and> testResult shownLab =
       Some \<lparr> upper = initialInput, lower = JStr ''line'', explanation = JStr ''why'',
              qualityScore = Some (qualityScoreOf (finalLoss doneLab)) \<rparr>
   \<and> labStep halfRnd (ChangeEpochs 20) shownLab = ([], handleParamChange (Some 20) None shownLab)
   \<and> status (handleParamChange (Some 20) None shownLab) = idle
   \<and> testResult (handleParamChange (Some 20) None shownLab) = None
   \<and> generateDisabled (handleParamChange (Some 20) None shownLab)
   \<and> finalLoss (handleParamChange (Some 20) None shownLab) = finalLoss doneLab
   \<and> labStep halfRnd (ClickGenerate envGood) (handleParamChange (Some 20) None shownLab)
       = ([], handleParamChange (Some 20) None shownLab)
   \<and> status busyLab = completed
   \<and> inflight busyLab =
       Some (Inr \<lparr> upper = initialInput, lower = JStr ''line'', explanation = JStr ''why'',
                   qualityScore = Some (qualityScoreOf (finalLoss doneLab)) \<rparr>)
   \<and> status (snd (labStep halfRnd GenerationSettles (handleParamChange (Some 20) None busyLab))) = idle
   \<and> testResult (snd (labStep halfRnd GenerationSettles (handleParamChange (Some 20) None busyLab)))
       = Some \<lparr> upper = initialInput, lower = JStr ''line'', explanation = JStr ''why'',
                qualityScore = Some (qualityScoreOf (finalLoss doneLab)) \<rparr>
   \<and> status (snd (runTraining halfRnd 48 (initialLab fnn))) \<noteq> completed
   \<and> status (snd (labStep halfRnd (TimerFires 49) (snd (runTraining halfRnd 48 (initialLab fnn))))) = completed
   \<and> (\<exists>m. fst (labStep halfRnd (TimerFires 49) (snd (runTraining halfRnd 48 (initialLab fnn)))) = [m]
          \<and> loss m = toFixed3 (finalLoss (snd (labStep halfRnd (TimerFires 49)
                                    (snd (runTraining halfRnd 48 (initialLab fnn)))))))
   \<and> status (snd (labStep halfRnd ClickStart (handleParamChange (Some 20) None shownLab))) = training
   \<and> finalLoss (snd (labStep halfRnd ClickStart (handleParamChange (Some 20) None shownLab)))
       = finalLoss doneLab
   \<and> map (\<lambda>k. status (snd (runEvents halfRnd
            (take k [ClickStart, ClickGenerate envGood, TypeInput ''abc''])
            (handleParamChange (Some 20) None shownLab)))) [0, 1, 2, 3]
       = [idle, training, training, training]
   \<and> finalLoss (snd (runEvents halfRnd [ClickStart, ClickGenerate envGood, TypeInput ''abc'']
                      (handleParamChange (Some 20) None shownLab))) = finalLoss doneLab
   \<and> generateDisabled (snd (runEvents halfRnd [ClickStart, ClickGenerate envGood, TypeInput ''abc'']
                      (handleParamChange (Some 20) None shownLab)))"
proof -
  let ?res = "\<lparr> upper = initialInput, lower = JStr ''line'', explanation = JStr ''why'',
              qualityScore = Some (qualityScoreOf (finalLoss doneLab)) \<rparr>"
  let ?sa = "handleParamChange (Some 20) None shownLab"
  let ?evs = "[ClickStart, ClickGenerate envGood, TypeInput ''abc'']"
  let ?s48 = "snd (runTraining halfRnd 48 (initialLab fnn))"
  note t = C4_param_change_returns_to_idle [where s = shownLab and ne = "Some 20" and nr = None
      and rnd = halfRnd and n = 20 and env = envGood and s' = ?s48 and ev = "TimerFires 49"
      and sa = ?sa and evs = ?evs]
  note u = C4_param_change_returns_to_idle [where s = busyLab and ne = "Some 20" and nr = None
      and rnd = halfRnd and s' = ?sa and ev = ClickStart and evs = "[]"]
  have "48 < epochs (params (initialLab fnn)) - 1" by (simp add: initial_facts(3))
  with initial_facts(1) have "status ?s48 = training" by (rule runTraining_running)
  then have a: "status ?s48 \<noteq> completed" by simp
  have b: "status (snd (labStep halfRnd (TimerFires 49) ?s48)) = completed"
    unfolding last_timeout by (rule doneLab_completed)
  have st: "status (snd (labStep halfRnd ClickStart ?sa)) = training"
    by (rule labStep_start) (simp_all add: retuned_fields)
  have q: "\<forall>k \<le> length ?evs. status (snd (runEvents halfRnd (take k ?evs) ?sa)) \<noteq> completed"
  proof (intro allI impI)
    fix k assume "k \<le> length ?evs"
    then have "k = 0 \<or> k = 1 \<or> k = 2 \<or> k = 3" by auto
    then have "status (snd (runEvents halfRnd (take k ?evs) ?sa))
                 \<in> set (map (\<lambda>k. status (snd (runEvents halfRnd (take k ?evs) ?sa))) [0, 1, 2, 3])"
      by auto
    then show "status (snd (runEvents halfRnd (take k ?evs) ?sa)) \<noteq> completed"
      unfolding next_run_statuses by auto
  qed
  have m: "\<forall>mt. ModelTypeChanges mt \<notin> set ?evs" by simp
  from t shownLab_fields(1) have p1:
    "labStep halfRnd (ChangeEpochs 20) shownLab = ([], ?sa)"
    "status ?sa = idle" "testResult ?sa = None" "generateDisabled ?sa"
    "finalLoss ?sa = finalLoss shownLab"
    "labStep halfRnd (ClickGenerate envGood) ?sa = ([], ?sa)"
    by blast+
  from u busyLab_fields(1,5) have p2:
    "status (snd (labStep halfRnd GenerationSettles (handleParamChange (Some 20) None busyLab))) = idle"
    "testResult (snd (labStep halfRnd GenerationSettles (handleParamChange (Some 20) None busyLab)))
       = Some ?res"
    by blast+
  from t a b have p3: "\<exists>m. fst (labStep halfRnd (TimerFires 49) ?s48) = [m]
          \<and> loss m = toFixed3 (finalLoss (snd (labStep halfRnd (TimerFires 49) ?s48)))"
    by blast
  from u have "finalLoss (snd (labStep halfRnd ClickStart ?sa)) = finalLoss ?sa
       \<or> ((\<exists>mt. ClickStart = ModelTypeChanges mt) \<and> finalLoss (snd (labStep halfRnd ClickStart ?sa)) = 1)
       \<or> (status (snd (labStep halfRnd ClickStart ?sa)) = completed
          \<and> (\<exists>m. fst (labStep halfRnd ClickStart ?sa) = [m]
               \<and> loss m = toFixed3 (finalLoss (snd (labStep halfRnd ClickStart ?sa)))))"
    by blast
  with st have p4: "finalLoss (snd (labStep halfRnd ClickStart ?sa)) = finalLoss ?sa" by auto
  from t q m have p5: "finalLoss (snd (runEvents halfRnd ?evs ?sa)) = finalLoss ?sa"
    "generateDisabled (snd (runEvents halfRnd ?evs ?sa))"
    by blast+
  show ?thesis
    using shownLab_fields(1,3,4) busyLab_fields(1,5) p1 p2 p3 p4 p5 a b st next_run_statuses
    by (simp only:) simp
qed

end
